theory Spec2Isabelle
  imports Main "HOL-Library.AList" "HOL-Library.Sublist"
begin

section \<open>JSON values, Python's view of them, and the configuration store\<close>

text \<open>
  The handler of \<^verbatim>\<open>medusa/server/api/v2/config.py\<close> moves JSON-shaped values between
  HTTP bodies and the attributes of the application module \<^verbatim>\<open>app\<close>. A decoded body and
  every attribute value is a \<open>json\<close>; Python's \<^verbatim>\<open>None\<close> is \<open>JNull\<close>. JSON numbers are
  the integers (Python's unbounded \<^verbatim>\<open>int\<close>); floating point is outside the model. A
  dict is an association list in insertion order.
\<close>

datatype json =
    JNull
  | JBool bool
  | JInt int
  | JStr string
  | JList "json list"
  | JObj "(string \<times> json) list"

type_synonym tree = "(string \<times> json) list"

text \<open>The attributes of \<^verbatim>\<open>app\<close>: \<^verbatim>\<open>app.X\<close> is \<open>s ''X''\<close>, \<^verbatim>\<open>app.X = v\<close> is \<open>s(''X'' := v)\<close>.\<close>

type_synonym store = "string \<Rightarrow> json"

text \<open>Exceptions are values: a function that can raise returns \<open>error + 'a\<close>.\<close>

datatype error =
    KeyError
  | AttributeError
  | TypeError
  | ValueError
  | PersistenceFailure

text \<open>Python's \<^verbatim>\<open>bool(v)\<close>, the truth value every \<^verbatim>\<open>if v:\<close> tests.\<close>

fun py_bool :: "json \<Rightarrow> bool" where
  "py_bool JNull = False"
| "py_bool (JBool b) = b"
| "py_bool (JInt n) = (n \<noteq> 0)"
| "py_bool (JStr s) = (s \<noteq> [])"
| "py_bool (JList xs) = (xs \<noteq> [])"
| "py_bool (JObj kvs) = (kvs \<noteq> [])"

text \<open>\<^verbatim>\<open>a or b\<close>.\<close>

definition py_or :: "json \<Rightarrow> json \<Rightarrow> json" where
  "py_or a b = (if py_bool a then a else b)"

text \<open>
  Python's \<^verbatim>\<open>int(v)\<close>. Reading a number out of text is the interpreter's own parser
  (it differs between the Python versions the repository supports), so it is the
  parameter \<open>parse\<close>, with \<open>None\<close> for text that is not a number.
\<close>

fun py_int :: "(string \<Rightarrow> int option) \<Rightarrow> json \<Rightarrow> error + json" where
  "py_int parse (JInt n) = Inr (JInt n)"
| "py_int parse (JBool b) = Inr (JInt (if b then 1 else 0))"
| "py_int parse (JStr s) = (case parse s of None \<Rightarrow> Inl ValueError | Some n \<Rightarrow> Inr (JInt n))"
| "py_int parse v = Inl TypeError"

section \<open>Path codec\<close>

text \<open>
  \<^verbatim>\<open>iter_nested_items\<close> and \<^verbatim>\<open>set_nested_value\<close> are imported from
  \<^verbatim>\<open>medusa/server/api/v2/base.py\<close>, which is not among the sources.
\<close>

text \<open>\<^verbatim>\<open>key.split('.')\<close>: the segments of a dotted path; never the empty list.\<close>

fun split_dot :: "string \<Rightarrow> string list" where
  "split_dot [] = [[]]"
| "split_dot (c # cs) =
     (if c = CHR ''.'' then [] # split_dot cs
      else (case split_dot cs of [] \<Rightarrow> [[c]] | w # ws \<Rightarrow> (c # w) # ws))"

text \<open>\<^verbatim>\<open>'.'.join(segments)\<close>.\<close>

fun join_dot :: "string list \<Rightarrow> string" where
  "join_dot [] = []"
| "join_dot [k] = k"
| "join_dot (k # ks) = k @ ''.'' @ join_dot ks"

text \<open>
  Modelled from the spec: \<^verbatim>\<open>iter_nested_items(data)\<close> (base.py is not under src/).
  Spec 4.1, flatten: every leaf of the tree paired with the dot-joined path of keys from
  the root, in the tree's own key order; a leaf is any node whose value is not itself a
  nested tree, and a nested empty tree yields no leaf. \<open>pre\<close> is the path of the
  enclosing tree, dot included.
\<close>

function iter_nested_items :: "tree \<Rightarrow> string \<Rightarrow> (string \<times> json) list" where
  "iter_nested_items [] pre = []"
| "iter_nested_items ((k, v) # rest) pre =
     (case v of
        JObj sub \<Rightarrow> iter_nested_items sub (pre @ k @ ''.'')
      | _ \<Rightarrow> [(pre @ k, v)])
     @ iter_nested_items rest pre"
  by pat_completeness auto
termination
  by (relation "measure (\<lambda>(t, p). size_list (size_prod (\<lambda>_. 0) size) t)") auto

text \<open>
  Modelled from the spec: \<^verbatim>\<open>set_nested_value(tree, dottedPath, value)\<close> (base.py is not
  under src/). Spec 4.1, setPath: walk or create the intermediate nested trees for each
  key segment except the last, then assign the value under the final segment,
  overwriting if present. An intermediate segment that already holds a non-tree value
  is the contract violation the spec names; it is the error \<open>TypeError\<close>. A new key
  goes to the end of its dict, an existing one keeps its place (\<open>AList.update\<close>).
\<close>

fun set_path :: "tree \<Rightarrow> string list \<Rightarrow> json \<Rightarrow> error + tree" where
  "set_path d [] v = Inr d"
| "set_path d [k] v = Inr (AList.update k v d)"
| "set_path d (k # ks) v =
     (case map_of d k of
        None \<Rightarrow>
          (case set_path [] ks v of
             Inl e \<Rightarrow> Inl e
           | Inr sub' \<Rightarrow> Inr (AList.update k (JObj sub') d))
      | Some (JObj sub) \<Rightarrow>
          (case set_path sub ks v of
             Inl e \<Rightarrow> Inl e
           | Inr sub' \<Rightarrow> Inr (AList.update k (JObj sub') d))
      | Some _ \<Rightarrow> Inl TypeError)"

definition set_nested_value :: "tree \<Rightarrow> string \<Rightarrow> json \<Rightarrow> error + tree" where
  "set_nested_value d key v = set_path d (split_dot key) v"

text \<open>
  A decoded JSON object has each key once at every level (\<open>wf_tree\<close>). The spec's
  request body is pre-nested: \<^verbatim>\<open>{"torrents": {"enabled": true}}\<close>, not
  \<^verbatim>\<open>{"torrents.enabled": true}\<close>, so no key of a well-formed body holds a dot
  (\<open>dot_free_tree\<close>).
\<close>

definition dot_free :: "string \<Rightarrow> bool" where
  "dot_free k = (CHR ''.'' \<notin> set k)"

function wf_tree :: "tree \<Rightarrow> bool" where
  "wf_tree [] = True"
| "wf_tree ((k, v) # rest) =
     ((case v of JObj sub \<Rightarrow> wf_tree sub | _ \<Rightarrow> True)
      \<and> map_of rest k = None \<and> wf_tree rest)"
  by pat_completeness auto
termination
  by (relation "measure (size_list (size_prod (\<lambda>_. 0) size))") auto

function dot_free_tree :: "tree \<Rightarrow> bool" where
  "dot_free_tree [] = True"
| "dot_free_tree ((k, v) # rest) =
     (dot_free k \<and> (case v of JObj sub \<Rightarrow> dot_free_tree sub | _ \<Rightarrow> True)
      \<and> dot_free_tree rest)"
  by pat_completeness auto
termination
  by (relation "measure (size_list (size_prod (\<lambda>_. 0) size))") auto

text \<open>The segment-wise view of the flattening, used to reason about the codec.\<close>

function leaves :: "tree \<Rightarrow> (string list \<times> json) list" where
  "leaves [] = []"
| "leaves ((k, v) # rest) =
     (case v of
        JObj sub \<Rightarrow> map (\<lambda>(q, w). (k # q, w)) (leaves sub)
      | _ \<Rightarrow> [([k], v)])
     @ leaves rest"
  by pat_completeness auto
termination
  by (relation "measure (size_list (size_prod (\<lambda>_. 0) size))") auto

text \<open>Helpers for stating facts about the codec.\<close>

fun is_obj :: "json \<Rightarrow> bool" where
  "is_obj (JObj sub) = True"
| "is_obj v = False"

definition wf_val :: "json \<Rightarrow> bool" where
  "wf_val v = (case v of JObj sub \<Rightarrow> wf_tree sub | _ \<Rightarrow> True)"

definition dot_free_val :: "json \<Rightarrow> bool" where
  "dot_free_val v = (case v of JObj sub \<Rightarrow> dot_free_tree sub | _ \<Rightarrow> True)"

text \<open>The leaves a value contributes when it is stored under the segments \<open>ks\<close>.\<close>

definition vleaves :: "string list \<Rightarrow> json \<Rightarrow> (string list \<times> json) list" where
  "vleaves ks v =
     (case v of JObj sub \<Rightarrow> map (\<lambda>(q, w). (ks @ q, w)) (leaves sub) | _ \<Rightarrow> [(ks, v)])"

text \<open>The value a tree holds under a list of segments, leaf or sub-tree.\<close>

fun lookup_path :: "json \<Rightarrow> string list \<Rightarrow> json option" where
  "lookup_path v [] = Some v"
| "lookup_path (JObj d) (k # ks) =
     (case map_of d k of None \<Rightarrow> None | Some w \<Rightarrow> lookup_path w ks)"
| "lookup_path v (k # ks) = None"

section \<open>Collaborators\<close>

text \<open>
  Everything the handler reaches that is not in \<^verbatim>\<open>config.py\<close> itself is a field of this
  record: tornado's JSON decoder, the interpreter's text conversions, the functions of
  other Medusa modules that the patch table names, the store's writer, and the values
  the read side takes from other modules. A function that can raise returns \<open>None\<close>
  (or \<open>Inl\<close>) when it does.
  \<^item> \<open>json_decode\<close>: \<^verbatim>\<open>tornado.escape.json_decode\<close>; \<open>None\<close> for a body that is not JSON.
  \<^item> \<open>int_of_text\<close>: the text parser behind \<^verbatim>\<open>int(text)\<close>.
  \<^item> \<open>float_of\<close>: \<^verbatim>\<open>float(v)\<close>; floating point is not modelled.
  \<^item> \<open>text_type\<close>: \<^verbatim>\<open>six.text_type(v)\<close>.
  \<^item> \<open>is_valid_combined_quality\<close>: \<^verbatim>\<open>Quality.is_valid_combined_quality\<close>.
  \<^item> \<open>change_theme\<close>: \<^verbatim>\<open>config.change_theme(value)\<close>, with its effect on \<^verbatim>\<open>app\<close>.
  \<^item> \<open>metadata_patch\<close>: \<^verbatim>\<open>MetadataStructureField(app, 'metadata_provider_dict').patch\<close>,
    the new store and whether the sub-tree was accepted.
  \<^item> \<open>save_config\<close>: \<^verbatim>\<open>app.instance.save_config()\<close>; \<open>False\<close> when the save fails.
  \<^item> \<open>common\<close>: the constants of \<^verbatim>\<open>medusa.common\<close>, by name.
  \<^item> \<open>external\<close>: values of other modules, by the source expression that reads them.
  \<^item> \<open>provider_reprs\<close>: \<^verbatim>\<open>provider.to_json()\<close> for each value of
    \<^verbatim>\<open>app.metadata_provider_dict\<close>, in iteration order.
\<close>

record collaborators =
  json_decode :: "string \<Rightarrow> json option"
  int_of_text :: "string \<Rightarrow> int option"
  float_of :: "json \<Rightarrow> error + json"
  text_type :: "json \<Rightarrow> string"
  is_valid_combined_quality :: "json \<Rightarrow> bool option"
  change_theme :: "store \<Rightarrow> json \<Rightarrow> store option"
  metadata_patch :: "store \<Rightarrow> json \<Rightarrow> store \<times> bool"
  save_config :: "store \<Rightarrow> bool"
  common :: "string \<Rightarrow> json"
  external :: "string \<Rightarrow> json"
  provider_reprs :: "store \<Rightarrow> json list"

section \<open>Field registry\<close>

text \<open>
  The field classes (\<^verbatim>\<open>StringField\<close>, \<^verbatim>\<open>BooleanField\<close>, \<^verbatim>\<open>IntegerField\<close>,
  \<^verbatim>\<open>EnumField\<close>, \<^verbatim>\<open>ListField\<close>, \<^verbatim>\<open>MetadataStructureField\<close>) are imported from
  \<^verbatim>\<open>medusa/server/api/v2/base.py\<close>, which is not among the sources. The record below
  is the Field of spec section 3; the container is always \<^verbatim>\<open>app\<close>. A validator sees
  the store because the table's validators read it; \<open>None\<close> from a validator,
  converter or setter is an exception raised by it.
\<close>

datatype kind = KString | KBoolean | KInteger | KEnum "json list" | KList | KStructured

record field =
  attribute :: string
  kind :: kind
  default_value :: "json option"
  validator :: "(store \<Rightarrow> json \<Rightarrow> bool option) option"
  converter :: "(json \<Rightarrow> json option) option"
  setter :: "(store \<Rightarrow> string \<Rightarrow> json \<Rightarrow> store option) option"
  post_processor :: "(store \<Rightarrow> json \<Rightarrow> store) option"

definition PatchField :: "string \<Rightarrow> kind \<Rightarrow> field" where
  "PatchField attr k =
     \<lparr>attribute = attr, kind = k, default_value = None, validator = None,
      converter = None, setter = None, post_processor = None\<rparr>"

definition StringField :: "string \<Rightarrow> field" where
  "StringField attr = PatchField attr KString"

definition BooleanField :: "string \<Rightarrow> field" where
  "BooleanField attr = PatchField attr KBoolean"

definition IntegerField :: "string \<Rightarrow> field" where
  "IntegerField attr = PatchField attr KInteger"

definition ListField :: "string \<Rightarrow> field" where
  "ListField attr = PatchField attr KList"

definition EnumField :: "string \<Rightarrow> json list \<Rightarrow> field" where
  "EnumField attr enums = PatchField attr (KEnum enums)"

text \<open>
  Modelled from the spec: the kind-specific default conversion of \<^verbatim>\<open>Field.patch\<close>
  (base.py is not under src/). Spec 4.2 step 2: Boolean, boolean coercion; Integer,
  integer coercion, reject on coercion failure; Enum, the candidate if it is a member of
  the declared enum set, else the default; List, String and Structured, identity.
  \<open>None\<close> is the rejection; an Enum field without a default has nothing to fall back
  on and rejects a non-member.
\<close>

definition default_conversion :: "collaborators \<Rightarrow> field \<Rightarrow> json \<Rightarrow> json option" where
  "default_conversion env f v =
     (case kind f of
        KBoolean \<Rightarrow> Some (JBool (py_bool v))
      | KInteger \<Rightarrow> (case py_int (int_of_text env) v of Inl e \<Rightarrow> None | Inr n \<Rightarrow> Some n)
      | KEnum enums \<Rightarrow> (if v \<in> set enums then Some v else default_value f)
      | _ \<Rightarrow> Some v)"

text \<open>
  Modelled from the spec: \<^verbatim>\<open>Field.patch(container, candidate)\<close> (base.py is not under
  src/). Spec 4.2: (1) a validator that returns false rejects, with no mutation and no
  side effect; (2) the stored value is the converter's result, or the default
  conversion's; (3) the setter is called, or the value is assigned to the attribute;
  (4) the post-processor is called; (5) accepted. An exception raised by the validator,
  converter or setter is a rejection of this field only. The result is the store after
  the call and whether the write was accepted. \<open>validate\<close> is step 1,
  \<open>stored_value\<close> step 2, \<open>apply_setter\<close> step 3 and \<open>post_process\<close> step 4.
\<close>

definition validate :: "field \<Rightarrow> store \<Rightarrow> json \<Rightarrow> bool option" where
  "validate f app v = (case validator f of None \<Rightarrow> Some True | Some vd \<Rightarrow> vd app v)"

definition stored_value :: "collaborators \<Rightarrow> field \<Rightarrow> json \<Rightarrow> json option" where
  "stored_value env f v =
     (case converter f of Some cv \<Rightarrow> cv v | None \<Rightarrow> default_conversion env f v)"

definition apply_setter :: "field \<Rightarrow> store \<Rightarrow> json \<Rightarrow> store option" where
  "apply_setter f app stored =
     (case setter f of
        Some st \<Rightarrow> st app (attribute f) stored
      | None \<Rightarrow> Some (app(attribute f := stored)))"

definition post_process :: "field \<Rightarrow> store \<Rightarrow> json \<Rightarrow> store" where
  "post_process f app stored =
     (case post_processor f of None \<Rightarrow> app | Some pp \<Rightarrow> pp app stored)"

definition patch :: "collaborators \<Rightarrow> field \<Rightarrow> store \<Rightarrow> json \<Rightarrow> store \<times> bool" where
  "patch env f app v =
     (case validate f app v of
        None \<Rightarrow> (app, False)
      | Some False \<Rightarrow> (app, False)
      | Some True \<Rightarrow>
          (case stored_value env f v of
             None \<Rightarrow> (app, False)
           | Some stored \<Rightarrow>
               (case apply_setter f app stored of
                  None \<Rightarrow> (app, False)
                | Some app' \<Rightarrow> (post_process f app' stored, True))))"

text \<open>
  A field's patch raises on a candidate when its validator raises, or the validator
  passes and the conversion fails, or the conversion gives a value and the setter raises
  on it.
\<close>

definition raises :: "collaborators \<Rightarrow> field \<Rightarrow> store \<Rightarrow> json \<Rightarrow> bool" where
  "raises env f app v =
     (validate f app v = None
      \<or> (validate f app v = Some True
          \<and> (case stored_value env f v of
                None \<Rightarrow> True
              | Some stored \<Rightarrow> apply_setter f app stored = None)))"

subsection \<open>The functions of config.py that the table names\<close>

text \<open>
  \<^verbatim>\<open>layout_schedule_post_processor(v)\<close>: the calendar layout sorts by date.
\<close>

definition layout_schedule_post_processor :: "store \<Rightarrow> json \<Rightarrow> store" where
  "layout_schedule_post_processor app v =
     (if v = JStr ''calendar'' then app(''COMING_EPS_SORT'' := JStr ''date'') else app)"

text \<open>\<^verbatim>\<open>theme_name_setter(object, name, value)\<close>: \<^verbatim>\<open>config.change_theme(value)\<close>.\<close>

definition theme_name_setter ::
  "collaborators \<Rightarrow> store \<Rightarrow> string \<Rightarrow> json \<Rightarrow> store option" where
  "theme_name_setter env app name v = change_theme env app v"

text \<open>
  \<^verbatim>\<open>season_folders_validator(value)\<close>:
  \<^verbatim>\<open>not (app.NAMING_FORCE_FOLDERS and value is False)\<close>.
\<close>

definition season_folders_validator :: "store \<Rightarrow> json \<Rightarrow> bool option" where
  "season_folders_validator app v =
     Some (\<not> (py_bool (app ''NAMING_FORCE_FOLDERS'') \<and> v = JBool False))"

text \<open>The built-in \<^verbatim>\<open>bool\<close>, passed as \<^verbatim>\<open>converter=bool\<close>.\<close>

definition bool_converter :: "json \<Rightarrow> json option" where
  "bool_converter v = Some (JBool (py_bool v))"

subsection \<open>The patch table\<close>

text \<open>
  \<^verbatim>\<open>ConfigHandler.patches\<close>, entry for entry in the source's order. A keyword argument is
  a record update. \<^verbatim>\<open>validator=lambda v: app.USE_SUBTITLES\<close> returns the attribute, which
  the caller reads as a truth value. The two \<^verbatim>\<open>showDefaults.status\<close> entries pass the
  built-in \<^verbatim>\<open>int\<close> as a fourth positional argument of \<^verbatim>\<open>EnumField\<close>; the spec's Field has
  no component for it and the entries keep the enum set only.
\<close>

definition patches :: "collaborators \<Rightarrow> (string \<times> field) list" where
  "patches env =
    [(''anonRedirect'', StringField ''ANON_REDIRECT''),
     (''emby.enabled'', BooleanField ''USE_EMBY''),
     (''torrents.authType'', StringField ''TORRENT_AUTH_TYPE''),
     (''torrents.dir'', StringField ''TORRENT_DIR''),
     (''torrents.enabled'', BooleanField ''USE_TORRENTS''),
     (''torrents.highBandwidth'', StringField ''TORRENT_HIGH_BANDWIDTH''),
     (''torrents.host'', StringField ''TORRENT_HOST''),
     (''torrents.label'', StringField ''TORRENT_LABEL''),
     (''torrents.labelAnime'', StringField ''TORRENT_LABEL_ANIME''),
     (''torrents.method'', StringField ''TORRENT_METHOD''),
     (''torrents.password'', StringField ''TORRENT_PASSWORD''),
     (''torrents.path'', BooleanField ''TORRENT_PATH''),
     (''torrents.paused'', BooleanField ''TORRENT_PAUSED''),
     (''torrents.rpcurl'', StringField ''TORRENT_RPCURL''),
     (''torrents.seedLocation'', StringField ''TORRENT_SEED_LOCATION''),
     (''torrents.seedTime'', StringField ''TORRENT_SEED_TIME''),
     (''torrents.username'', StringField ''TORRENT_USERNAME''),
     (''torrents.verifySSL'', BooleanField ''TORRENT_VERIFY_CERT''),
     (''nzb.enabled'', BooleanField ''USE_NZBS''),
     (''nzb.dir'', StringField ''NZB_DIR''),
     (''nzb.method'', StringField ''NZB_METHOD''),
     (''nzb.nzbget.category'', StringField ''NZBGET_CATEGORY''),
     (''nzb.nzbget.categoryAnime'', StringField ''NZBGET_CATEGORY_ANIME''),
     (''nzb.nzbget.categoryAnimeBacklog'', StringField ''NZBGET_CATEGORY_ANIME_BACKLOG''),
     (''nzb.nzbget.categoryBacklog'', StringField ''NZBGET_CATEGORY_BACKLOG''),
     (''nzb.nzbget.host'', StringField ''NZBGET_HOST''),
     (''nzb.nzbget.password'', StringField ''NZBGET_PASSWORD''),
     (''nzb.nzbget.priority'', StringField ''NZBGET_PRIORITY''),
     (''nzb.nzbget.useHttps'', BooleanField ''NZBGET_USE_HTTPS''),
     (''nzb.nzbget.username'', StringField ''NZBGET_USERNAME''),
     (''nzb.sabnzbd.apiKey'', StringField ''SAB_APIKEY''),
     (''nzb.sabnzbd.category'', StringField ''SAB_CATEGORY''),
     (''nzb.sabnzbd.categoryAnime'', StringField ''SAB_CATEGORY_ANIME''),
     (''nzb.sabnzbd.categoryAnimeBacklog'', StringField ''SAB_CATEGORY_ANIME_BACKLOG''),
     (''nzb.sabnzbd.categoryBacklog'', StringField ''SAB_CATEGORY_BACKLOG''),
     (''nzb.sabnzbd.forced'', BooleanField ''SAB_FORCED''),
     (''nzb.sabnzbd.host'', StringField ''SAB_HOST''),
     (''nzb.sabnzbd.password'', StringField ''SAB_PASSWORD''),
     (''nzb.sabnzbd.username'', StringField ''SAB_USERNAME''),
     (''selectedRootIndex'', IntegerField ''SELECTED_ROOT''),
     (''layout.schedule'',
      (EnumField ''COMING_EPS_LAYOUT'' [JStr ''poster'', JStr ''banner'', JStr ''list'', JStr ''calendar''])
        \<lparr>default_value := Some (JStr ''banner''),
         post_processor := Some layout_schedule_post_processor\<rparr>),
     (''layout.history'',
      (EnumField ''HISTORY_LAYOUT'' [JStr ''compact'', JStr ''detailed''])
        \<lparr>default_value := Some (JStr ''detailed'')\<rparr>),
     (''layout.home'',
      (EnumField ''HOME_LAYOUT''
        [JStr ''poster'', JStr ''small'', JStr ''banner'', JStr ''simple'', JStr ''coverflow''])
        \<lparr>default_value := Some (JStr ''poster'')\<rparr>),
     (''layout.show.allSeasons'', BooleanField ''DISPLAY_ALL_SEASONS''),
     (''layout.show.specials'', BooleanField ''DISPLAY_SHOW_SPECIALS''),
     (''layout.show.showListOrder'', ListField ''SHOW_LIST_ORDER''),
     (''theme.name'',
      (StringField ''THEME_NAME'')\<lparr>setter := Some (theme_name_setter env)\<rparr>),
     (''backlogOverview.period'', StringField ''BACKLOG_PERIOD''),
     (''backlogOverview.status'', StringField ''BACKLOG_STATUS''),
     (''rootDirs'', ListField ''ROOT_DIRS''),
     (''showDefaults.status'',
      EnumField ''STATUS_DEFAULT''
        [common env ''SKIPPED'', common env ''WANTED'', common env ''IGNORED'']),
     (''showDefaults.statusAfter'',
      EnumField ''STATUS_DEFAULT_AFTER''
        [common env ''SKIPPED'', common env ''WANTED'', common env ''IGNORED'']),
     (''showDefaults.quality'',
      (IntegerField ''QUALITY_DEFAULT'')
        \<lparr>validator := Some (\<lambda>app v. is_valid_combined_quality env v)\<rparr>),
     (''showDefaults.subtitles'',
      (BooleanField ''SUBTITLES_DEFAULT'')
        \<lparr>validator := Some (\<lambda>app v. Some (py_bool (app ''USE_SUBTITLES''))),
         converter := Some bool_converter\<rparr>),
     (''showDefaults.seasonFolders'',
      (BooleanField ''SEASON_FOLDERS_DEFAULT'')
        \<lparr>validator := Some season_folders_validator, converter := Some bool_converter\<rparr>),
     (''showDefaults.anime'',
      (BooleanField ''ANIME_DEFAULT'')\<lparr>converter := Some bool_converter\<rparr>),
     (''showDefaults.scene'',
      (BooleanField ''SCENE_DEFAULT'')\<lparr>converter := Some bool_converter\<rparr>),
     (''postProcessing.showDownloadDir'', StringField ''TV_DOWNLOAD_DIR''),
     (''postProcessing.processAutomatically'', BooleanField ''PROCESS_AUTOMATICALLY''),
     (''postProcessing.processMethod'', StringField ''PROCESS_METHOD''),
     (''postProcessing.deleteRarContent'', BooleanField ''DELRARCONTENTS''),
     (''postProcessing.unpack'', BooleanField ''UNPACK''),
     (''postProcessing.noDelete'', BooleanField ''NO_DELETE''),
     (''postProcessing.postponeIfSyncFiles'', BooleanField ''POSTPONE_IF_SYNC_FILES''),
     (''postProcessing.autoPostprocessorFrequency'', IntegerField ''AUTOPOSTPROCESSOR_FREQUENCY''),
     (''postProcessing.airdateEpisodes'', BooleanField ''AIRDATE_EPISODES''),
     (''postProcessing.moveAssociatedFiles'', BooleanField ''MOVE_ASSOCIATED_FILES''),
     (''postProcessing.allowedExtensions'', ListField ''ALLOWED_EXTENSIONS''),
     (''postProcessing.addShowsWithoutDir'', BooleanField ''ADD_SHOWS_WO_DIR''),
     (''postProcessing.createMissingShowDirs'', BooleanField ''CREATE_MISSING_SHOW_DIRS''),
     (''postProcessing.renameEpisodes'', BooleanField ''RENAME_EPISODES''),
     (''postProcessing.postponeIfNoSubs'', BooleanField ''POSTPONE_IF_NO_SUBS''),
     (''postProcessing.nfoRename'', BooleanField ''NFO_RENAME''),
     (''postProcessing.syncFiles'', ListField ''SYNC_FILES''),
     (''postProcessing.fileTimestampTimezone'', StringField ''FILE_TIMESTAMP_TIMEZONE''),
     (''postProcessing.extraScripts'', ListField ''EXTRA_SCRIPTS''),
     (''postProcessing.extraScriptsUrl'', StringField ''EXTRA_SCRIPTS_URL''),
     (''postProcessing.naming.pattern'', StringField ''NAMING_PATTERN''),
     (''postProcessing.naming.enableCustomNamingAnime'', BooleanField ''NAMING_CUSTOM_ANIME''),
     (''postProcessing.naming.enableCustomNamingSports'', BooleanField ''NAMING_CUSTOM_SPORTS''),
     (''postProcessing.naming.enableCustomNamingAirByDate'', BooleanField ''NAMING_CUSTOM_ABD''),
     (''postProcessing.naming.patternSports'', StringField ''NAMING_SPORTS_PATTERN''),
     (''postProcessing.naming.patternAirByDate'', StringField ''NAMING_ABD_PATTERN''),
     (''postProcessing.naming.patternAnime'', StringField ''NAMING_ANIME_PATTERN''),
     (''postProcessing.naming.animeMultiEp'', IntegerField ''NAMING_ANIME_MULTI_EP''),
     (''postProcessing.naming.animeNamingType'', IntegerField ''NAMING_ANIME''),
     (''postProcessing.naming.multiEp'', IntegerField ''NAMING_MULTI_EP''),
     (''postProcessing.naming.stripYear'', BooleanField ''NAMING_STRIP_YEAR''),
     (''search.general.randomizeProviders'', BooleanField ''RANDOMIZE_PROVIDERS''),
     (''search.general.downloadPropers'', BooleanField ''DOWNLOAD_PROPERS''),
     (''search.general.checkPropersInterval'', StringField ''CHECK_PROPERS_INTERVAL''),
     (''search.general.propersSearchDays'', IntegerField ''PROPERS_SEARCH_DAYS''),
     (''search.general.backlogDays'', IntegerField ''BACKLOG_DAYS''),
     (''search.general.backlogFrequency'', IntegerField ''BACKLOG_FREQUENCY''),
     (''search.general.minBacklogFrequency'', IntegerField ''MIN_BACKLOG_FREQUENCY''),
     (''search.general.dailySearchFrequency'', IntegerField ''DAILYSEARCH_FREQUENCY''),
     (''search.general.minDailySearchFrequency'', IntegerField ''MIN_DAILYSEARCH_FREQUENCY''),
     (''search.general.removeFromClient'', BooleanField ''REMOVE_FROM_CLIENT''),
     (''search.general.torrentCheckerFrequency'', IntegerField ''TORRENT_CHECKER_FREQUENCY''),
     (''search.general.minTorrentCheckerFrequency'', IntegerField ''MIN_TORRENT_CHECKER_FREQUENCY''),
     (''search.general.usenetRetention'', IntegerField ''USENET_RETENTION''),
     (''search.general.trackersList'', ListField ''TRACKERS_LIST''),
     (''search.general.allowHighPriority'', BooleanField ''ALLOW_HIGH_PRIORITY''),
     (''search.general.useFailedDownloads'', BooleanField ''USE_FAILED_DOWNLOADS''),
     (''search.general.deleteFailed'', BooleanField ''DELETE_FAILED''),
     (''search.general.cacheTrimming'', BooleanField ''CACHE_TRIMMING''),
     (''search.general.maxCacheAge'', IntegerField ''MAX_CACHE_AGE''),
     (''search.filters.ignored'', ListField ''IGNORE_WORDS''),
     (''search.filters.undesired'', ListField ''UNDESIRED_WORDS''),
     (''search.filters.preferred'', ListField ''PREFERRED_WORDS''),
     (''search.filters.required'', ListField ''REQUIRE_WORDS''),
     (''search.filters.ignoredSubsList'', ListField ''IGNORED_SUBS_LIST''),
     (''search.filters.ignoreUnknownSubs'', BooleanField ''IGNORE_UND_SUBS''),
     (''notifiers.kodi.enabled'', BooleanField ''USE_KODI''),
     (''notifiers.kodi.alwaysOn'', BooleanField ''USE_KODI''),
     (''notifiers.kodi.notifyOnSnatch'', BooleanField ''KODI_NOTIFY_ONSNATCH''),
     (''notifiers.kodi.notifyOnDownload'', BooleanField ''KODI_NOTIFY_ONDOWNLOAD''),
     (''notifiers.kodi.notifyOnSubtitleDownload'', BooleanField ''KODI_NOTIFY_ONSUBTITLEDOWNLOAD''),
     (''notifiers.kodi.update.library'', BooleanField ''KODI_UPDATE_LIBRARY''),
     (''notifiers.kodi.update.full'', BooleanField ''KODI_UPDATE_FULL''),
     (''notifiers.kodi.update.onlyFirst'', BooleanField ''KODI_UPDATE_ONLYFIRST''),
     (''notifiers.kodi.host'', ListField ''KODI_HOST''),
     (''notifiers.kodi.username'', StringField ''KODI_USERNAME''),
     (''notifiers.kodi.password'', StringField ''KODI_PASSWORD''),
     (''notifiers.kodi.libraryCleanPending'', BooleanField ''KODI_LIBRARY_CLEAN_PENDING''),
     (''notifiers.kodi.cleanLibrary'', BooleanField ''KODI_CLEAN_LIBRARY''),
     (''notifiers.plex.server.enabled'', BooleanField ''USE_PLEX_SERVER''),
     (''notifiers.plex.server.updateLibrary'', BooleanField ''PLEX_UPDATE_LIBRARY''),
     (''notifiers.plex.server.host'', ListField ''PLEX_SERVER_HOST''),
     (''notifiers.plex.server.https'', BooleanField ''PLEX_SERVER_HTTPS''),
     (''notifiers.plex.server.username'', StringField ''PLEX_SERVER_HOST''),
     (''notifiers.plex.server.password'', StringField ''PLEX_SERVER_HOST''),
     (''notifiers.plex.server.token'', StringField ''PLEX_SERVER_HOST''),
     (''notifiers.plex.client.enabled'', BooleanField ''USE_PLEX_CLIENT''),
     (''notifiers.plex.client.username'', StringField ''PLEX_CLIENT_USERNAME''),
     (''notifiers.plex.client.host'', ListField ''PLEX_CLIENT_HOST''),
     (''notifiers.plex.client.notifyOnSnatch'', BooleanField ''PLEX_NOTIFY_ONSNATCH''),
     (''notifiers.plex.client.notifyOnDownload'', BooleanField ''PLEX_NOTIFY_ONDOWNLOAD''),
     (''notifiers.plex.client.notifyOnSubtitleDownload'', BooleanField ''PLEX_NOTIFY_ONSUBTITLEDOWNLOAD''),
     (''notifiers.emby.enabled'', BooleanField ''USE_EMBY''),
     (''notifiers.emby.host'', StringField ''EMBY_HOST''),
     (''notifiers.emby.apiKey'', StringField ''EMBY_APIKEY''),
     (''notifiers.nmj.enabled'', BooleanField ''USE_NMJ''),
     (''notifiers.nmj.host'', StringField ''NMJ_HOST''),
     (''notifiers.nmj.database'', StringField ''NMJ_DATABASE''),
     (''notifiers.nmj.mount'', StringField ''NMJ_MOUNT''),
     (''notifiers.nmjv2.enabled'', BooleanField ''USE_NMJv2''),
     (''notifiers.nmjv2.host'', StringField ''NMJv2_HOST''),
     (''notifiers.nmjv2.dbloc'', StringField ''NMJv2_DBLOC''),
     (''notifiers.nmjv2.database'', StringField ''NMJv2_DATABASE''),
     (''notifiers.synologyIndex.enabled'', BooleanField ''USE_SYNOINDEX''),
     (''notifiers.synology.enabled'', BooleanField ''USE_SYNOLOGYNOTIFIER''),
     (''notifiers.synology.notifyOnSnatch'', BooleanField ''SYNOLOGYNOTIFIER_NOTIFY_ONSNATCH''),
     (''notifiers.synology.notifyOnDownload'', BooleanField ''SYNOLOGYNOTIFIER_NOTIFY_ONDOWNLOAD''),
     (''notifiers.synology.notifyOnSubtitleDownload'', BooleanField ''SYNOLOGYNOTIFIER_NOTIFY_ONSUBTITLEDOWNLOAD''),
     (''notifiers.pyTivo.enabled'', BooleanField ''USE_PYTIVO''),
     (''notifiers.pyTivo.host'', StringField ''PYTIVO_HOST''),
     (''notifiers.pyTivo.name'', StringField ''PYTIVO_TIVO_NAME''),
     (''notifiers.pyTivo.shareName'', StringField ''PYTIVO_SHARE_NAME''),
     (''notifiers.growl.enabled'', BooleanField ''USE_GROWL''),
     (''notifiers.growl.host'', StringField ''GROWL_HOST''),
     (''notifiers.growl.password'', StringField ''GROWL_PASSWORD''),
     (''notifiers.growl.notifyOnSnatch'', BooleanField ''GROWL_NOTIFY_ONSNATCH''),
     (''notifiers.growl.notifyOnDownload'', BooleanField ''GROWL_NOTIFY_ONDOWNLOAD''),
     (''notifiers.growl.notifyOnSubtitleDownload'', BooleanField ''GROWL_NOTIFY_ONSUBTITLEDOWNLOAD''),
     (''notifiers.prowl.enabled'', BooleanField ''USE_PROWL''),
     (''notifiers.prowl.api'', ListField ''PROWL_API''),
     (''notifiers.prowl.messageTitle'', StringField ''PROWL_MESSAGE_TITLE''),
     (''notifiers.prowl.priority'', IntegerField ''PROWL_PRIORITY''),
     (''notifiers.prowl.notifyOnSnatch'', BooleanField ''PROWL_NOTIFY_ONSNATCH''),
     (''notifiers.prowl.notifyOnDownload'', BooleanField ''PROWL_NOTIFY_ONDOWNLOAD''),
     (''notifiers.prowl.notifyOnSubtitleDownload'', BooleanField ''PROWL_NOTIFY_ONSUBTITLEDOWNLOAD''),
     (''notifiers.libnotify.enabled'', BooleanField ''USE_LIBNOTIFY''),
     (''notifiers.libnotify.notifyOnSnatch'', BooleanField ''LIBNOTIFY_NOTIFY_ONSNATCH''),
     (''notifiers.libnotify.notifyOnDownload'', BooleanField ''LIBNOTIFY_NOTIFY_ONDOWNLOAD''),
     (''notifiers.libnotify.notifyOnSubtitleDownload'', BooleanField ''LIBNOTIFY_NOTIFY_ONSUBTITLEDOWNLOAD''),
     (''notifiers.pushover.enabled'', BooleanField ''USE_PUSHOVER''),
     (''notifiers.pushover.apiKey'', StringField ''PUSHOVER_APIKEY''),
     (''notifiers.pushover.userKey'', StringField ''PUSHOVER_USERKEY''),
     (''notifiers.pushover.device'', ListField ''PUSHOVER_DEVICE''),
     (''notifiers.pushover.sound'', StringField ''PUSHOVER_SOUND''),
     (''notifiers.pushover.priority'', IntegerField ''PUSHOVER_PRIORITY''),
     (''notifiers.pushover.notifyOnSnatch'', BooleanField ''PUSHOVER_NOTIFY_ONSNATCH''),
     (''notifiers.pushover.notifyOnDownload'', BooleanField ''PUSHOVER_NOTIFY_ONDOWNLOAD''),
     (''notifiers.pushover.notifyOnSubtitleDownload'', BooleanField ''PUSHOVER_NOTIFY_ONSUBTITLEDOWNLOAD''),
     (''notifiers.boxcar2.enabled'', BooleanField ''USE_BOXCAR2''),
     (''notifiers.boxcar2.accessToken'', StringField ''BOXCAR2_ACCESSTOKEN''),
     (''notifiers.boxcar2.notifyOnSnatch'', BooleanField ''BOXCAR2_NOTIFY_ONSNATCH''),
     (''notifiers.boxcar2.notifyOnDownload'', BooleanField ''BOXCAR2_NOTIFY_ONDOWNLOAD''),
     (''notifiers.boxcar2.notifyOnSubtitleDownload'', BooleanField ''BOXCAR2_NOTIFY_ONSUBTITLEDOWNLOAD''),
     (''notifiers.pushalot.enabled'', BooleanField ''USE_PUSHALOT''),
     (''notifiers.pushalot.authToken'', StringField ''PUSHALOT_AUTHORIZATIONTOKEN''),
     (''notifiers.pushalot.notifyOnSnatch'', BooleanField ''PUSHALOT_NOTIFY_ONSNATCH''),
     (''notifiers.pushalot.notifyOnDownload'', BooleanField ''PUSHALOT_NOTIFY_ONDOWNLOAD''),
     (''notifiers.pushalot.notifyOnSubtitleDownload'', BooleanField ''PUSHALOT_NOTIFY_ONSUBTITLEDOWNLOAD''),
     (''notifiers.pushbullet.enabled'', BooleanField ''USE_PUSHBULLET''),
     (''notifiers.pushbullet.api'', StringField ''PUSHBULLET_API''),
     (''notifiers.pushbullet.device'', StringField ''PUSHBULLET_DEVICE''),
     (''notifiers.pushbullet.notifyOnSnatch'', BooleanField ''PUSHBULLET_NOTIFY_ONSNATCH''),
     (''notifiers.pushbullet.notifyOnDownload'', BooleanField ''PUSHBULLET_NOTIFY_ONDOWNLOAD''),
     (''notifiers.pushbullet.notifyOnSubtitleDownload'', BooleanField ''PUSHBULLET_NOTIFY_ONSUBTITLEDOWNLOAD''),
     (''notifiers.join.enabled'', BooleanField ''USE_JOIN''),
     (''notifiers.join.api'', StringField ''JOIN_API''),
     (''notifiers.join.device'', StringField ''JOIN_DEVICE''),
     (''notifiers.join.notifyOnSnatch'', BooleanField ''JOIN_NOTIFY_ONSNATCH''),
     (''notifiers.join.notifyOnDownload'', BooleanField ''JOIN_NOTIFY_ONDOWNLOAD''),
     (''notifiers.join.notifyOnSubtitleDownload'', BooleanField ''JOIN_NOTIFY_ONSUBTITLEDOWNLOAD''),
     (''notifiers.freemobile.enabled'', BooleanField ''USE_FREEMOBILE''),
     (''notifiers.freemobile.api'', StringField ''FREEMOBILE_APIKEY''),
     (''notifiers.freemobile.id'', StringField ''FREEMOBILE_ID''),
     (''notifiers.freemobile.notifyOnSnatch'', BooleanField ''FREEMOBILE_NOTIFY_ONSNATCH''),
     (''notifiers.freemobile.notifyOnDownload'', BooleanField ''FREEMOBILE_NOTIFY_ONDOWNLOAD''),
     (''notifiers.freemobile.notifyOnSubtitleDownload'', BooleanField ''FREEMOBILE_NOTIFY_ONSUBTITLEDOWNLOAD''),
     (''notifiers.telegram.enabled'', BooleanField ''USE_TELEGRAM''),
     (''notifiers.telegram.api'', StringField ''TELEGRAM_APIKEY''),
     (''notifiers.telegram.id'', StringField ''TELEGRAM_ID''),
     (''notifiers.telegram.notifyOnSnatch'', BooleanField ''TELEGRAM_NOTIFY_ONSNATCH''),
     (''notifiers.telegram.notifyOnDownload'', BooleanField ''TELEGRAM_NOTIFY_ONDOWNLOAD''),
     (''notifiers.telegram.notifyOnSubtitleDownload'', BooleanField ''TELEGRAM_NOTIFY_ONSUBTITLEDOWNLOAD''),
     (''notifiers.twitter.enabled'', BooleanField ''USE_TWITTER''),
     (''notifiers.twitter.dmto'', StringField ''TWITTER_DMTO''),
     (''notifiers.twitter.username'', StringField ''TWITTER_USERNAME''),
     (''notifiers.twitter.password'', StringField ''TWITTER_PASSWORD''),
     (''notifiers.twitter.prefix'', StringField ''TWITTER_PREFIX''),
     (''notifiers.twitter.directMessage'', BooleanField ''TWITTER_USEDM''),
     (''notifiers.twitter.notifyOnSnatch'', BooleanField ''TWITTER_NOTIFY_ONSNATCH''),
     (''notifiers.twitter.notifyOnDownload'', BooleanField ''TWITTER_NOTIFY_ONDOWNLOAD''),
     (''notifiers.twitter.notifyOnSubtitleDownload'', BooleanField ''TWITTER_NOTIFY_ONSUBTITLEDOWNLOAD''),
     (''notifiers.trakt.enabled'', BooleanField ''USE_TRAKT''),
     (''notifiers.trakt.pinUrl'', StringField ''TRAKT_PIN_URL''),
     (''notifiers.trakt.username'', StringField ''TRAKT_USERNAME''),
     (''notifiers.trakt.accessToken'', StringField ''TRAKT_ACCESS_TOKEN''),
     (''notifiers.trakt.timeout'', IntegerField ''TRAKT_TIMEOUT''),
     (''notifiers.trakt.defaultIndexer'', IntegerField ''TRAKT_DEFAULT_INDEXER''),
     (''notifiers.trakt.sync'', BooleanField ''TRAKT_SYNC''),
     (''notifiers.trakt.syncRemove'', BooleanField ''TRAKT_SYNC_REMOVE''),
     (''notifiers.trakt.syncWatchlist'', BooleanField ''TRAKT_SYNC_WATCHLIST''),
     (''notifiers.trakt.methodAdd'', IntegerField ''TRAKT_METHOD_ADD''),
     (''notifiers.trakt.removeWatchlist'', BooleanField ''TRAKT_REMOVE_WATCHLIST''),
     (''notifiers.trakt.removeSerieslist'', BooleanField ''TRAKT_REMOVE_SERIESLIST''),
     (''notifiers.trakt.removeShowFromApplication'', BooleanField ''TRAKT_REMOVE_SHOW_FROM_APPLICATION''),
     (''notifiers.trakt.startPaused'', BooleanField ''TRAKT_START_PAUSED''),
     (''notifiers.trakt.blacklistName'', StringField ''TRAKT_BLACKLIST_NAME''),
     (''notifiers.email.enabled'', BooleanField ''USE_EMAIL''),
     (''notifiers.email.host'', StringField ''EMAIL_HOST''),
     (''notifiers.email.port'', IntegerField ''EMAIL_PORT''),
     (''notifiers.email.from'', StringField ''EMAIL_FROM''),
     (''notifiers.email.tls'', BooleanField ''EMAIL_TLS''),
     (''notifiers.email.username'', StringField ''EMAIL_USER''),
     (''notifiers.email.password'', StringField ''EMAIL_PASSWORD''),
     (''notifiers.email.addressList'', ListField ''EMAIL_LIST''),
     (''notifiers.email.subject'', StringField ''EMAIL_SUBJECT''),
     (''notifiers.email.notifyOnSnatch'', BooleanField ''EMAIL_NOTIFY_ONSNATCH''),
     (''notifiers.email.notifyOnDownload'', BooleanField ''EMAIL_NOTIFY_ONDOWNLOAD''),
     (''notifiers.email.notifyOnSubtitleDownload'', BooleanField ''EMAIL_NOTIFY_ONSUBTITLEDOWNLOAD''),
     (''notifiers.slack.enabled'', BooleanField ''USE_SLACK''),
     (''notifiers.slack.webhook'', StringField ''SLACK_WEBHOOK''),
     (''notifiers.slack.notifyOnSnatch'', BooleanField ''SLACK_NOTIFY_SNATCH''),
     (''notifiers.slack.notifyOnDownload'', BooleanField ''SLACK_NOTIFY_DOWNLOAD''),
     (''notifiers.slack.notifyOnSubtitleDownload'', BooleanField ''SLACK_NOTIFY_SUBTITLEDOWNLOAD'')]"

section \<open>Read side\<close>

text \<open>
  Modelled from the spec: \<^verbatim>\<open>NonEmptyDict.__setitem__\<close> (medusa/helper/mappings.py is not
  under src/). Spec section 3, the non-empty discipline: a key whose value is empty is
  left out, and absent is distinct from false. Empty is \<^verbatim>\<open>None\<close> and the empty string. A
  sub-tree is stored when it is assigned, empty as it then is: the producers below fill
  it through the parent afterwards (\<^verbatim>\<open>section_data['kodi']['enabled'] = ...\<close>).
\<close>

definition ne_setitem :: "tree \<Rightarrow> string \<Rightarrow> json \<Rightarrow> tree" where
  "ne_setitem d k v = (if v = JNull \<or> v = JStr [] then d else AList.update k v d)"

text \<open>
  A producer is a run of assignments, each \<^verbatim>\<open>section_data[...] = expression\<close>. The items
  are evaluated in the source's order; the first expression that raises ends the run
  with its error. \<open>ne_dict\<close> assigns into a \<^verbatim>\<open>NonEmptyDict()\<close>, \<open>plain_dict\<close> into \<^verbatim>\<open>{}\<close>.
  A nested dict stands at the place of the assignment that creates it, with the items
  the source assigns into it next.
\<close>

fun build_dict ::
  "(tree \<Rightarrow> string \<Rightarrow> json \<Rightarrow> tree) \<Rightarrow> (string \<times> (error + json)) list \<Rightarrow> tree \<Rightarrow> error + json"
where
  "build_dict setitem [] d = Inr (JObj d)"
| "build_dict setitem ((k, Inl e) # rest) d = Inl e"
| "build_dict setitem ((k, Inr v) # rest) d = build_dict setitem rest (setitem d k v)"

definition ne_dict :: "(string \<times> (error + json)) list \<Rightarrow> error + json" where
  "ne_dict entries = build_dict ne_setitem entries []"

definition plain_dict :: "(string \<times> (error + json)) list \<Rightarrow> error + json" where
  "plain_dict entries = build_dict (\<lambda>d k v. AList.update k v d) entries []"

text \<open>\<^verbatim>\<open>bool(v)\<close> as an expression of a producer.\<close>

definition py_bool_of :: "json \<Rightarrow> error + json" where
  "py_bool_of v = Inr (JBool (py_bool v))"

text \<open>\<^verbatim>\<open>len(v)\<close>.\<close>

fun py_len :: "json \<Rightarrow> error + json" where
  "py_len (JStr s) = Inr (JInt (int (length s)))"
| "py_len (JList xs) = Inr (JInt (int (length xs)))"
| "py_len (JObj kvs) = Inr (JInt (int (length kvs)))"
| "py_len v = Inl TypeError"

text \<open>\<^verbatim>\<open>k.lower()\<close> on ASCII text.\<close>

definition py_lower :: "string \<Rightarrow> string" where
  "py_lower s =
     map (\<lambda>c. if 65 \<le> (of_char c :: nat) \<and> (of_char c :: nat) \<le> 90
               then char_of ((of_char c :: nat) + 32) else c) s"

text \<open>\<^verbatim>\<open>{k.lower(): v for k, v in iteritems(levels)}\<close>.\<close>

definition lowered_keys :: "json \<Rightarrow> error + json" where
  "lowered_keys levels =
     (case levels of
        JObj kvs \<Rightarrow> Inr (JObj (foldl (\<lambda>d (k, v). AList.update (py_lower k) v d) [] kvs))
      | _ \<Rightarrow> Inl AttributeError)"

text \<open>
  \<^verbatim>\<open>'.'.join([text_type(loc or 'Unknown') for loc in app.LOCALE])\<close>: iterating a list
  gives its elements, text its characters, a dict its keys; nothing else iterates.
\<close>

definition locale_text :: "collaborators \<Rightarrow> json \<Rightarrow> error + json" where
  "locale_text env loc =
     (case (case loc of
              JList xs \<Rightarrow> Some xs
            | JStr s \<Rightarrow> Some (map (\<lambda>c. JStr [c]) s)
            | JObj kvs \<Rightarrow> Some (map (\<lambda>(k, v). JStr k) kvs)
            | _ \<Rightarrow> None) of
        None \<Rightarrow> Inl TypeError
      | Some xs \<Rightarrow>
          Inr (JStr (join_dot (map (\<lambda>x. text_type env (py_or x (JStr ''Unknown''))) xs))))"

subsection \<open>The section producers\<close>

text \<open>\<^verbatim>\<open>DataGenerator.data_main\<close>.\<close>

definition data_main :: "collaborators \<Rightarrow> store \<Rightarrow> error + json" where
  "data_main env app =
    ne_dict
    [(''anonRedirect'', Inr (app ''ANON_REDIRECT'')),
     (''animeSplitHome'', py_bool_of (app ''ANIME_SPLIT_HOME'')),
     (''animeSplitHomeInTabs'', py_bool_of (app ''ANIME_SPLIT_HOME_IN_TABS'')),
     (''comingEpsSort'', Inr (app ''COMING_EPS_SORT'')),
     (''comingEpsDisplayPaused'', py_bool_of (app ''COMING_EPS_DISPLAY_PAUSED'')),
     (''datePreset'', Inr (app ''DATE_PRESET'')),
     (''fuzzyDating'', py_bool_of (app ''FUZZY_DATING'')),
     (''themeName'', Inr (app ''THEME_NAME'')),
     (''posterSortby'', Inr (app ''POSTER_SORTBY'')),
     (''posterSortdir'', Inr (app ''POSTER_SORTDIR'')),
     (''rootDirs'', Inr (app ''ROOT_DIRS'')),
     (''sortArticle'', py_bool_of (app ''SORT_ARTICLE'')),
     (''timePreset'', Inr (app ''TIME_PRESET'')),
     (''trimZero'', py_bool_of (app ''TRIM_ZERO'')),
     (''fanartBackground'', py_bool_of (app ''FANART_BACKGROUND'')),
     (''fanartBackgroundOpacity'', float_of env (py_or (app ''FANART_BACKGROUND_OPACITY'') (JInt 0))),
     (''gitUsername'', Inr (app ''GIT_USERNAME'')),
     (''branch'', Inr (app ''BRANCH'')),
     (''commitHash'', Inr (app ''CUR_COMMIT_HASH'')),
     (''release'', Inr (app ''APP_VERSION'')),
     (''sslVersion'', Inr (app ''OPENSSL_VERSION'')),
     (''pythonVersion'', Inr (external env ''sys.version'')),
     (''databaseVersion'',
       ne_dict
       [(''major'', Inr (app ''MAJOR_DB_VERSION'')),
        (''minor'', Inr (app ''MINOR_DB_VERSION''))]),
     (''os'', Inr (external env ''platform.platform()'')),
     (''pid'', Inr (app ''PID'')),
     (''locale'', locale_text env (app ''LOCALE'')),
     (''localUser'', Inr (py_or (app ''OS_USER'') (JStr ''Unknown''))),
     (''programDir'', Inr (app ''PROG_DIR'')),
     (''dataDir'', Inr (app ''DATA_DIR'')),
     (''configFile'', Inr (app ''CONFIG_FILE'')),
     (''dbPath'', Inr (external env ''db.DBConnection().path'')),
     (''cacheDir'', Inr (app ''CACHE_DIR'')),
     (''logDir'', Inr (app ''LOG_DIR'')),
     (''appArgs'', Inr (app ''MY_ARGS'')),
     (''webRoot'', Inr (app ''WEB_ROOT'')),
     (''runsInDocker'', py_bool_of (app ''RUNS_IN_DOCKER'')),
     (''githubUrl'', Inr (app ''GITHUB_IO_URL'')),
     (''wikiUrl'', Inr (app ''WIKI_URL'')),
     (''donationsUrl'', Inr (app ''DONATIONS_URL'')),
     (''sourceUrl'', Inr (app ''APPLICATION_URL'')),
     (''downloadUrl'', Inr (app ''DOWNLOAD_URL'')),
     (''subtitlesMulti'', py_bool_of (app ''SUBTITLES_MULTI'')),
     (''namingForceFolders'', py_bool_of (app ''NAMING_FORCE_FOLDERS'')),
     (''subtitles'',
       ne_dict
       [(''enabled'', py_bool_of (app ''USE_SUBTITLES''))]),
     (''recentShows'', Inr (app ''SHOWS_RECENT'')),
     (''showDefaults'',
       plain_dict
       [(''status'', Inr (app ''STATUS_DEFAULT'')),
        (''statusAfter'', Inr (app ''STATUS_DEFAULT_AFTER'')),
        (''quality'', Inr (app ''QUALITY_DEFAULT'')),
        (''subtitles'', py_bool_of (app ''SUBTITLES_DEFAULT'')),
        (''seasonFolders'', py_bool_of (app ''SEASON_FOLDERS_DEFAULT'')),
        (''anime'', py_bool_of (app ''ANIME_DEFAULT'')),
        (''scene'', py_bool_of (app ''SCENE_DEFAULT''))]),
     (''news'',
       ne_dict
       [(''lastRead'', Inr (app ''NEWS_LAST_READ'')),
        (''latest'', Inr (app ''NEWS_LATEST'')),
        (''unread'', Inr (app ''NEWS_UNREAD''))]),
     (''logs'',
       ne_dict
       [(''loggingLevels'', lowered_keys (external env ''logger.LOGGING_LEVELS'')),
        (''numErrors'', py_len (external env ''classes.ErrorViewer.errors'')),
        (''numWarnings'', py_len (external env ''classes.WarningViewer.errors''))]),
     (''failedDownloads'',
       ne_dict
       [(''enabled'', py_bool_of (app ''USE_FAILED_DOWNLOADS'')),
        (''deleteFailed'', py_bool_of (app ''DELETE_FAILED''))]),
     (''torrents'',
       ne_dict
       [(''authType'', Inr (app ''TORRENT_AUTH_TYPE'')),
        (''dir'', Inr (app ''TORRENT_DIR'')),
        (''enabled'', py_bool_of (app ''USE_TORRENTS'')),
        (''highBandwidth'', Inr (app ''TORRENT_HIGH_BANDWIDTH'')),
        (''host'', Inr (app ''TORRENT_HOST'')),
        (''label'', Inr (app ''TORRENT_LABEL'')),
        (''labelAnime'', Inr (app ''TORRENT_LABEL_ANIME'')),
        (''method'', Inr (app ''TORRENT_METHOD'')),
        (''path'', Inr (app ''TORRENT_PATH'')),
        (''paused'', py_bool_of (app ''TORRENT_PAUSED'')),
        (''rpcurl'', Inr (app ''TORRENT_RPCURL'')),
        (''seedLocation'', Inr (app ''TORRENT_SEED_LOCATION'')),
        (''seedTime'', Inr (app ''TORRENT_SEED_TIME'')),
        (''username'', Inr (app ''TORRENT_USERNAME'')),
        (''verifySSL'', py_bool_of (app ''TORRENT_VERIFY_CERT''))]),
     (''nzb'',
       ne_dict
       [(''enabled'', py_bool_of (app ''USE_NZBS'')),
        (''dir'', Inr (app ''NZB_DIR'')),
        (''method'', Inr (app ''NZB_METHOD'')),
        (''nzbget'',
          ne_dict
          [(''category'', Inr (app ''NZBGET_CATEGORY'')),
           (''categoryAnime'', Inr (app ''NZBGET_CATEGORY_ANIME'')),
           (''categoryAnimeBacklog'', Inr (app ''NZBGET_CATEGORY_ANIME_BACKLOG'')),
           (''categoryBacklog'', Inr (app ''NZBGET_CATEGORY_BACKLOG'')),
           (''host'', Inr (app ''NZBGET_HOST'')),
           (''priority'', Inr (app ''NZBGET_PRIORITY'')),
           (''useHttps'', py_bool_of (app ''NZBGET_USE_HTTPS'')),
           (''username'', Inr (app ''NZBGET_USERNAME''))]),
        (''sabnzbd'',
          ne_dict
          [(''category'', Inr (app ''SAB_CATEGORY'')),
           (''categoryAnime'', Inr (app ''SAB_CATEGORY_ANIME'')),
           (''categoryAnimeBacklog'', Inr (app ''SAB_CATEGORY_ANIME_BACKLOG'')),
           (''categoryBacklog'', Inr (app ''SAB_CATEGORY_BACKLOG'')),
           (''forced'', py_bool_of (app ''SAB_FORCED'')),
           (''host'', Inr (app ''SAB_HOST'')),
           (''username'', Inr (app ''SAB_USERNAME''))])]),
     (''layout'',
       ne_dict
       [(''schedule'', Inr (app ''COMING_EPS_LAYOUT'')),
        (''history'', Inr (app ''HISTORY_LAYOUT'')),
        (''home'', Inr (app ''HOME_LAYOUT'')),
        (''show'',
          ne_dict
          [(''allSeasons'', py_bool_of (app ''DISPLAY_ALL_SEASONS'')),
           (''specials'', py_bool_of (app ''DISPLAY_SHOW_SPECIALS'')),
           (''showListOrder'', Inr (app ''SHOW_LIST_ORDER''))])]),
     (''selectedRootIndex'', (if app ''SELECTED_ROOT'' \<noteq> JNull
         then py_int (int_of_text env) (app ''SELECTED_ROOT'') else Inr (JInt (- 1)))),
     (''backlogOverview'',
       ne_dict
       [(''period'', Inr (app ''BACKLOG_PERIOD'')),
        (''status'', Inr (app ''BACKLOG_STATUS''))]),
     (''indexers'',
       ne_dict
       [(''config'', Inr (external env ''get_indexer_config()''))]),
     (''postProcessing'',
       ne_dict
       [(''naming'',
          ne_dict
          [(''pattern'', Inr (app ''NAMING_PATTERN'')),
           (''multiEp'', py_int (int_of_text env) (app ''NAMING_MULTI_EP'')),
           (''patternAirByDate'', Inr (app ''NAMING_ABD_PATTERN'')),
           (''patternSports'', Inr (app ''NAMING_SPORTS_PATTERN'')),
           (''patternAnime'', Inr (app ''NAMING_ANIME_PATTERN'')),
           (''enableCustomNamingAirByDate'', py_bool_of (app ''NAMING_CUSTOM_ABD'')),
           (''enableCustomNamingSports'', py_bool_of (app ''NAMING_CUSTOM_SPORTS'')),
           (''enableCustomNamingAnime'', py_bool_of (app ''NAMING_CUSTOM_ANIME'')),
           (''animeMultiEp'', py_int (int_of_text env) (app ''NAMING_ANIME_MULTI_EP'')),
           (''animeNamingType'', py_int (int_of_text env) (app ''NAMING_ANIME'')),
           (''stripYear'', py_bool_of (app ''NAMING_STRIP_YEAR''))]),
        (''showDownloadDir'', Inr (app ''TV_DOWNLOAD_DIR'')),
        (''processAutomatically'', py_bool_of (app ''PROCESS_AUTOMATICALLY'')),
        (''postponeIfSyncFiles'', py_bool_of (app ''POSTPONE_IF_SYNC_FILES'')),
        (''postponeIfNoSubs'', py_bool_of (app ''POSTPONE_IF_NO_SUBS'')),
        (''renameEpisodes'', py_bool_of (app ''RENAME_EPISODES'')),
        (''createMissingShowDirs'', py_bool_of (app ''CREATE_MISSING_SHOW_DIRS'')),
        (''addShowsWithoutDir'', py_bool_of (app ''ADD_SHOWS_WO_DIR'')),
        (''moveAssociatedFiles'', py_bool_of (app ''MOVE_ASSOCIATED_FILES'')),
        (''nfoRename'', py_bool_of (app ''NFO_RENAME'')),
        (''airdateEpisodes'', py_bool_of (app ''AIRDATE_EPISODES'')),
        (''unpack'', py_bool_of (app ''UNPACK'')),
        (''deleteRarContent'', py_bool_of (app ''DELRARCONTENTS'')),
        (''noDelete'', py_bool_of (app ''NO_DELETE'')),
        (''processMethod'', Inr (app ''PROCESS_METHOD'')),
        (''reflinkAvailable'', py_bool_of (external env ''pkgutil.find_loader(reflink)'')),
        (''autoPostprocessorFrequency'', py_int (int_of_text env) (app ''AUTOPOSTPROCESSOR_FREQUENCY'')),
        (''syncFiles'', Inr (app ''SYNC_FILES'')),
        (''fileTimestampTimezone'', Inr (app ''FILE_TIMESTAMP_TIMEZONE'')),
        (''allowedExtensions'', Inr (app ''ALLOWED_EXTENSIONS'')),
        (''extraScripts'', Inr (app ''EXTRA_SCRIPTS'')),
        (''extraScriptsUrl'', Inr (app ''EXTRA_SCRIPTS_URL'')),
        (''multiEpStrings'', Inr (common env ''MULTI_EP_STRINGS''))])]"

text \<open>\<^verbatim>\<open>DataGenerator.data_qualities\<close>.\<close>

definition data_qualities :: "collaborators \<Rightarrow> store \<Rightarrow> error + json" where
  "data_qualities env app =
    ne_dict
    [(''values'',
       ne_dict
       [(''na'', Inr (common env ''Quality.NA'')),
        (''unknown'', Inr (common env ''Quality.UNKNOWN'')),
        (''sdtv'', Inr (common env ''Quality.SDTV'')),
        (''sddvd'', Inr (common env ''Quality.SDDVD'')),
        (''hdtv'', Inr (common env ''Quality.HDTV'')),
        (''rawhdtv'', Inr (common env ''Quality.RAWHDTV'')),
        (''fullhdtv'', Inr (common env ''Quality.FULLHDTV'')),
        (''hdwebdl'', Inr (common env ''Quality.HDWEBDL'')),
        (''fullhdwebdl'', Inr (common env ''Quality.FULLHDWEBDL'')),
        (''hdbluray'', Inr (common env ''Quality.HDBLURAY'')),
        (''fullhdbluray'', Inr (common env ''Quality.FULLHDBLURAY'')),
        (''uhd4ktv'', Inr (common env ''Quality.UHD_4K_TV'')),
        (''uhd4kwebdl'', Inr (common env ''Quality.UHD_4K_WEBDL'')),
        (''uhd4kbluray'', Inr (common env ''Quality.UHD_4K_BLURAY'')),
        (''uhd8ktv'', Inr (common env ''Quality.UHD_8K_TV'')),
        (''uhd8kwebdl'', Inr (common env ''Quality.UHD_8K_WEBDL'')),
        (''uhd8kbluray'', Inr (common env ''Quality.UHD_8K_BLURAY''))]),
     (''anySets'',
       ne_dict
       [(''anyhdtv'', Inr (common env ''Quality.ANYHDTV'')),
        (''anywebdl'', Inr (common env ''Quality.ANYWEBDL'')),
        (''anybluray'', Inr (common env ''Quality.ANYBLURAY''))]),
     (''presets'',
       ne_dict
       [(''any'', Inr (common env ''ANY'')),
        (''sd'', Inr (common env ''SD'')),
        (''hd'', Inr (common env ''HD'')),
        (''hd720p'', Inr (common env ''HD720p'')),
        (''hd1080p'', Inr (common env ''HD1080p'')),
        (''uhd'', Inr (common env ''UHD'')),
        (''uhd4k'', Inr (common env ''UHD_4K'')),
        (''uhd8k'', Inr (common env ''UHD_8K''))]),
     (''strings'',
       ne_dict
       [(''values'', Inr (common env ''Quality.qualityStrings'')),
        (''anySets'', Inr (common env ''Quality.combinedQualityStrings'')),
        (''presets'', Inr (common env ''qualityPresetStrings'')),
        (''cssClass'', Inr (common env ''Quality.cssClassStrings''))])]"

text \<open>\<^verbatim>\<open>DataGenerator.data_statuses\<close>.\<close>

definition data_statuses :: "collaborators \<Rightarrow> store \<Rightarrow> error + json" where
  "data_statuses env app =
    ne_dict
    [(''values'',
       ne_dict
       [(''unset'', Inr (common env ''UNSET'')),
        (''unaired'', Inr (common env ''UNAIRED'')),
        (''snatched'', Inr (common env ''SNATCHED'')),
        (''wanted'', Inr (common env ''WANTED'')),
        (''downloaded'', Inr (common env ''DOWNLOADED'')),
        (''skipped'', Inr (common env ''SKIPPED'')),
        (''archived'', Inr (common env ''ARCHIVED'')),
        (''ignored'', Inr (common env ''IGNORED'')),
        (''snatchedProper'', Inr (common env ''SNATCHED_PROPER'')),
        (''subtitled'', Inr (common env ''SUBTITLED'')),
        (''failed'', Inr (common env ''FAILED'')),
        (''snatchedBest'', Inr (common env ''SNATCHED_BEST''))]),
     (''strings'', Inr (common env ''statusStrings''))]"

text \<open>\<^verbatim>\<open>DataGenerator.data_search\<close>.\<close>

definition data_search :: "collaborators \<Rightarrow> store \<Rightarrow> error + json" where
  "data_search env app =
    ne_dict
    [(''general'',
       ne_dict
       [(''randomizeProviders'', py_bool_of (app ''RANDOMIZE_PROVIDERS'')),
        (''downloadPropers'', py_bool_of (app ''DOWNLOAD_PROPERS'')),
        (''checkPropersInterval'', Inr (app ''CHECK_PROPERS_INTERVAL'')),
        (''propersSearchDays'', py_int (int_of_text env) (app ''PROPERS_SEARCH_DAYS'')),
        (''backlogDays'', py_int (int_of_text env) (app ''BACKLOG_DAYS'')),
        (''backlogFrequency'', py_int (int_of_text env) (app ''BACKLOG_FREQUENCY'')),
        (''minBacklogFrequency'', py_int (int_of_text env) (app ''MIN_BACKLOG_FREQUENCY'')),
        (''dailySearchFrequency'', py_int (int_of_text env) (app ''DAILYSEARCH_FREQUENCY'')),
        (''minDailySearchFrequency'', py_int (int_of_text env) (app ''MIN_DAILYSEARCH_FREQUENCY'')),
        (''removeFromClient'', py_bool_of (app ''REMOVE_FROM_CLIENT'')),
        (''torrentCheckerFrequency'', py_int (int_of_text env) (app ''TORRENT_CHECKER_FREQUENCY'')),
        (''minTorrentCheckerFrequency'', py_int (int_of_text env) (app ''MIN_TORRENT_CHECKER_FREQUENCY'')),
        (''usenetRetention'', py_int (int_of_text env) (app ''USENET_RETENTION'')),
        (''trackersList'', Inr (app ''TRACKERS_LIST'')),
        (''allowHighPriority'', py_bool_of (app ''ALLOW_HIGH_PRIORITY'')),
        (''useFailedDownloads'', py_bool_of (app ''USE_FAILED_DOWNLOADS'')),
        (''deleteFailed'', py_bool_of (app ''DELETE_FAILED'')),
        (''cacheTrimming'', py_bool_of (app ''CACHE_TRIMMING'')),
        (''maxCacheAge'', py_int (int_of_text env) (app ''MAX_CACHE_AGE''))]),
     (''filters'',
       ne_dict
       [(''ignored'', Inr (app ''IGNORE_WORDS'')),
        (''undesired'', Inr (app ''UNDESIRED_WORDS'')),
        (''preferred'', Inr (app ''PREFERRED_WORDS'')),
        (''required'', Inr (app ''REQUIRE_WORDS'')),
        (''ignoredSubsList'', Inr (app ''IGNORED_SUBS_LIST'')),
        (''ignoreUnknownSubs'', py_bool_of (app ''IGNORE_UND_SUBS''))])]"

text \<open>\<^verbatim>\<open>DataGenerator.data_notifiers\<close>.\<close>

definition data_notifiers :: "collaborators \<Rightarrow> store \<Rightarrow> error + json" where
  "data_notifiers env app =
    ne_dict
    [(''kodi'',
       ne_dict
       [(''enabled'', py_bool_of (app ''USE_KODI'')),
        (''alwaysOn'', py_bool_of (app ''KODI_ALWAYS_ON'')),
        (''notifyOnSnatch'', py_bool_of (app ''KODI_NOTIFY_ONSNATCH'')),
        (''notifyOnDownload'', py_bool_of (app ''KODI_NOTIFY_ONDOWNLOAD'')),
        (''notifyOnSubtitleDownload'', py_bool_of (app ''KODI_NOTIFY_ONSUBTITLEDOWNLOAD'')),
        (''update'',
          ne_dict
          [(''library'', py_bool_of (app ''KODI_UPDATE_LIBRARY'')),
           (''full'', py_bool_of (app ''KODI_UPDATE_FULL'')),
           (''onlyFirst'', py_bool_of (app ''KODI_UPDATE_ONLYFIRST''))]),
        (''host'', Inr (app ''KODI_HOST'')),
        (''username'', Inr (app ''KODI_USERNAME'')),
        (''password'', Inr (app ''KODI_PASSWORD'')),
        (''libraryCleanPending'', py_bool_of (app ''KODI_LIBRARY_CLEAN_PENDING'')),
        (''cleanLibrary'', py_bool_of (app ''KODI_CLEAN_LIBRARY''))]),
     (''plex'',
       ne_dict
       [(''server'',
          ne_dict
          [(''enabled'', py_bool_of (app ''USE_PLEX_SERVER'')),
           (''updateLibrary'', py_bool_of (app ''PLEX_UPDATE_LIBRARY'')),
           (''host'', Inr (app ''PLEX_SERVER_HOST'')),
           (''https'', py_bool_of (app ''PLEX_SERVER_HTTPS'')),
           (''username'', Inr (app ''PLEX_SERVER_USERNAME'')),
           (''password'', Inr (app ''PLEX_SERVER_PASSWORD'')),
           (''token'', Inr (app ''PLEX_SERVER_TOKEN''))]),
        (''client'',
          ne_dict
          [(''enabled'', py_bool_of (app ''USE_PLEX_CLIENT'')),
           (''username'', Inr (app ''PLEX_CLIENT_USERNAME'')),
           (''host'', Inr (app ''PLEX_CLIENT_HOST'')),
           (''notifyOnSnatch'', py_bool_of (app ''PLEX_NOTIFY_ONSNATCH'')),
           (''notifyOnDownload'', py_bool_of (app ''PLEX_NOTIFY_ONDOWNLOAD'')),
           (''notifyOnSubtitleDownload'', py_bool_of (app ''PLEX_NOTIFY_ONSUBTITLEDOWNLOAD''))])]),
     (''emby'',
       ne_dict
       [(''enabled'', py_bool_of (app ''USE_EMBY'')),
        (''host'', Inr (app ''EMBY_HOST'')),
        (''apiKey'', Inr (app ''EMBY_APIKEY''))]),
     (''nmj'',
       ne_dict
       [(''enabled'', py_bool_of (app ''USE_NMJ'')),
        (''host'', Inr (app ''NMJ_HOST'')),
        (''database'', Inr (app ''NMJ_DATABASE'')),
        (''mount'', Inr (app ''NMJ_MOUNT''))]),
     (''nmjv2'',
       ne_dict
       [(''enabled'', py_bool_of (app ''USE_NMJv2'')),
        (''host'', Inr (app ''NMJv2_HOST'')),
        (''dbloc'', Inr (app ''NMJv2_DBLOC'')),
        (''database'', Inr (app ''NMJv2_DATABASE''))]),
     (''synologyIndex'',
       ne_dict
       [(''enabled'', py_bool_of (app ''USE_SYNOINDEX''))]),
     (''synology'',
       ne_dict
       [(''enabled'', py_bool_of (app ''USE_SYNOLOGYNOTIFIER'')),
        (''notifyOnSnatch'', py_bool_of (app ''SYNOLOGYNOTIFIER_NOTIFY_ONSNATCH'')),
        (''notifyOnDownload'', py_bool_of (app ''SYNOLOGYNOTIFIER_NOTIFY_ONDOWNLOAD'')),
        (''notifyOnSubtitleDownload'', py_bool_of (app ''SYNOLOGYNOTIFIER_NOTIFY_ONSUBTITLEDOWNLOAD''))]),
     (''pyTivo'',
       ne_dict
       [(''enabled'', py_bool_of (app ''USE_PYTIVO'')),
        (''host'', Inr (app ''PYTIVO_HOST'')),
        (''name'', Inr (app ''PYTIVO_TIVO_NAME'')),
        (''shareName'', Inr (app ''PYTIVO_SHARE_NAME''))]),
     (''growl'',
       ne_dict
       [(''enabled'', py_bool_of (app ''USE_GROWL'')),
        (''host'', Inr (app ''GROWL_HOST'')),
        (''password'', Inr (app ''GROWL_PASSWORD'')),
        (''notifyOnSnatch'', py_bool_of (app ''GROWL_NOTIFY_ONSNATCH'')),
        (''notifyOnDownload'', py_bool_of (app ''GROWL_NOTIFY_ONDOWNLOAD'')),
        (''notifyOnSubtitleDownload'', py_bool_of (app ''GROWL_NOTIFY_ONSUBTITLEDOWNLOAD''))]),
     (''prowl'',
       ne_dict
       [(''enabled'', py_bool_of (app ''USE_PROWL'')),
        (''api'', Inr (app ''PROWL_API'')),
        (''messageTitle'', Inr (app ''PROWL_MESSAGE_TITLE'')),
        (''priority'', py_int (int_of_text env) (app ''PROWL_PRIORITY'')),
        (''notifyOnSnatch'', py_bool_of (app ''PROWL_NOTIFY_ONSNATCH'')),
        (''notifyOnDownload'', py_bool_of (app ''PROWL_NOTIFY_ONDOWNLOAD'')),
        (''notifyOnSubtitleDownload'', py_bool_of (app ''PROWL_NOTIFY_ONSUBTITLEDOWNLOAD''))]),
     (''libnotify'',
       ne_dict
       [(''enabled'', py_bool_of (app ''USE_LIBNOTIFY'')),
        (''notifyOnSnatch'', py_bool_of (app ''LIBNOTIFY_NOTIFY_ONSNATCH'')),
        (''notifyOnDownload'', py_bool_of (app ''LIBNOTIFY_NOTIFY_ONDOWNLOAD'')),
        (''notifyOnSubtitleDownload'', py_bool_of (app ''LIBNOTIFY_NOTIFY_ONSUBTITLEDOWNLOAD''))]),
     (''pushover'',
       ne_dict
       [(''enabled'', py_bool_of (app ''USE_PUSHOVER'')),
        (''apiKey'', Inr (app ''PUSHOVER_APIKEY'')),
        (''userKey'', Inr (app ''PUSHOVER_USERKEY'')),
        (''device'', Inr (app ''PUSHOVER_DEVICE'')),
        (''sound'', Inr (app ''PUSHOVER_SOUND'')),
        (''priority'', py_int (int_of_text env) (app ''PUSHOVER_PRIORITY'')),
        (''notifyOnSnatch'', py_bool_of (app ''PUSHOVER_NOTIFY_ONSNATCH'')),
        (''notifyOnDownload'', py_bool_of (app ''PUSHOVER_NOTIFY_ONDOWNLOAD'')),
        (''notifyOnSubtitleDownload'', py_bool_of (app ''PUSHOVER_NOTIFY_ONSUBTITLEDOWNLOAD''))]),
     (''boxcar2'',
       ne_dict
       [(''enabled'', py_bool_of (app ''USE_BOXCAR2'')),
        (''notifyOnSnatch'', py_bool_of (app ''BOXCAR2_NOTIFY_ONSNATCH'')),
        (''notifyOnDownload'', py_bool_of (app ''BOXCAR2_NOTIFY_ONDOWNLOAD'')),
        (''notifyOnSubtitleDownload'', py_bool_of (app ''BOXCAR2_NOTIFY_ONSUBTITLEDOWNLOAD'')),
        (''accessToken'', Inr (app ''BOXCAR2_ACCESSTOKEN''))]),
     (''pushalot'',
       ne_dict
       [(''enabled'', py_bool_of (app ''USE_PUSHALOT'')),
        (''notifyOnSnatch'', py_bool_of (app ''PUSHALOT_NOTIFY_ONSNATCH'')),
        (''notifyOnDownload'', py_bool_of (app ''PUSHALOT_NOTIFY_ONDOWNLOAD'')),
        (''notifyOnSubtitleDownload'', py_bool_of (app ''PUSHALOT_NOTIFY_ONSUBTITLEDOWNLOAD'')),
        (''authToken'', Inr (app ''PUSHALOT_AUTHORIZATIONTOKEN''))]),
     (''pushbullet'',
       ne_dict
       [(''enabled'', py_bool_of (app ''USE_PUSHBULLET'')),
        (''notifyOnSnatch'', py_bool_of (app ''PUSHBULLET_NOTIFY_ONSNATCH'')),
        (''notifyOnDownload'', py_bool_of (app ''PUSHBULLET_NOTIFY_ONDOWNLOAD'')),
        (''notifyOnSubtitleDownload'', py_bool_of (app ''PUSHBULLET_NOTIFY_ONSUBTITLEDOWNLOAD'')),
        (''api'', Inr (app ''PUSHBULLET_API'')),
        (''device'', Inr (app ''PUSHBULLET_DEVICE''))]),
     (''join'',
       ne_dict
       [(''enabled'', py_bool_of (app ''USE_JOIN'')),
        (''notifyOnSnatch'', py_bool_of (app ''JOIN_NOTIFY_ONSNATCH'')),
        (''notifyOnDownload'', py_bool_of (app ''JOIN_NOTIFY_ONDOWNLOAD'')),
        (''notifyOnSubtitleDownload'', py_bool_of (app ''JOIN_NOTIFY_ONSUBTITLEDOWNLOAD'')),
        (''api'', Inr (app ''JOIN_API'')),
        (''device'', Inr (app ''JOIN_DEVICE''))]),
     (''freemobile'',
       ne_dict
       [(''enabled'', py_bool_of (app ''USE_FREEMOBILE'')),
        (''notifyOnSnatch'', py_bool_of (app ''FREEMOBILE_NOTIFY_ONSNATCH'')),
        (''notifyOnDownload'', py_bool_of (app ''FREEMOBILE_NOTIFY_ONDOWNLOAD'')),
        (''notifyOnSubtitleDownload'', py_bool_of (app ''FREEMOBILE_NOTIFY_ONSUBTITLEDOWNLOAD'')),
        (''api'', Inr (app ''FREEMOBILE_APIKEY'')),
        (''id'', Inr (app ''FREEMOBILE_ID''))]),
     (''telegram'',
       ne_dict
       [(''enabled'', py_bool_of (app ''USE_TELEGRAM'')),
        (''notifyOnSnatch'', py_bool_of (app ''TELEGRAM_NOTIFY_ONSNATCH'')),
        (''notifyOnDownload'', py_bool_of (app ''TELEGRAM_NOTIFY_ONDOWNLOAD'')),
        (''notifyOnSubtitleDownload'', py_bool_of (app ''TELEGRAM_NOTIFY_ONSUBTITLEDOWNLOAD'')),
        (''api'', Inr (app ''TELEGRAM_APIKEY'')),
        (''id'', Inr (app ''TELEGRAM_ID''))]),
     (''twitter'',
       ne_dict
       [(''enabled'', py_bool_of (app ''USE_TWITTER'')),
        (''notifyOnSnatch'', py_bool_of (app ''TWITTER_NOTIFY_ONSNATCH'')),
        (''notifyOnDownload'', py_bool_of (app ''TWITTER_NOTIFY_ONDOWNLOAD'')),
        (''notifyOnSubtitleDownload'', py_bool_of (app ''TWITTER_NOTIFY_ONSUBTITLEDOWNLOAD'')),
        (''dmto'', Inr (app ''TWITTER_DMTO'')),
        (''username'', Inr (app ''TWITTER_USERNAME'')),
        (''password'', Inr (app ''TWITTER_PASSWORD'')),
        (''prefix'', Inr (app ''TWITTER_PREFIX'')),
        (''directMessage'', py_bool_of (app ''TWITTER_USEDM''))]),
     (''trakt'',
       ne_dict
       [(''enabled'', py_bool_of (app ''USE_TRAKT'')),
        (''pinUrl'', Inr (app ''TRAKT_PIN_URL'')),
        (''username'', Inr (app ''TRAKT_USERNAME'')),
        (''accessToken'', Inr (app ''TRAKT_ACCESS_TOKEN'')),
        (''timeout'', py_int (int_of_text env) (app ''TRAKT_TIMEOUT'')),
        (''defaultIndexer'', py_int (int_of_text env) (app ''TRAKT_DEFAULT_INDEXER'')),
        (''sync'', py_bool_of (app ''TRAKT_SYNC'')),
        (''syncRemove'', py_bool_of (app ''TRAKT_SYNC_REMOVE'')),
        (''syncWatchlist'', py_bool_of (app ''TRAKT_SYNC_WATCHLIST'')),
        (''methodAdd'', py_int (int_of_text env) (app ''TRAKT_METHOD_ADD'')),
        (''removeWatchlist'', py_bool_of (app ''TRAKT_REMOVE_WATCHLIST'')),
        (''removeSerieslist'', py_bool_of (app ''TRAKT_REMOVE_SERIESLIST'')),
        (''removeShowFromApplication'', py_bool_of (app ''TRAKT_REMOVE_SHOW_FROM_APPLICATION'')),
        (''startPaused'', py_bool_of (app ''TRAKT_START_PAUSED'')),
        (''blacklistName'', Inr (app ''TRAKT_BLACKLIST_NAME''))]),
     (''email'',
       ne_dict
       [(''enabled'', py_bool_of (app ''USE_EMAIL'')),
        (''notifyOnSnatch'', py_bool_of (app ''EMAIL_NOTIFY_ONSNATCH'')),
        (''notifyOnDownload'', py_bool_of (app ''EMAIL_NOTIFY_ONDOWNLOAD'')),
        (''notifyOnSubtitleDownload'', py_bool_of (app ''EMAIL_NOTIFY_ONSUBTITLEDOWNLOAD'')),
        (''host'', Inr (app ''EMAIL_HOST'')),
        (''port'', Inr (app ''EMAIL_PORT'')),
        (''from'', Inr (app ''EMAIL_FROM'')),
        (''tls'', py_bool_of (app ''EMAIL_TLS'')),
        (''username'', Inr (app ''EMAIL_USER'')),
        (''password'', Inr (app ''EMAIL_PASSWORD'')),
        (''addressList'', Inr (app ''EMAIL_LIST'')),
        (''subject'', Inr (app ''EMAIL_SUBJECT''))]),
     (''slack'',
       ne_dict
       [(''enabled'', py_bool_of (app ''USE_SLACK'')),
        (''notifyOnSnatch'', py_bool_of (app ''SLACK_NOTIFY_SNATCH'')),
        (''notifyOnDownload'', py_bool_of (app ''SLACK_NOTIFY_DOWNLOAD'')),
        (''notifyOnSubtitleDownload'', py_bool_of (app ''SLACK_NOTIFY_SUBTITLEDOWNLOAD'')),
        (''webhook'', Inr (app ''SLACK_WEBHOOK''))])]"

text \<open>
  \<^verbatim>\<open>data_metadata\<close>: one entry per metadata provider under \<^verbatim>\<open>json_repr['id']\<close>. A
  representation without an \<^verbatim>\<open>id\<close> raises; an id is text, as a JSON key is.
\<close>

fun metadata_entries :: "json list \<Rightarrow> tree \<Rightarrow> error + json" where
  "metadata_entries [] d = Inr (JObj d)"
| "metadata_entries (json_repr # rest) d =
     (case json_repr of
        JObj kvs \<Rightarrow>
          (case map_of kvs ''id'' of
             None \<Rightarrow> Inl KeyError
           | Some (JStr ident) \<Rightarrow> metadata_entries rest (ne_setitem d ident json_repr)
           | Some _ \<Rightarrow> Inl TypeError)
      | _ \<Rightarrow> Inl TypeError)"

definition data_metadata :: "collaborators \<Rightarrow> store \<Rightarrow> error + json" where
  "data_metadata env app =
    ne_dict [(''metadataProviders'', metadata_entries (provider_reprs env app) [])]"

subsection \<open>DataGenerator\<close>

text \<open>
  \<^verbatim>\<open>inspect.getmembers(cls, predicate=inspect.isfunction)\<close>: the static methods of the
  class with their names, sorted by name. The class methods \<^verbatim>\<open>sections\<close> and
  \<^verbatim>\<open>get_data\<close> are bound methods, not functions, and are not among them.
\<close>

definition members :: "(string \<times> (collaborators \<Rightarrow> store \<Rightarrow> error + json)) list" where
  "members =
     [(''data_main'', data_main),
      (''data_metadata'', data_metadata),
      (''data_notifiers'', data_notifiers),
      (''data_qualities'', data_qualities),
      (''data_search'', data_search),
      (''data_statuses'', data_statuses)]"

text \<open>\<^verbatim>\<open>DataGenerator.sections()\<close>: \<^verbatim>\<open>name[5:]\<close> for each member whose name starts with \<^verbatim>\<open>data_\<close>.\<close>

definition sections :: "string list" where
  "sections = [drop 5 name. (name, f) \<leftarrow> members, take 5 name = ''data_'']"

text \<open>\<^verbatim>\<open>DataGenerator.get_data(section)\<close>: \<^verbatim>\<open>getattr(cls, 'data_' + section)()\<close>.\<close>

definition get_data :: "collaborators \<Rightarrow> store \<Rightarrow> string \<Rightarrow> error + json" where
  "get_data env app section =
     (case map_of members (''data_'' @ section) of
        None \<Rightarrow> Inl AttributeError
      | Some producer \<Rightarrow> producer env app)"

section \<open>The request handler\<close>

text \<open>
  Modelled from the spec: the responses of \<^verbatim>\<open>BaseRequestHandler\<close> (base.py is not under
  src/). Spec sections 6 and 7: \<^verbatim>\<open>_ok\<close> answers 200 with the data as body,
  \<^verbatim>\<open>_bad_request\<close> 400 and \<^verbatim>\<open>_not_found\<close> 404; the body of an error response is its
  message.
\<close>

datatype response = Response (status: nat) (body: json)

definition ok_response :: "json \<Rightarrow> response" where
  "ok_response data = Response 200 data"

definition bad_request :: "string \<Rightarrow> response" where
  "bad_request msg = Response 400 (JStr msg)"

definition not_found :: "string \<Rightarrow> response" where
  "not_found msg = Response 404 (JStr msg)"

text \<open>
  A URL parameter is absent (\<open>None\<close>) or text; \<^verbatim>\<open>if identifier:\<close> is true for text that
  is not empty.
\<close>

definition given :: "string option \<Rightarrow> bool" where
  "given p = (case p of None \<Rightarrow> False | Some s \<Rightarrow> s \<noteq> [])"

definition text_of :: "string option \<Rightarrow> string" where
  "text_of p = (case p of None \<Rightarrow> [] | Some s \<Rightarrow> s)"

text \<open>
  The loop of the full snapshot: \<^verbatim>\<open>config_data[section] = DataGenerator.get_data(section)\<close>
  for each section, into a \<^verbatim>\<open>NonEmptyDict\<close>.
\<close>

fun full_snapshot :: "collaborators \<Rightarrow> store \<Rightarrow> string list \<Rightarrow> tree \<Rightarrow> error + json" where
  "full_snapshot env app [] d = Inr (JObj d)"
| "full_snapshot env app (section # rest) d =
     (case get_data env app section of
        Inl e \<Rightarrow> Inl e
      | Inr v \<Rightarrow> full_snapshot env app rest (ne_setitem d section v))"

text \<open>
  \<^verbatim>\<open>ConfigHandler.http_get(identifier, path_param)\<close>. \<^verbatim>\<open>path_param not in config_data\<close>
  and \<^verbatim>\<open>config_data[path_param]\<close> are the lookup in the section's dict; every producer
  returns a dict.
\<close>

definition http_get ::
  "collaborators \<Rightarrow> store \<Rightarrow> string option \<Rightarrow> string option \<Rightarrow> error + response" where
  "http_get env app identifier path_param =
     (if given identifier \<and> text_of identifier \<notin> set sections
      then Inr (not_found ''Config not found'')
      else if \<not> given identifier
      then (case full_snapshot env app sections [] of
              Inl e \<Rightarrow> Inl e
            | Inr config_data \<Rightarrow> Inr (ok_response config_data))
      else (case get_data env app (text_of identifier) of
              Inl e \<Rightarrow> Inl e
            | Inr config_data \<Rightarrow>
                (if given path_param
                 then (case config_data of
                         JObj d \<Rightarrow>
                           (case map_of d (text_of path_param) of
                              None \<Rightarrow> Inr (bad_request (text_of path_param @ '' is a invalid path''))
                            | Some v \<Rightarrow> Inr (ok_response v))
                       | _ \<Rightarrow> Inl TypeError)
                 else Inr (ok_response config_data))))"

subsection \<open>PATCH\<close>

text \<open>What a request leaves behind besides the store: the log, the save, the push.\<close>

datatype event =
    LogWarning json
  | SaveConfig
  | Push string json

fun is_warning :: "event \<Rightarrow> bool" where
  "is_warning (LogWarning items) = True"
| "is_warning e = False"

text \<open>
  Lines 408 to 418 of \<^verbatim>\<open>http_patch\<close>: the metadata providers are taken out of the body
  before it is flattened. \<^verbatim>\<open>data.get('metadata')\<close> needs a dict; a true value under
  \<^verbatim>\<open>metadata\<close> is asked to \<^verbatim>\<open>pop('metadataProviders')\<close>, which raises \<^verbatim>\<open>KeyError\<close> on a
  dict without the key and fails on anything that is not a dict. The result is the body
  that remains, the store, and the two result trees.
\<close>

definition extract_metadata ::
  "collaborators \<Rightarrow> store \<Rightarrow> json \<Rightarrow> error + (tree \<times> store \<times> tree \<times> tree)" where
  "extract_metadata env app data =
     (case data of
        JObj d \<Rightarrow>
          (case map_of d ''metadata'' of
             None \<Rightarrow> Inr (d, app, [], [])
           | Some m \<Rightarrow>
               (if \<not> py_bool m then Inr (d, app, [], [])
                else
                  (case m of
                     JObj md \<Rightarrow>
                       (case map_of md ''metadataProviders'' of
                          None \<Rightarrow> Inl KeyError
                        | Some metadata_providers \<Rightarrow>
                            (let d' = AList.update ''metadata''
                                        (JObj (AList.delete ''metadataProviders'' md)) d
                             in if \<not> py_bool metadata_providers then Inr (d', app, [], [])
                                else
                                  (case metadata_patch env app metadata_providers of
                                     (app', accepted_it) \<Rightarrow>
                                       (case set_nested_value [] ''metadata.metadataProviders''
                                               metadata_providers of
                                          Inl e \<Rightarrow> Inl e
                                        | Inr t \<Rightarrow>
                                            (if accepted_it then Inr (d', app', t, [])
                                             else Inr (d', app', [], t))))))
                   | JList xs \<Rightarrow> Inl TypeError
                   | _ \<Rightarrow> Inl AttributeError)))
      | _ \<Rightarrow> Inl AttributeError)"

text \<open>
  Lines 420 to 425: each flattened leaf is looked up in the table and patched; it goes
  to \<open>accepted\<close> when there is a field and its patch accepts, to \<open>ignored\<close> otherwise.
  The result is the state the loop reached and the error that stopped it, if any.
\<close>

fun dispatch ::
  "collaborators \<Rightarrow> (string \<times> json) list \<Rightarrow> store \<Rightarrow> tree \<Rightarrow> tree \<Rightarrow>
   (store \<times> tree \<times> tree) \<times> error option" where
  "dispatch env [] app accepted ignored = ((app, accepted, ignored), None)"
| "dispatch env ((key, v) # rest) app accepted ignored =
     (case (case map_of (patches env) key of
              None \<Rightarrow> (app, False)
            | Some patch_field \<Rightarrow> patch env patch_field app v) of
        (app', True) \<Rightarrow>
          (case set_nested_value accepted key v of
             Inl e \<Rightarrow> ((app', accepted, ignored), Some e)
           | Inr accepted' \<Rightarrow> dispatch env rest app' accepted' ignored)
      | (app', False) \<Rightarrow>
          (case set_nested_value ignored key v of
             Inl e \<Rightarrow> ((app', accepted, ignored), Some e)
           | Inr ignored' \<Rightarrow> dispatch env rest app' accepted ignored'))"

text \<open>
  Lines 404 to 425 together: the body that was decoded, through the extraction and the
  loop.
\<close>

definition patch_main ::
  "collaborators \<Rightarrow> store \<Rightarrow> json \<Rightarrow> (store \<times> tree \<times> tree) \<times> error option" where
  "patch_main env app data =
     (case extract_metadata env app data of
        Inl e \<Rightarrow> ((app, [], []), Some e)
      | Inr (d', app', accepted, ignored) \<Rightarrow>
          dispatch env (iter_nested_items d' []) app' accepted ignored)"

text \<open>
  \<^verbatim>\<open>ConfigHandler.http_patch(identifier)\<close> on the request body. The result is the store
  after the request, the events in their order, and the response or the error that
  ended the request.
\<close>

definition http_patch ::
  "collaborators \<Rightarrow> store \<Rightarrow> string option \<Rightarrow> string \<Rightarrow>
   store \<times> event list \<times> (error + response)" where
  "http_patch env app identifier request_body =
     (if \<not> given identifier
      then (app, [], Inr (bad_request ''Config identifier not specified''))
      else if identifier \<noteq> Some ''main''
      then (app, [], Inr (not_found ''Config not found''))
      else
        (case json_decode env request_body of
           None \<Rightarrow> (app, [], Inl ValueError)
         | Some data \<Rightarrow>
             (case patch_main env app data of
                ((app', accepted, ignored), Some e) \<Rightarrow> (app', [], Inl e)
              | ((app', accepted, ignored), None) \<Rightarrow>
                  (let logged = (if ignored \<noteq> [] then [LogWarning (JObj ignored)] else [])
                   in if \<not> save_config env app'
                      then (app', logged @ [SaveConfig], Inl PersistenceFailure)
                      else
                        (case get_data env app' ''main'' of
                           Inl e \<Rightarrow> (app', logged @ [SaveConfig], Inl e)
                         | Inr config \<Rightarrow>
                             (app',
                              logged @ [SaveConfig,
                                Push ''configUpdated''
                                  (JObj [(''section'', JStr ''main''), (''config'', config)])],
                              Inr (ok_response (JObj accepted))))))))"

section \<open>Notions for the partition law\<close>

text \<open>
  A flattened leaf in segments and in dotted form; lists and sets of leaves none of
  whose paths is a prefix of another; and the bodies on which the extraction of the
  metadata providers does not raise: a true value under \<open>metadata\<close> is a dict that holds
  \<open>metadataProviders\<close>.
\<close>

definition dotted :: "string list \<times> json \<Rightarrow> string \<times> json" where
  "dotted e = (join_dot (fst e), snd e)"

fun incomparable :: "(string list \<times> json) list \<Rightarrow> bool" where
  "incomparable [] = True"
| "incomparable ((q, w) # rest) =
     (list_all (\<lambda>(p, x). \<not> prefix p q \<and> \<not> prefix q p) rest \<and> incomparable rest)"

definition apart :: "(string list \<times> json) set \<Rightarrow> (string list \<times> json) set \<Rightarrow> bool" where
  "apart A B = (\<forall>a \<in> A. \<forall>b \<in> B. \<not> prefix (fst a) (fst b) \<and> \<not> prefix (fst b) (fst a))"

definition metadata_ok :: "tree \<Rightarrow> bool" where
  "metadata_ok d =
     (case map_of d ''metadata'' of
        None \<Rightarrow> True
      | Some m \<Rightarrow>
          (if py_bool m
           then (case m of JObj md \<Rightarrow> map_of md ''metadataProviders'' \<noteq> None | _ \<Rightarrow> False)
           else True))"

text \<open>
  The value a producer's snapshot holds at a nested location: nothing when the producer
  raised or the location is absent. \<open>kept_in\<close> is the same for an expression that is
  assigned into a \<^verbatim>\<open>NonEmptyDict\<close>, with the empty values left out.
\<close>

definition read_path :: "error + json \<Rightarrow> string list \<Rightarrow> json option" where
  "read_path x ks = (case x of Inl e \<Rightarrow> None | Inr v \<Rightarrow> lookup_path v ks)"

definition kept_in :: "error + json \<Rightarrow> string list \<Rightarrow> json option" where
  "kept_in x ks =
     (case x of
        Inl e \<Rightarrow> None
      | Inr v \<Rightarrow> if v = JNull \<or> v = JStr [] then None else lookup_path v ks)"

section \<open>A concrete installation for the examples\<close>

text \<open>
  The examples run the handler against collaborators that always succeed: the decoder
  returns the tree it is given, the theme setter stores the theme name, the metadata
  handler stores and accepts the sub-tree, the save succeeds, no text parses as a
  number, and the other modules hold empty values. \<open>example_app\<close> is a store in which
  every attribute is \<open>0\<close>, except the locale, which is an empty tuple.
\<close>

definition example_env :: "json \<Rightarrow> collaborators" where
  "example_env data =
     \<lparr>json_decode = (\<lambda>request_body. Some data),
      int_of_text = (\<lambda>s. None),
      float_of = (\<lambda>v. Inr v),
      text_type = (\<lambda>v. case v of JStr s \<Rightarrow> s | _ \<Rightarrow> []),
      is_valid_combined_quality = (\<lambda>v. Some True),
      change_theme = (\<lambda>app v. Some (app(''THEME_NAME'' := v))),
      metadata_patch = (\<lambda>app v. (app(''metadata_provider_dict'' := v), True)),
      save_config = (\<lambda>app. True),
      common = (\<lambda>name. JInt 0),
      external = (\<lambda>name. if name = ''logger.LOGGING_LEVELS'' then JObj [] else JList []),
      provider_reprs = (\<lambda>app. [])\<rparr>"

definition example_app :: store where
  "example_app = (\<lambda>name. if name = ''LOCALE'' then JList [] else JInt 0)"

section \<open>Facts about the path codec\<close>

lemma split_dot_nonempty: "split_dot s \<noteq> []"
  by (induction s) (auto split: list.splits)

lemma leaves_Cons: "leaves ((k, v) # rest) = vleaves [k] v @ leaves rest"
  by (simp add: vleaves_def split: json.splits)

lemma wf_tree_Cons: "wf_tree ((k, v) # rest) = (wf_val v \<and> map_of rest k = None \<and> wf_tree rest)"
  by (cases v) (auto simp: wf_val_def)

declare leaves.simps(2) [simp del] leaves_Cons [simp]
declare wf_tree.simps(2) [simp del] wf_tree_Cons [simp]

lemma vleaves_prefix: "(q, w) \<in> set (vleaves ks v) \<Longrightarrow> prefix ks q"
  by (cases v) (auto simp: vleaves_def)

lemma vleaves_Cons: "vleaves (k # ks) v = map (\<lambda>(q, w). (k # q, w)) (vleaves ks v)"
  by (cases v) (auto simp: vleaves_def)

lemma vleaves_leaf: "\<not> is_obj v \<Longrightarrow> vleaves ks v = [(ks, v)]"
  by (cases v) (auto simp: vleaves_def)

lemma vleaves_obj: "vleaves ks (JObj sub) = map (\<lambda>(q, w). (ks @ q, w)) (leaves sub)"
  by (simp add: vleaves_def)

lemma leaves_shape: "list_all (\<lambda>(q, w). q \<noteq> [] \<and> \<not> is_obj w) (leaves t)"
proof (induction t rule: leaves.induct)
  case 1
  show ?case by simp
next
  case (2 k v rest)
  then show ?case by (cases v) (auto simp: list_all_iff vleaves_def)
qed

lemma leaves_path_nonempty: "(q, w) \<in> set (leaves t) \<Longrightarrow> q \<noteq> []"
  using leaves_shape [of t] by (auto simp: list_all_iff)

lemma leaves_not_obj: "(q, w) \<in> set (leaves t) \<Longrightarrow> \<not> is_obj w"
  using leaves_shape [of t] by (auto simp: list_all_iff)

lemma join_dot_Cons: "q \<noteq> [] \<Longrightarrow> join_dot (k # q) = k @ ''.'' @ join_dot q"
  by (cases q) auto

lemma iter_nested_items_leaves:
  "iter_nested_items t pre = map (\<lambda>(q, w). (pre @ join_dot q, w)) (leaves t)"
proof (induction t pre rule: iter_nested_items.induct)
  case (1 pre)
  show ?case by simp
next
  case (2 k v rest pre)
  show ?case
  proof (cases v)
    case (JObj sub)
    have "map (\<lambda>(q, w). (pre @ join_dot q, w)) (map (\<lambda>(q, w). (k # q, w)) (leaves sub))
        = map (\<lambda>(q, w). ((pre @ k @ ''.'') @ join_dot q, w)) (leaves sub)"
      by (auto simp: join_dot_Cons dest: leaves_path_nonempty)
    with 2 JObj show ?thesis by (simp add: vleaves_def)
  qed (use 2 in \<open>auto simp: vleaves_def\<close>)
qed

lemma split_dot_dot_free: "dot_free k \<Longrightarrow> split_dot k = [k]"
  by (induction k) (auto simp: dot_free_def)

lemma split_dot_append: "dot_free k \<Longrightarrow> split_dot (k @ CHR ''.'' # r) = k # split_dot r"
  by (induction k) (auto simp: dot_free_def)

lemma split_join: "ks \<noteq> [] \<Longrightarrow> list_all dot_free ks \<Longrightarrow> split_dot (join_dot ks) = ks"
  by (induction ks rule: join_dot.induct) (auto simp: split_dot_dot_free split_dot_append)

lemma split_dot_all_dot_free: "list_all dot_free (split_dot s)"
  by (induction s) (auto simp: dot_free_def split: list.splits)

lemma join_dot_Cons_Cons: "join_dot ((a # w) # ws) = a # join_dot (w # ws)"
  by (cases ws) auto

lemma join_split: "join_dot (split_dot s) = s"
  by (induction s) (auto split: list.splits simp: split_dot_nonempty join_dot_Cons join_dot_Cons_Cons)


lemma set_leaves_Cons: "set (leaves ((k, v) # rest)) = set (vleaves [k] v) \<union> set (leaves rest)"
  by (simp add: leaves_Cons)

lemma vleaves_other_key: "k' \<noteq> k \<Longrightarrow> (q, w) \<in> set (vleaves [k'] v) \<Longrightarrow> \<not> prefix [k] q"
  by (auto dest: vleaves_prefix simp: prefix_def)

lemma leaves_absent_key:
  "map_of t k = None \<Longrightarrow> (q, w) \<in> set (leaves t) \<Longrightarrow> \<not> prefix [k] q"
proof (induction t)
  case Nil
  then show ?case by simp
next
  case (Cons a t)
  obtain k' v where a: "a = (k', v)" by (cases a)
  from Cons.prems a have ne: "k' \<noteq> k" and rest: "map_of t k = None"
    by (auto split: if_splits)
  from Cons.prems(2) a consider "(q, w) \<in> set (vleaves [k'] v)" | "(q, w) \<in> set (leaves t)"
    by (auto simp: set_leaves_Cons)
  then show ?case
  proof cases
    case 1
    then have "prefix [k'] q" by (rule vleaves_prefix)
    with ne show ?thesis by (auto simp: prefix_def)
  next
    case 2
    with Cons.IH rest show ?thesis by blast
  qed
qed

lemma update_leaves:
  "wf_tree t \<Longrightarrow>
   set (leaves (AList.update k x t)) = {(q, w) \<in> set (leaves t). \<not> prefix [k] q} \<union> set (vleaves [k] x)"
proof (induction t)
  case Nil
  then show ?case by (simp add: leaves_Cons)
next
  case (Cons a t)
  obtain k' v where a: "a = (k', v)" by (cases a)
  from Cons.prems a have wf: "wf_tree t" and absent: "map_of t k' = None"
    by (auto simp: wf_tree_Cons)
  show ?case
  proof (cases "k' = k")
    case True
    have "{(q, w) \<in> set (vleaves [k] v). \<not> prefix [k] q} = {}"
      by (auto dest: vleaves_prefix)
    moreover have "{(q, w) \<in> set (leaves t). \<not> prefix [k] q} = set (leaves t)"
      using absent True by (auto dest: leaves_absent_key)
    ultimately show ?thesis using a True
      by (auto simp: set_leaves_Cons)
  next
    case False
    have "{(q, w) \<in> set (vleaves [k'] v). \<not> prefix [k] q} = set (vleaves [k'] v)"
      using False by (auto dest: vleaves_other_key)
    then show ?thesis using a False Cons.IH [OF wf]
      by (auto simp: set_leaves_Cons)
  qed
qed

lemma wf_update: "wf_tree t \<Longrightarrow> wf_val x \<Longrightarrow> wf_tree (AList.update k x t)"
proof (induction t)
  case Nil
  then show ?case by (simp add: wf_tree_Cons)
next
  case (Cons a t)
  obtain k' v where a: "a = (k', v)" by (cases a)
  with Cons show ?case
    by (auto simp: wf_tree_Cons update_conv')
qed

lemma sub_leaves:
  "wf_tree t \<Longrightarrow> map_of t k = Some (JObj sub) \<Longrightarrow>
   {(q, w) \<in> set (leaves t). prefix [k] q} = set (vleaves [k] (JObj sub)) \<and> wf_tree sub"
proof (induction t)
  case Nil
  then show ?case by simp
next
  case (Cons a t)
  obtain k' v where a: "a = (k', v)" by (cases a)
  from Cons.prems a have wf: "wf_tree t" and absent: "map_of t k' = None" and wv: "wf_val v"
    by (auto simp: wf_tree_Cons)
  show ?case
  proof (cases "k' = k")
    case True
    with Cons.prems a have v: "v = JObj sub" by simp
    have "{(q, w) \<in> set (leaves t). prefix [k] q} = {}"
      using absent True by (auto dest: leaves_absent_key)
    moreover have "{(q, w) \<in> set (vleaves [k] v). prefix [k] q} = set (vleaves [k] v)"
      by (auto dest: vleaves_prefix)
    ultimately show ?thesis using a True v wv
      by (auto simp: set_leaves_Cons wf_val_def)
  next
    case False
    have "{(q, w) \<in> set (vleaves [k'] v). prefix [k] q} = {}"
      using False by (auto dest: vleaves_other_key)
    moreover from Cons.prems a False have "map_of t k = Some (JObj sub)" by simp
    ultimately show ?thesis using a Cons.IH [OF wf]
      by (auto simp: set_leaves_Cons)
  qed
qed

lemma leaf_lookup:
  "map_of t k = Some x \<Longrightarrow> \<not> is_obj x \<Longrightarrow> ([k], x) \<in> set (leaves t)"
proof (induction t)
  case Nil
  then show ?case by simp
next
  case (Cons a t)
  obtain k' v where a: "a = (k', v)" by (cases a)
  with Cons show ?case
    by (auto simp: set_leaves_Cons vleaves_leaf split: if_splits)
qed


lemma set_path_wf:
  "wf_tree t \<Longrightarrow> wf_val v \<Longrightarrow> set_path t ks v = Inr t' \<Longrightarrow> wf_tree t'"
proof (induction t ks v arbitrary: t' rule: set_path.induct)
  case (1 d v)
  then show ?case by simp
next
  case (2 d k v)
  then show ?case by (auto simp: wf_update)
next
  case (3 d k k' ks v)
  show ?case
  proof (cases "map_of d k")
    case None
    with "3.prems" obtain sub' where s: "set_path [] (k' # ks) v = Inr sub'"
      and t': "t' = AList.update k (JObj sub') d"
      by (auto split: sum.splits)
    from "3.IH"(1) [OF None _ "3.prems"(2) s] have "wf_tree sub'" by simp
    with t' "3.prems"(1) show ?thesis by (simp add: wf_update wf_val_def)
  next
    case (Some x)
    with "3.prems" obtain sub sub' where x: "x = JObj sub"
      and s: "set_path sub (k' # ks) v = Inr sub'"
      and t': "t' = AList.update k (JObj sub') d"
      by (auto split: sum.splits json.splits)
    from sub_leaves [OF "3.prems"(1)] Some x have "wf_tree sub" by simp
    from "3.IH"(2) [OF Some x this "3.prems"(2) s] have "wf_tree sub'" .
    with t' "3.prems"(1) show ?thesis by (simp add: wf_update wf_val_def)
  qed
qed

lemma prefix_Cons_split:
  "{(q, w) \<in> A. \<not> prefix (k # ks) q} =
   {(q, w) \<in> A. \<not> prefix [k] q} \<union> {(q, w) \<in> A. prefix [k] q \<and> \<not> prefix (k # ks) q}"
  by (auto simp: prefix_def)

lemma set_path_leaves:
  "wf_tree t \<Longrightarrow> ks \<noteq> [] \<Longrightarrow> set_path t ks v = Inr t' \<Longrightarrow>
   set (leaves t') = {(q, w) \<in> set (leaves t). \<not> prefix ks q} \<union> set (vleaves ks v)"
proof (induction t ks v arbitrary: t' rule: set_path.induct)
  case (1 d v)
  then show ?case by simp
next
  case (2 d k v)
  then show ?case by (auto simp: update_leaves)
next
  case (3 d k k' ks v)
  let ?ks = "k' # ks"
  show ?case
  proof (cases "map_of d k")
    case None
    with "3.prems" obtain sub' where s: "set_path [] ?ks v = Inr sub'"
      and t': "t' = AList.update k (JObj sub') d"
      by (auto split: sum.splits)
    from "3.IH"(1) [OF None _ _ s] have sub': "set (leaves sub') = set (vleaves ?ks v)" by simp
    have keep: "{(q, w) \<in> set (leaves d). \<not> prefix [k] q} = {(q, w) \<in> set (leaves d). \<not> prefix (k # ?ks) q}"
      using None by (auto dest: leaves_absent_key simp: prefix_def)
    have "set (leaves t') = {(q, w) \<in> set (leaves d). \<not> prefix [k] q} \<union> set (vleaves [k] (JObj sub'))"
      using t' "3.prems"(1) by (simp add: update_leaves)
    also have "set (vleaves [k] (JObj sub')) = set (vleaves (k # ?ks) v)"
      using sub' by (simp add: vleaves_obj vleaves_Cons [of k ?ks] image_def)
    finally show ?thesis using keep by simp
  next
    case (Some x)
    with "3.prems" obtain sub sub' where x: "x = JObj sub"
      and s: "set_path sub ?ks v = Inr sub'"
      and t': "t' = AList.update k (JObj sub') d"
      by (auto split: sum.splits json.splits)
    from sub_leaves [OF "3.prems"(1)] Some x
    have wfsub: "wf_tree sub"
      and under: "{(q, w) \<in> set (leaves d). prefix [k] q} = set (vleaves [k] (JObj sub))" by simp_all
    from "3.IH"(2) [OF Some x wfsub _ s]
    have sub': "set (leaves sub') = {(q, w) \<in> set (leaves sub). \<not> prefix ?ks q} \<union> set (vleaves ?ks v)"
      by simp
    have "set (leaves t') = {(q, w) \<in> set (leaves d). \<not> prefix [k] q} \<union> set (vleaves [k] (JObj sub'))"
      using t' "3.prems"(1) by (simp add: update_leaves)
    moreover have "set (vleaves [k] (JObj sub')) =
        (\<lambda>(q, w). (k # q, w)) ` {(q, w) \<in> set (leaves sub). \<not> prefix ?ks q} \<union> set (vleaves (k # ?ks) v)"
      using sub' by (simp add: vleaves_obj vleaves_Cons [of k ?ks] image_Un)
    moreover have "(\<lambda>(q, w). (k # q, w)) ` {(q, w) \<in> set (leaves sub). \<not> prefix ?ks q}
        = {(q, w) \<in> set (leaves d). prefix [k] q \<and> \<not> prefix (k # ?ks) q}"
    proof -
      have "{(q, w) \<in> set (leaves d). prefix [k] q \<and> \<not> prefix (k # ?ks) q}
          = {(q, w) \<in> {(q, w) \<in> set (leaves d). prefix [k] q}. \<not> prefix (k # ?ks) q}" by auto
      also have "\<dots> = {(q, w) \<in> (\<lambda>(q, w). (k # q, w)) ` set (leaves sub). \<not> prefix (k # ?ks) q}"
        unfolding under by (simp add: vleaves_obj)
      also have "\<dots> = (\<lambda>(q, w). (k # q, w)) ` {(q, w) \<in> set (leaves sub). \<not> prefix ?ks q}"
        by force
      finally show ?thesis by simp
    qed
    ultimately show ?thesis
      by (simp add: prefix_Cons_split [of "set (leaves d)" k ?ks] Un_assoc)
  qed
qed

lemma set_path_ok:
  "wf_tree t \<Longrightarrow> ks \<noteq> [] \<Longrightarrow> (\<forall>(q, w) \<in> set (leaves t). \<not> strict_prefix q ks) \<Longrightarrow>
   \<exists>t'. set_path t ks v = Inr t'"
proof (induction t ks v rule: set_path.induct)
  case (1 d v)
  then show ?case by simp
next
  case (2 d k v)
  then show ?case by simp
next
  case (3 d k k' ks v)
  let ?ks = "k' # ks"
  show ?case
  proof (cases "map_of d k")
    case None
    from "3.IH"(1) [OF None] obtain sub' where "set_path [] ?ks v = Inr sub'" by auto
    with None show ?thesis by simp
  next
    case (Some x)
    show ?thesis
    proof (cases "is_obj x")
      case False
      with Some have "([k], x) \<in> set (leaves d)" by (rule leaf_lookup)
      with "3.prems"(3) have "\<not> strict_prefix [k] (k # ?ks)" by blast
      then show ?thesis by (simp add: strict_prefix_def)
    next
      case True
      then obtain sub where x: "x = JObj sub" by (cases x) auto
      from sub_leaves [OF "3.prems"(1)] Some x
      have wfsub: "wf_tree sub"
        and under: "{(q, w) \<in> set (leaves d). prefix [k] q} = set (vleaves [k] (JObj sub))" by simp_all
      have "\<forall>(q, w) \<in> set (leaves sub). \<not> strict_prefix q ?ks"
      proof (clarify)
        fix q w assume m: "(q, w) \<in> set (leaves sub)" and sp: "strict_prefix q ?ks"
        from m have "(k # q, w) \<in> set (vleaves [k] (JObj sub))"
          by (force simp: vleaves_obj)
        with under have "(k # q, w) \<in> set (leaves d)" by blast
        with "3.prems"(3) have "\<not> strict_prefix (k # q) (k # ?ks)" by blast
        with sp show False by (simp add: strict_prefix_def)
      qed
      from "3.IH"(2) [OF Some x wfsub _ this] obtain sub' where "set_path sub ?ks v = Inr sub'"
        by auto
      with Some x show ?thesis by simp
    qed
  qed
qed

section \<open>The partition of a patch\<close>


lemma incomparable_append:
  "incomparable (xs @ ys) =
   (incomparable xs \<and> incomparable ys \<and>
    (\<forall>(q, w) \<in> set xs. \<forall>(p, x) \<in> set ys. \<not> prefix p q \<and> \<not> prefix q p))"
  by (induction xs rule: incomparable.induct) (auto simp: list_all_iff)

lemma incomparable_map_Cons:
  "incomparable (map (\<lambda>(q, w). (k # q, w)) xs) = incomparable xs"
  by (induction xs rule: incomparable.induct) (auto simp: list_all_iff)

lemma vleaves_nonempty_path: "(q, w) \<in> set (vleaves [k] v) \<Longrightarrow> \<exists>q'. q = k # q'"
  by (auto dest: vleaves_prefix simp: prefix_def)

lemma incomparable_leaves: "wf_tree t \<Longrightarrow> incomparable (leaves t)"
proof (induction t rule: leaves.induct)
  case 1
  show ?case by simp
next
  case (2 k v rest)
  from "2.prems" have wv: "wf_val v" and absent: "map_of rest k = None" and wr: "wf_tree rest"
    by simp_all
  have inner: "incomparable (vleaves [k] v)"
  proof (cases v)
    case (JObj sub)
    with wv have "wf_tree sub" by (simp add: wf_val_def)
    with "2.IH"(1) [OF JObj] have "incomparable (leaves sub)" .
    with JObj show ?thesis by (simp add: vleaves_def incomparable_map_Cons)
  qed (simp_all add: vleaves_def)
  have cross: "\<not> prefix p q \<and> \<not> prefix q p"
    if "(q, w) \<in> set (vleaves [k] v)" "(p, x) \<in> set (leaves rest)" for q w p x
  proof -
    from that(1) obtain q' where q: "q = k # q'" by (auto dest: vleaves_nonempty_path)
    from that(2) have "p \<noteq> []" by (rule leaves_path_nonempty)
    moreover from absent that(2) have "\<not> prefix [k] p" by (rule leaves_absent_key)
    ultimately show ?thesis using q by (cases p) (auto simp: prefix_def)
  qed
  from inner "2.IH"(2) [OF wr] cross show ?case
    by (auto simp: incomparable_append)
qed

lemma incomparable_set:
  "incomparable L \<Longrightarrow> (p, x) \<in> set L \<Longrightarrow> (q, w) \<in> set L \<Longrightarrow> prefix p q \<Longrightarrow> (p, x) = (q, w)"
  by (induction L rule: incomparable.induct) (auto simp: list_all_iff)

lemma leaves_prefix_free:
  "wf_tree t \<Longrightarrow> (p, x) \<in> set (leaves t) \<Longrightarrow> (q, w) \<in> set (leaves t) \<Longrightarrow> prefix p q \<Longrightarrow>
   p = q \<and> x = w"
  using incomparable_set [OF incomparable_leaves] by blast

lemma dot_free_tree_Cons:
  "dot_free_tree ((k, v) # rest) = (dot_free k \<and> dot_free_val v \<and> dot_free_tree rest)"
  by (cases v) (auto simp: dot_free_val_def)

lemma leaves_dot_free: "dot_free_tree t \<Longrightarrow> (q, w) \<in> set (leaves t) \<Longrightarrow> list_all dot_free q"
proof (induction t arbitrary: q w rule: leaves.induct)
  case 1
  then show ?case by simp
next
  case (2 k v rest)
  from "2.prems"(1) have dk: "dot_free k" and dv: "dot_free_val v" and dr: "dot_free_tree rest"
    by (simp_all add: dot_free_tree_Cons del: dot_free_tree.simps)
  from "2.prems"(2) consider "(q, w) \<in> set (vleaves [k] v)" | "(q, w) \<in> set (leaves rest)"
    by auto
  then show ?case
  proof cases
    case 1
    show ?thesis
    proof (cases v)
      case (JObj sub)
      with 1 obtain q' where q: "q = k # q'" and m: "(q', w) \<in> set (leaves sub)"
        by (auto simp: vleaves_def)
      from dv JObj have "dot_free_tree sub" by (simp add: dot_free_val_def)
      from "2.IH"(1) [OF JObj this m] dk q show ?thesis by simp
    qed (use 1 dk in \<open>auto simp: vleaves_def\<close>)
  next
    case 2
    with "2.IH"(2) [OF dr] show ?thesis by blast
  qed
qed

lemma add_leaf:
  assumes wf: "wf_tree T" and q: "q \<noteq> []" "list_all dot_free q" and w: "\<not> is_obj w"
    and inc: "\<forall>(p, x) \<in> set (leaves T). \<not> prefix p q \<and> \<not> prefix q p"
  shows "\<exists>T'. set_nested_value T (join_dot q) w = Inr T' \<and> wf_tree T'
          \<and> set (leaves T') = insert (q, w) (set (leaves T))"
proof -
  have sp: "split_dot (join_dot q) = q" using q by (rule split_join)
  from inc have "\<forall>(p, x) \<in> set (leaves T). \<not> strict_prefix p q"
    by (auto simp: strict_prefix_def)
  from set_path_ok [OF wf q(1) this] obtain T' where T': "set_path T q w = Inr T'" by blast
  from w have wv: "wf_val w" by (cases w) (auto simp: wf_val_def)
  have "set (leaves T') = {(p, x) \<in> set (leaves T). \<not> prefix q p} \<union> set (vleaves q w)"
    using wf q(1) T' by (rule set_path_leaves)
  moreover have "{(p, x) \<in> set (leaves T). \<not> prefix q p} = set (leaves T)"
    using inc by auto
  ultimately have "set (leaves T') = insert (q, w) (set (leaves T))"
    using w by (simp add: vleaves_leaf)
  with T' sp set_path_wf [OF wf wv T'] show ?thesis
    by (simp add: set_nested_value_def)
qed


lemma dotted_pair: "dotted (q, w) = (join_dot q, w)"
  by (simp add: dotted_def)

lemma iter_nested_items_dotted: "iter_nested_items t [] = map dotted (leaves t)"
  by (simp add: iter_nested_items_leaves dotted_def case_prod_unfold)

lemma dispatch_step:
  "dispatch env ((key, v) # rest) app accepted ignored =
     (let r = (case map_of (patches env) key of
                 None \<Rightarrow> (app, False)
               | Some patch_field \<Rightarrow> patch env patch_field app v)
      in if snd r
         then (case set_nested_value accepted key v of
                 Inl e \<Rightarrow> ((fst r, accepted, ignored), Some e)
               | Inr accepted' \<Rightarrow> dispatch env rest (fst r) accepted' ignored)
         else (case set_nested_value ignored key v of
                 Inl e \<Rightarrow> ((fst r, accepted, ignored), Some e)
               | Inr ignored' \<Rightarrow> dispatch env rest (fst r) accepted ignored'))"
proof -
  obtain a b where r: "(case map_of (patches env) key of
                 None \<Rightarrow> (app, False)
               | Some patch_field \<Rightarrow> patch env patch_field app v) = (a, b)"
    by (cases "case map_of (patches env) key of
                 None \<Rightarrow> (app, False)
               | Some patch_field \<Rightarrow> patch env patch_field app v")
  show ?thesis by (cases b) (simp_all add: r Let_def split: sum.splits)
qed

lemma incomparable_Cons:
  "incomparable (e # rest) = (apart {e} (set rest) \<and> incomparable rest)"
  by (cases e) (auto simp: apart_def list_all_iff)

lemma add_leaf':
  assumes "wf_tree T" "q \<noteq> []" "list_all dot_free q" "\<not> is_obj w"
    and "apart (set (leaves T)) {(q, w)}"
  shows "\<exists>T'. set_nested_value T (join_dot q) w = Inr T' \<and> wf_tree T'
          \<and> set (leaves T') = insert (q, w) (set (leaves T))"
  using assms(5) by (intro add_leaf assms) (auto simp: apart_def)

lemma dispatch_partition:
  assumes "wf_tree acc" "wf_tree ign"
    and "incomparable L"
    and "list_all (\<lambda>e. fst e \<noteq> [] \<and> list_all dot_free (fst e) \<and> \<not> is_obj (snd e)) L"
    and "apart (set (leaves acc) \<union> set (leaves ign)) (set L)"
    and "fst ` set (leaves acc) \<inter> fst ` set (leaves ign) = {}"
  shows "\<exists>app' acc' ign'.
           dispatch env (map dotted L) app acc ign = ((app', acc', ign'), None)
           \<and> wf_tree acc' \<and> wf_tree ign'
           \<and> set (leaves acc') \<union> set (leaves ign') = set (leaves acc) \<union> set (leaves ign) \<union> set L
           \<and> fst ` set (leaves acc') \<inter> fst ` set (leaves ign') = {}"
  using assms
proof (induction L arbitrary: app acc ign)
  case Nil
  then show ?case by simp
next
  case (Cons a L)
  obtain q w where a: "a = (q, w)" by (cases a)
  from Cons.prems(3) have incL: "incomparable L" and later: "apart {a} (set L)"
    by (simp_all add: incomparable_Cons)
  from Cons.prems(4) a have q: "q \<noteq> []" "list_all dot_free q" and w: "\<not> is_obj w"
    and shapeL: "list_all (\<lambda>e. fst e \<noteq> [] \<and> list_all dot_free (fst e) \<and> \<not> is_obj (snd e)) L"
    by auto
  from Cons.prems(5) a
  have inc_acc: "apart (set (leaves acc)) {(q, w)}"
    and inc_ign: "apart (set (leaves ign)) {(q, w)}"
    and inc_rest: "apart (set (leaves acc) \<union> set (leaves ign)) (set L)"
    by (auto simp: apart_def)
  have q_new: "q \<notin> fst ` set (leaves acc)" "q \<notin> fst ` set (leaves ign)"
    using inc_acc inc_ign by (force simp: apart_def)+
  define r where "r = (case map_of (patches env) (join_dot q) of
                 None \<Rightarrow> (app, False)
               | Some patch_field \<Rightarrow> patch env patch_field app w)"
  show ?case
  proof (cases "snd r")
    case True
    from add_leaf' [OF Cons.prems(1) q w inc_acc] obtain acc1
      where s: "set_nested_value acc (join_dot q) w = Inr acc1" and wf1: "wf_tree acc1"
        and l1: "set (leaves acc1) = insert (q, w) (set (leaves acc))" by blast
    have inc1: "apart (set (leaves acc1) \<union> set (leaves ign)) (set L)"
      using l1 inc_rest later a by (auto simp: apart_def)
    have dis1: "fst ` set (leaves acc1) \<inter> fst ` set (leaves ign) = {}"
      using l1 Cons.prems(6) q_new by auto
    from Cons.IH [OF wf1 Cons.prems(2) incL shapeL inc1 dis1, of "fst r"]
    obtain app' acc' ign' where
      "dispatch env (map dotted L) (fst r) acc1 ign = ((app', acc', ign'), None)"
      "wf_tree acc'" "wf_tree ign'"
      "set (leaves acc') \<union> set (leaves ign') = set (leaves acc1) \<union> set (leaves ign) \<union> set L"
      "fst ` set (leaves acc') \<inter> fst ` set (leaves ign') = {}" by blast
    with True s l1 a show ?thesis
      by (auto simp: dispatch_step dotted_pair r_def [symmetric] simp del: dispatch.simps)
  next
    case False
    from add_leaf' [OF Cons.prems(2) q w inc_ign] obtain ign1
      where s: "set_nested_value ign (join_dot q) w = Inr ign1" and wf1: "wf_tree ign1"
        and l1: "set (leaves ign1) = insert (q, w) (set (leaves ign))" by blast
    have inc1: "apart (set (leaves acc) \<union> set (leaves ign1)) (set L)"
      using l1 inc_rest later a by (auto simp: apart_def)
    have dis1: "fst ` set (leaves acc) \<inter> fst ` set (leaves ign1) = {}"
      using l1 Cons.prems(6) q_new by auto
    from Cons.IH [OF Cons.prems(1) wf1 incL shapeL inc1 dis1, of "fst r"]
    obtain app' acc' ign' where
      "dispatch env (map dotted L) (fst r) acc ign1 = ((app', acc', ign'), None)"
      "wf_tree acc'" "wf_tree ign'"
      "set (leaves acc') \<union> set (leaves ign') = set (leaves acc) \<union> set (leaves ign1) \<union> set L"
      "fst ` set (leaves acc') \<inter> fst ` set (leaves ign') = {}" by blast
    with False s l1 a show ?thesis
      by (auto simp: dispatch_step dotted_pair r_def [symmetric] simp del: dispatch.simps)
  qed
qed


lemma leaves_under:
  "wf_tree t \<Longrightarrow> map_of t k = Some x \<Longrightarrow>
   ((q, w) \<in> set (leaves t) \<and> prefix [k] q) = ((q, w) \<in> set (vleaves [k] x))"
proof (induction t)
  case Nil
  then show ?case by simp
next
  case (Cons a t)
  obtain k' v where a: "a = (k', v)" by (cases a)
  from Cons.prems a have wf: "wf_tree t" and absent: "map_of t k' = None"
    by auto
  show ?case
  proof (cases "k' = k")
    case True
    with Cons.prems a have v: "v = x" by simp
    from absent True have "\<not> ((q, w) \<in> set (leaves t) \<and> prefix [k] q)"
      by (auto dest: leaves_absent_key)
    then show ?thesis using a True v
      by (auto dest: vleaves_prefix)
  next
    case False
    from Cons.prems a False have "map_of t k = Some x" by simp
    from Cons.IH [OF wf this] a False show ?thesis
      by (auto dest: vleaves_other_key)
  qed
qed

lemma wf_val_lookup: "wf_tree t \<Longrightarrow> map_of t k = Some x \<Longrightarrow> wf_val x"
  by (induction t) (auto split: if_splits)

lemma wf_delete: "wf_tree t \<Longrightarrow> wf_tree (AList.delete k t)"
  by (induction t) (auto simp: delete_conv')

lemma leaves_delete:
  "wf_tree t \<Longrightarrow>
   ((q, w) \<in> set (leaves (AList.delete k t))) = ((q, w) \<in> set (leaves t) \<and> \<not> prefix [k] q)"
proof (induction t)
  case Nil
  then show ?case by simp
next
  case (Cons a t)
  obtain k' v where a: "a = (k', v)" by (cases a)
  from Cons.prems a have wf: "wf_tree t" and absent: "map_of t k' = None"
    by auto
  show ?case
  proof (cases "k' = k")
    case True
    from absent True have "(q, w) \<in> set (leaves t) \<Longrightarrow> \<not> prefix [k] q"
      by (auto dest: leaves_absent_key)
    with Cons.IH [OF wf] a True show ?thesis
      by (auto dest: vleaves_prefix)
  next
    case False
    with Cons.IH [OF wf] a show ?thesis
      by (auto dest: vleaves_other_key)
  qed
qed

lemma leaves_update:
  "wf_tree t \<Longrightarrow>
   ((q, w) \<in> set (leaves (AList.update k x t))) =
   ((q, w) \<in> set (leaves t) \<and> \<not> prefix [k] q \<or> (q, w) \<in> set (vleaves [k] x))"
  by (auto simp: update_leaves)

lemma in_vleaves_obj:
  "((q, w) \<in> set (vleaves [k] (JObj sub))) = (\<exists>q'. q = k # q' \<and> (q', w) \<in> set (leaves sub))"
  by (auto simp: vleaves_obj)

lemma prefix_two: "prefix [a, b] q = (\<exists>q'. q = a # q' \<and> prefix [b] q')"
  by (cases q) (auto simp: prefix_def)

text \<open>What the extraction leaves in the body, and what it takes out.\<close>

lemma body_after_pop:
  assumes wf: "wf_tree d" and m: "map_of d M = Some (JObj md)"
  shows "((q, w) \<in> set (leaves (AList.update M (JObj (AList.delete P md)) d))) =
         ((q, w) \<in> set (leaves d) \<and> \<not> prefix [M, P] q)"
proof -
  from wf m have wmd: "wf_tree md" by (auto dest: wf_val_lookup simp: wf_val_def)
  have under: "((q, w) \<in> set (leaves d) \<and> prefix [M] q) = (\<exists>q'. q = M # q' \<and> (q', w) \<in> set (leaves md))"
    using leaves_under [OF wf m] by (simp add: in_vleaves_obj)
  show ?thesis
  proof (cases "prefix [M] q")
    case True
    then obtain q' where q: "q = M # q'" by (cases q) (auto simp: prefix_def)
    with under show ?thesis
      by (simp add: leaves_update [OF wf] in_vleaves_obj leaves_delete [OF wmd] prefix_two)
  next
    case False
    then have "\<not> prefix [M, P] q" by (auto simp: prefix_two prefix_def)
    with False show ?thesis
      by (auto simp: leaves_update [OF wf] in_vleaves_obj)
  qed
qed

lemma popped_leaves:
  assumes wf: "wf_tree d" and m: "map_of d M = Some (JObj md)" and p: "map_of md P = Some mp"
  shows "((q, w) \<in> set (leaves d) \<and> prefix [M, P] q) = ((q, w) \<in> set (vleaves [M, P] mp))"
proof -
  from wf m have wmd: "wf_tree md" by (auto dest: wf_val_lookup simp: wf_val_def)
  have under: "((q, w) \<in> set (leaves d) \<and> prefix [M] q) = (\<exists>q'. q = M # q' \<and> (q', w) \<in> set (leaves md))"
    for q using leaves_under [OF wf m] by (simp add: in_vleaves_obj)
  have "((q, w) \<in> set (leaves d) \<and> prefix [M, P] q)
      = (\<exists>q'. q = M # q' \<and> (q', w) \<in> set (leaves md) \<and> prefix [P] q')"
    using under [of q] by (auto simp: prefix_two)
  also have "\<dots> = (\<exists>q'. q = M # q' \<and> (q', w) \<in> set (vleaves [P] mp))"
    using leaves_under [OF wmd p] by auto
  also have "\<dots> = ((q, w) \<in> set (vleaves [M, P] mp))"
    by (auto simp: vleaves_Cons [of M "[P]"])
  finally show ?thesis .
qed


lemma split_metadata_path:
  "split_dot ''metadata.metadataProviders'' = [''metadata'', ''metadataProviders'']"
  by simp

lemma set_nested_value_fresh:
  "set_nested_value [] ''metadata.metadataProviders'' mp
     = Inr [(''metadata'', JObj [(''metadataProviders'', mp)])]"
  by (simp add: set_nested_value_def)

lemma falsy_leaves: "\<not> py_bool m \<Longrightarrow> (q, w) \<in> set (vleaves ks m) \<Longrightarrow> q = ks \<and> w = m"
  by (cases m) (auto simp: vleaves_def)

lemma vleaves_exact: "(ks, w) \<in> set (vleaves ks m) \<Longrightarrow> w = m \<and> \<not> is_obj m"
  by (cases m) (auto simp: vleaves_def dest: leaves_path_nonempty)

lemma patch_main_leaves:
  assumes wf: "wf_tree d" and df: "dot_free_tree d" and ok: "metadata_ok d"
  shows "\<exists>app' acc ign.
           patch_main env app (JObj d) = ((app', acc, ign), None)
           \<and> set (leaves acc) \<union> set (leaves ign)
               = set (leaves d) - {([''metadata'', ''metadataProviders''], v) | v. \<not> py_bool v}
           \<and> fst ` set (leaves acc) \<inter> fst ` set (leaves ign) = {}"
proof -
  let ?M = "''metadata''" and ?P = "''metadataProviders''"
  let ?drop = "{([?M, ?P], v) | v. \<not> py_bool v}"
  have shape: "list_all (\<lambda>e. fst e \<noteq> [] \<and> list_all dot_free (fst e) \<and> \<not> is_obj (snd e)) (leaves t)"
    if "set (leaves t) \<subseteq> set (leaves d)" for t
    using that leaves_dot_free [OF df] leaves_path_nonempty [of _ _ d] leaves_not_obj [of _ _ d]
    by (fastforce simp: list_all_iff)
  have run: "\<exists>app' acc ign.
           dispatch env (iter_nested_items d' []) app1 acc0 ign0 = ((app', acc, ign), None)
           \<and> set (leaves acc) \<union> set (leaves ign) = set (leaves acc0) \<union> set (leaves ign0) \<union> set (leaves d')
           \<and> fst ` set (leaves acc) \<inter> fst ` set (leaves ign) = {}"
    if "wf_tree d'" "wf_tree acc0" "wf_tree ign0" "set (leaves d') \<subseteq> set (leaves d)"
      "apart (set (leaves acc0) \<union> set (leaves ign0)) (set (leaves d'))"
      "fst ` set (leaves acc0) \<inter> fst ` set (leaves ign0) = {}"
    for d' app1 acc0 ign0
    using dispatch_partition [OF that(2,3) incomparable_leaves [OF that(1)] shape [OF that(4)] that(5,6),
        of env app1]
    by (auto simp: iter_nested_items_dotted)
  show ?thesis
  proof (cases "map_of d ?M")
    case None
    then have ex: "extract_metadata env app (JObj d) = Inr (d, app, [], [])"
      by (simp add: extract_metadata_def)
    have "set (leaves d) - ?drop = set (leaves d)"
      using None by (auto dest: leaves_absent_key)
    with run [OF wf, of "[]" "[]" app] ex show ?thesis
      by (auto simp: patch_main_def apart_def)
  next
    case (Some m)
    show ?thesis
    proof (cases "py_bool m")
      case False
      with Some have ex: "extract_metadata env app (JObj d) = Inr (d, app, [], [])"
        by (simp add: extract_metadata_def)
      have "([?M, ?P], v) \<notin> set (leaves d)" for v
      proof
        assume "([?M, ?P], v) \<in> set (leaves d)"
        then have "([?M, ?P], v) \<in> set (vleaves [?M] m)"
          using leaves_under [OF wf Some, of "[?M, ?P]" v] by (simp add: prefix_def)
        with False show False by (auto dest: falsy_leaves)
      qed
      then have "set (leaves d) - ?drop = set (leaves d)" by auto
      with run [OF wf, of "[]" "[]" app] ex show ?thesis
        by (auto simp: patch_main_def apart_def)
    next
      case True
      with ok Some obtain md mp where m: "m = JObj md" and p: "map_of md ?P = Some mp"
        by (auto simp: metadata_ok_def split: json.splits)
      let ?d' = "AList.update ?M (JObj (AList.delete ?P md)) d"
      from Some m have dm: "map_of d ?M = Some (JObj md)" by simp
      from wf dm have wmd: "wf_tree md" by (auto dest: wf_val_lookup simp: wf_val_def)
      from wmd p have wmp: "wf_val mp" by (rule wf_val_lookup)
      have wd': "wf_tree ?d'" using wf wmd by (simp add: wf_update wf_delete wf_val_def)
      have d': "((q, w) \<in> set (leaves ?d')) = ((q, w) \<in> set (leaves d) \<and> \<not> prefix [?M, ?P] q)" for q w
        using wf dm by (rule body_after_pop)
      have popped: "((q, w) \<in> set (leaves d) \<and> prefix [?M, ?P] q) = ((q, w) \<in> set (vleaves [?M, ?P] mp))" for q w
        using wf dm p by (rule popped_leaves)
      have sub: "set (leaves ?d') \<subseteq> set (leaves d)" using d' by auto
      show ?thesis
      proof (cases "py_bool mp")
        case False
        with True dm p m have ex: "extract_metadata env app (JObj d) = Inr (?d', app, [], [])"
          by (simp add: extract_metadata_def Let_def)
        have "set (leaves ?d') = set (leaves d) - ?drop"
        proof (rule set_eqI, clarify)
          fix q w
          show "((q, w) \<in> set (leaves ?d')) = ((q, w) \<in> set (leaves d) - ?drop)"
          proof (cases "prefix [?M, ?P] q")
            case pre: True
            show ?thesis
            proof (cases "(q, w) \<in> set (leaves d)")
              case in_d: True
              with pre popped have "(q, w) \<in> set (vleaves [?M, ?P] mp)" by blast
              with False have "q = [?M, ?P] \<and> w = mp" by (rule falsy_leaves)
              with False in_d pre show ?thesis by (simp add: d')
            qed (simp add: d')
          next
            case npre: False
            then have "q \<noteq> [?M, ?P]" by auto
            with npre show ?thesis by (auto simp: d')
          qed
        qed
        with run [OF wd' _ _ sub, of "[]" "[]" app] ex show ?thesis
          by (auto simp: patch_main_def apart_def)
      next
        case mp_true: True
        let ?T = "[(?M, JObj [(?P, mp)])]"
        have lT: "set (leaves ?T) = set (vleaves [?M, ?P] mp)"
          by (simp add: vleaves_obj vleaves_Cons [of ?M "[?P]"] case_prod_unfold)
        have wT: "wf_tree ?T" using wmp by (simp add: wf_val_def)
        have apartT: "apart (set (leaves ?T)) (set (leaves ?d'))"
          unfolding apart_def
        proof (intro ballI)
          fix a b assume a: "a \<in> set (leaves ?T)" and b: "b \<in> set (leaves ?d')"
          obtain p x where ap: "a = (p, x)" by (cases a)
          obtain q w where bq: "b = (q, w)" by (cases b)
          from a ap lT popped [of p x] have pa: "(p, x) \<in> set (leaves d)" "prefix [?M, ?P] p" by auto
          from b bq d' [of q w] have qb: "(q, w) \<in> set (leaves d)" "\<not> prefix [?M, ?P] q" by auto
          from pa qb have "p \<noteq> q" by auto
          with leaves_prefix_free [OF wf pa(1) qb(1)] leaves_prefix_free [OF wf qb(1) pa(1)]
          show "\<not> prefix (fst a) (fst b) \<and> \<not> prefix (fst b) (fst a)"
            using ap bq by auto
        qed
        have union: "set (leaves ?T) \<union> set (leaves ?d') = set (leaves d) - ?drop"
        proof (rule set_eqI, clarify)
          fix q w
          have nodrop: "(q, w) \<in> set (leaves d) \<Longrightarrow> (q, w) \<notin> ?drop"
          proof
            assume in_d: "(q, w) \<in> set (leaves d)" and "(q, w) \<in> ?drop"
            then have q: "q = [?M, ?P]" and fw: "\<not> py_bool w" by auto
            with in_d popped [of q w] have "([?M, ?P], w) \<in> set (vleaves [?M, ?P] mp)" by simp
            then have "w = mp" by (auto dest: vleaves_exact)
            with fw mp_true show False by simp
          qed
          show "((q, w) \<in> set (leaves ?T) \<union> set (leaves ?d')) = ((q, w) \<in> set (leaves d) - ?drop)"
            using nodrop d' [of q w] popped [of q w] lT by blast
        qed
        obtain app1 accepted_it where mpatch: "metadata_patch env app mp = (app1, accepted_it)"
          by (cases "metadata_patch env app mp")
        show ?thesis
        proof (cases accepted_it)
          case True
          with mp_true \<open>py_bool m\<close> dm p m mpatch
          have ex: "extract_metadata env app (JObj d) = Inr (?d', app1, ?T, [])"
            by (simp add: extract_metadata_def Let_def set_nested_value_fresh)
          from run [OF wd' wT _ sub, of "[]" app1] apartT union ex show ?thesis
            by (auto simp: patch_main_def simp del: leaves_Cons)
        next
          case False
          with mp_true \<open>py_bool m\<close> dm p m mpatch
          have ex: "extract_metadata env app (JObj d) = Inr (?d', app1, [], ?T)"
            by (simp add: extract_metadata_def Let_def set_nested_value_fresh)
          from run [OF wd' _ wT sub, of "[]" app1] apartT union ex show ?thesis
            by (auto simp: patch_main_def simp del: leaves_Cons)
        qed
      qed
    qed
  qed
qed


lemma join_dot_inj:
  assumes "q \<noteq> []" "list_all dot_free q" "q' \<noteq> []" "list_all dot_free q'"
    and eq: "join_dot q = join_dot q'"
  shows "q = q'"
proof -
  have "q = split_dot (join_dot q)" by (rule split_join [OF assms(1,2), symmetric])
  also have "\<dots> = split_dot (join_dot q')" by (rule arg_cong [OF eq])
  also have "\<dots> = q'" by (rule split_join [OF assms(3,4)])
  finally show ?thesis .
qed

lemma image_Diff_related:
  assumes "\<And>e. e \<in> A \<Longrightarrow> (f e \<in> S') = (e \<in> S)"
  shows "f ` (A - S) = f ` A - S'"
  using assms by blast

text \<open>
  C2, as amended. For a request body that is well formed (each key once at every level,
  no key with a dot) and on which the extraction of the metadata providers does not
  raise, the request yields its two result trees, and the flattened leaves of
  \<open>accepted\<close> and \<open>ignored\<close> together are exactly the flattened leaves of the body, each
  under its dotted path with its value, except a \<open>metadata.metadataProviders\<close> value
  that is false in Python's sense (null, false, 0, empty), which the handler drops; no
  dotted path is in both trees.
\<close>

theorem partition_law:
  assumes wf: "wf_tree d" and df: "dot_free_tree d" and ok: "metadata_ok d"
  shows "\<exists>app' accepted ignored.
           patch_main env app (JObj d) = ((app', accepted, ignored), None)
           \<and> set (iter_nested_items accepted []) \<union> set (iter_nested_items ignored [])
               = set (iter_nested_items d []) - {(''metadata.metadataProviders'', v) | v. \<not> py_bool v}
           \<and> fst ` set (iter_nested_items accepted []) \<inter> fst ` set (iter_nested_items ignored []) = {}"
proof -
  let ?MP = "[''metadata'', ''metadataProviders'']"
  from patch_main_leaves [OF wf df ok, of env app] obtain app' acc ign where
    run: "patch_main env app (JObj d) = ((app', acc, ign), None)"
    and un: "set (leaves acc) \<union> set (leaves ign) = set (leaves d) - {(?MP, v) | v. \<not> py_bool v}"
    and dis: "fst ` set (leaves acc) \<inter> fst ` set (leaves ign) = {}" by blast
  have good: "q \<noteq> [] \<and> list_all dot_free q" if "(q, w) \<in> set (leaves d)" for q w
    using that leaves_dot_free [OF df that] leaves_path_nonempty [OF that] by simp
  have sub: "set (leaves acc) \<subseteq> set (leaves d)" "set (leaves ign) \<subseteq> set (leaves d)"
    using un by auto
  have jmp: "join_dot ?MP = ''metadata.metadataProviders''" by simp
  have dmp: "?MP \<noteq> []" "list_all dot_free ?MP" by (simp_all add: dot_free_def)
  have path: "(join_dot q = ''metadata.metadataProviders'') = (q = ?MP)"
    if "(q, w) \<in> set (leaves d)" for q w
  proof
    assume "join_dot q = ''metadata.metadataProviders''"
    then have "join_dot q = join_dot ?MP" by (simp only: jmp)
    with good [OF that] dmp show "q = ?MP" by (intro join_dot_inj) simp_all
  next
    assume "q = ?MP"
    then show "join_dot q = ''metadata.metadataProviders''" by (simp only: jmp)
  qed
  have rel: "(dotted e \<in> {(''metadata.metadataProviders'', v) | v. \<not> py_bool v})
      = (e \<in> {(?MP, v) | v. \<not> py_bool v})" if "e \<in> set (leaves d)" for e
  proof -
    obtain q w where e: "e = (q, w)" by (cases e)
    from that e path [of q w] show ?thesis
      by (simp add: dotted_pair)
  qed
  have "dotted ` (set (leaves acc) \<union> set (leaves ign))
      = dotted ` set (leaves d) - {(''metadata.metadataProviders'', v) | v. \<not> py_bool v}"
    unfolding un using rel by (rule image_Diff_related)
  then have union: "set (iter_nested_items acc []) \<union> set (iter_nested_items ign [])
      = set (iter_nested_items d []) - {(''metadata.metadataProviders'', v) | v. \<not> py_bool v}"
    by (simp only: iter_nested_items_dotted image_Un set_map)
  have "fst ` set (iter_nested_items acc []) \<inter> fst ` set (iter_nested_items ign []) = {}"
  proof (rule ccontr)
    assume "fst ` set (iter_nested_items acc []) \<inter> fst ` set (iter_nested_items ign []) \<noteq> {}"
    then obtain q w q' w' where a: "(q, w) \<in> set (leaves acc)" and i: "(q', w') \<in> set (leaves ign)"
      and eq: "join_dot q = join_dot q'"
      by (auto simp: iter_nested_items_dotted dotted_def)
    from a i sub have "(q, w) \<in> set (leaves d)" "(q', w') \<in> set (leaves d)" by auto
    with eq have "q = q'" using good by (intro join_dot_inj) auto
    with a i dis show False by force
  qed
  with run union show ?thesis by blast
qed

section \<open>Facts about the patch table\<close>

text \<open>
  The table is a Python dict: \<^verbatim>\<open>patches.get(key)\<close> is \<open>map_of\<close>. The entries the
  theorems below need are looked up once, entry by entry.
\<close>

lemma map_of_hit: "map_of ((k, v) # ps) k = Some v"
  by simp

lemma map_of_miss: "k \<noteq> k' \<Longrightarrow> map_of ps k = r \<Longrightarrow> map_of ((k', v) # ps) k = r"
  by simp

lemma map_of_end: "map_of [] k = None"
  by simp

lemma patches_emby_enabled:
  "map_of (patches env) ''emby.enabled'' = Some (BooleanField ''USE_EMBY'')"
  unfolding patches_def by (rule map_of_hit | (rule map_of_miss, simp))+

lemma patches_torrents_enabled:
  "map_of (patches env) ''torrents.enabled'' = Some (BooleanField ''USE_TORRENTS'')"
  unfolding patches_def by (rule map_of_hit | (rule map_of_miss, simp))+

lemma patches_selectedRootIndex:
  "map_of (patches env) ''selectedRootIndex'' = Some (IntegerField ''SELECTED_ROOT'')"
  unfolding patches_def by (rule map_of_hit | (rule map_of_miss, simp))+

lemma patches_theme_name:
  "map_of (patches env) ''theme.name''
     = Some ((StringField ''THEME_NAME'')\<lparr>setter := Some (theme_name_setter env)\<rparr>)"
  unfolding patches_def by (rule map_of_hit | (rule map_of_miss, simp))+

lemma patches_showDefaults_quality:
  "map_of (patches env) ''showDefaults.quality''
     = Some ((IntegerField ''QUALITY_DEFAULT'')
               \<lparr>validator := Some (\<lambda>app v. is_valid_combined_quality env v)\<rparr>)"
  unfolding patches_def by (rule map_of_hit | (rule map_of_miss, simp))+

lemma patches_showDefaults_subtitles:
  "map_of (patches env) ''showDefaults.subtitles''
     = Some ((BooleanField ''SUBTITLES_DEFAULT'')
               \<lparr>validator := Some (\<lambda>app v. Some (py_bool (app ''USE_SUBTITLES''))),
                converter := Some bool_converter\<rparr>)"
  unfolding patches_def by (rule map_of_hit | (rule map_of_miss, simp))+

lemma patches_showDefaults_seasonFolders:
  "map_of (patches env) ''showDefaults.seasonFolders''
     = Some ((BooleanField ''SEASON_FOLDERS_DEFAULT'')
               \<lparr>validator := Some season_folders_validator, converter := Some bool_converter\<rparr>)"
  unfolding patches_def by (rule map_of_hit | (rule map_of_miss, simp))+

lemma patches_kodi_enabled:
  "map_of (patches env) ''notifiers.kodi.enabled'' = Some (BooleanField ''USE_KODI'')"
  unfolding patches_def by (rule map_of_hit | (rule map_of_miss, simp))+

lemma patches_kodi_alwaysOn:
  "map_of (patches env) ''notifiers.kodi.alwaysOn'' = Some (BooleanField ''USE_KODI'')"
  unfolding patches_def by (rule map_of_hit | (rule map_of_miss, simp))+

lemma patches_plex_host:
  "map_of (patches env) ''notifiers.plex.server.host'' = Some (ListField ''PLEX_SERVER_HOST'')"
  unfolding patches_def by (rule map_of_hit | (rule map_of_miss, simp))+

lemma patches_plex_username:
  "map_of (patches env) ''notifiers.plex.server.username'' = Some (StringField ''PLEX_SERVER_HOST'')"
  unfolding patches_def by (rule map_of_hit | (rule map_of_miss, simp))+

lemma patches_plex_password:
  "map_of (patches env) ''notifiers.plex.server.password'' = Some (StringField ''PLEX_SERVER_HOST'')"
  unfolding patches_def by (rule map_of_hit | (rule map_of_miss, simp))+

lemma patches_plex_token:
  "map_of (patches env) ''notifiers.plex.server.token'' = Some (StringField ''PLEX_SERVER_HOST'')"
  unfolding patches_def by (rule map_of_hit | (rule map_of_miss, simp))+

lemma patches_notifiers_emby_enabled:
  "map_of (patches env) ''notifiers.emby.enabled'' = Some (BooleanField ''USE_EMBY'')"
  unfolding patches_def by (rule map_of_hit | (rule map_of_miss, simp))+

lemma patches_bogus:
  "map_of (patches env) ''torrents.bogusField'' = None"
  unfolding patches_def by (rule map_of_end | (rule map_of_miss, simp))+

section \<open>Facts about the read side\<close>

lemma isl_build_dict: "isl (build_dict f es d) = list_ex (\<lambda>e. isl (snd e)) es"
  by (induction f es d rule: build_dict.induct) auto

lemma isl_ne_dict: "isl (ne_dict es) = list_ex (\<lambda>e. isl (snd e)) es"
  by (simp add: ne_dict_def isl_build_dict)

lemma isl_plain_dict: "isl (plain_dict es) = list_ex (\<lambda>e. isl (snd e)) es"
  by (simp add: plain_dict_def isl_build_dict)

lemma isl_py_bool_of: "\<not> isl (py_bool_of v)"
  by (simp add: py_bool_of_def)

lemma build_dict_is_obj: "build_dict f es d = Inr t \<Longrightarrow> is_obj t"
  by (induction f es d rule: build_dict.induct) auto

lemma map_of_ne_setitem:
  "map_of (ne_setitem d k v) k' =
     (if k' = k \<and> v \<noteq> JNull \<and> v \<noteq> JStr [] then Some v else map_of d k')"
  by (simp add: ne_setitem_def update_conv')

lemma build_dict_absent:
  "build_dict ne_setitem es d0 = Inr (JObj d) \<Longrightarrow> k \<notin> fst ` set es \<Longrightarrow> map_of d k = map_of d0 k"
proof (induction es arbitrary: d0)
  case Nil
  then show ?case by simp
next
  case (Cons a es)
  obtain k' x where a: "a = (k', x)" by (cases a)
  from Cons.prems(1) a obtain v where x: "x = Inr v"
    and rest: "build_dict ne_setitem es (ne_setitem d0 k' v) = Inr (JObj d)"
    by (cases x) simp_all
  from Cons.prems(2) a have ne: "k \<noteq> k'" and nk: "k \<notin> fst ` set es" by auto
  from Cons.IH [OF rest nk] ne show ?case by (simp add: map_of_ne_setitem)
qed

lemma build_dict_lookup:
  "build_dict ne_setitem es d0 = Inr (JObj d) \<Longrightarrow> distinct (map fst es) \<Longrightarrow>
   map_of es k = Some x \<Longrightarrow>
   \<exists>v. x = Inr v \<and> map_of d k = (if v = JNull \<or> v = JStr [] then map_of d0 k else Some v)"
proof (induction es arbitrary: d0)
  case Nil
  then show ?case by simp
next
  case (Cons a es)
  obtain k' x' where a: "a = (k', x')" by (cases a)
  from Cons.prems(1) a obtain v' where x': "x' = Inr v'"
    and rest: "build_dict ne_setitem es (ne_setitem d0 k' v') = Inr (JObj d)"
    by (cases x') simp_all
  show ?case
  proof (cases "k' = k")
    case True
    with Cons.prems(2,3) a x' have x: "x = Inr v'" and nk: "k \<notin> fst ` set es" by auto
    from build_dict_absent [OF rest nk] True x show ?thesis
      by (simp add: map_of_ne_setitem)
  next
    case False
    with Cons.prems(2,3) a have "map_of es k = Some x" "distinct (map fst es)" by auto
    from Cons.IH [OF rest this(2,1)] obtain v where
      "x = Inr v" "map_of d k = (if v = JNull \<or> v = JStr [] then map_of (ne_setitem d0 k' v') k else Some v)"
      by blast
    with False show ?thesis by (simp add: map_of_ne_setitem)
  qed
qed

lemma read_path_ne_dict:
  assumes "\<not> isl (ne_dict es)" "distinct (map fst es)"
  shows "read_path (ne_dict es) (k # ks) = (case map_of es k of None \<Rightarrow> None | Some x \<Rightarrow> kept_in x ks)"
proof -
  from assms(1) obtain t where t: "ne_dict es = Inr t" by (cases "ne_dict es") auto
  then have "is_obj t" by (auto simp: ne_dict_def dest: build_dict_is_obj)
  then obtain d where d: "t = JObj d" by (cases t) auto
  from t d have b: "build_dict ne_setitem es [] = Inr (JObj d)" by (simp add: ne_dict_def)
  show ?thesis
  proof (cases "map_of es k")
    case None
    then have "k \<notin> fst ` set es" by (simp add: map_of_eq_None_iff)
    from build_dict_absent [OF b this] None t d show ?thesis by (simp add: read_path_def)
  next
    case (Some x)
    from build_dict_lookup [OF b assms(2) Some] Some t d show ?thesis
      by (auto simp: read_path_def kept_in_def)
  qed
qed

lemma kept_in_ne_dict: "kept_in (ne_dict es) ks = read_path (ne_dict es) ks"
proof (cases "ne_dict es")
  case (Inl e)
  then show ?thesis by (simp add: kept_in_def read_path_def)
next
  case (Inr t)
  then have "is_obj t" by (auto simp: ne_dict_def dest: build_dict_is_obj)
  with Inr show ?thesis by (cases t) (auto simp: kept_in_def read_path_def)
qed

lemma kept_in_py_bool_of: "kept_in (py_bool_of v) [] = Some (JBool (py_bool v))"
  by (simp add: kept_in_def py_bool_of_def)

lemma kept_in_Inr: "kept_in (Inr v) [] = (if v = JNull \<or> v = JStr [] then None else Some v)"
  by (simp add: kept_in_def)

lemmas read_rules = read_path_ne_dict kept_in_ne_dict kept_in_py_bool_of kept_in_Inr
  isl_ne_dict isl_py_bool_of

lemma read_path_Inr: "x = Inr t \<Longrightarrow> lookup_path t ks = read_path x ks"
  by (simp add: read_path_def)

section \<open>Routing\<close>

text \<open>
  C8. A PATCH without a section identifier is answered 400, and a PATCH whose identifier
  is not \<open>main\<close> is answered 404. In both cases the store is returned as it was and
  no event is recorded (nothing is logged, saved or pushed); the outcome is the same
  for every decoder and every request body, so the body is never decoded.
\<close>

theorem patch_routing_errors_precede_mutation:
  "(\<not> given identifier \<longrightarrow>
      http_patch env app identifier request_body
        = (app, [], Inr (bad_request ''Config identifier not specified''))
      \<and> status (bad_request ''Config identifier not specified'') = 400)
   \<and> (given identifier \<and> identifier \<noteq> Some ''main'' \<longrightarrow>
      http_patch env app identifier request_body
        = (app, [], Inr (not_found ''Config not found''))
      \<and> status (not_found ''Config not found'') = 404)"
  by (simp add: http_patch_def bad_request_def not_found_def)

theorem patch_routing_errors_witness:
  "http_patch (example_env JNull) example_app None ''{}''
     = (example_app, [], Inr (Response 400 (JStr ''Config identifier not specified'')))
   \<and> http_patch (example_env JNull) example_app (Some ''search'') ''{}''
     = (example_app, [], Inr (Response 404 (JStr ''Config not found'')))"
  using patch_routing_errors_precede_mutation
          [of None "example_env JNull" example_app "''{}''"]
        patch_routing_errors_precede_mutation
          [of "Some ''search''" "example_env JNull" example_app "''{}''"]
  by (simp add: given_def bad_request_def not_found_def)

section \<open>Evaluating the handler\<close>


lemmas field_defs = PatchField_def StringField_def BooleanField_def IntegerField_def
  ListField_def EnumField_def

lemmas patch_defs = patch_def validate_def stored_value_def apply_setter_def post_process_def
  default_conversion_def

lemma get_data_notifiers: "get_data env app ''notifiers'' = data_notifiers env app"
  by (simp add: get_data_def members_def)

lemma get_data_main: "get_data env app ''main'' = data_main env app"
  by (simp add: get_data_def members_def)


lemma update_fresh: "k \<notin> fst ` set d \<Longrightarrow> AList.update k v d = d @ [(k, v)]"
  by (induction d) auto

lemma set_path_lookup:
  "set_path d ks v = Inr d' \<Longrightarrow> ks \<noteq> [] \<Longrightarrow> lookup_path (JObj d') ks = Some v"
proof (induction d ks v arbitrary: d' rule: set_path.induct)
  case (1 d v)
  then show ?case by simp
next
  case (2 d k v)
  then show ?case by (auto simp: update_conv')
next
  case (3 d k k' ks v)
  show ?case
  proof (cases "map_of d k")
    case None
    with "3.prems" obtain sub' where s: "set_path [] (k' # ks) v = Inr sub'"
      and d': "d' = AList.update k (JObj sub') d"
      by (auto split: sum.splits)
    from "3.IH"(1) [OF None s] d' show ?thesis by (simp add: update_conv')
  next
    case (Some x)
    with "3.prems" obtain sub sub' where x: "x = JObj sub"
      and s: "set_path sub (k' # ks) v = Inr sub'"
      and d': "d' = AList.update k (JObj sub') d"
      by (auto split: sum.splits json.splits)
    from "3.IH"(2) [OF Some x s] d' show ?thesis by (simp add: update_conv')
  qed
qed

lemma set_nested_value_lookup:
  "set_nested_value d key v = Inr d' \<Longrightarrow> lookup_path (JObj d') (split_dot key) = Some v"
  by (auto simp: set_nested_value_def split_dot_nonempty intro: set_path_lookup)

lemma set_nested_value_empty: "\<exists>t. set_nested_value [] key v = Inr t"
  using set_path_ok [of "[]" "split_dot key" v]
  by (simp add: set_nested_value_def split_dot_nonempty)

section \<open>Round trip\<close>

text \<open>
  C1. The round trip fails for \<open>notifiers.kodi.alwaysOn\<close>. The table binds the path to
  \<^verbatim>\<open>USE_KODI\<close>, the read side fills \<^verbatim>\<open>kodi.alwaysOn\<close> from \<^verbatim>\<open>KODI_ALWAYS_ON\<close>. In
  a store where both attributes are true, the body
  \<^verbatim>\<open>{"notifiers": {"kodi": {"alwaysOn": false}}}\<close> is accepted as it is and sets
  \<^verbatim>\<open>USE_KODI\<close> to false; the notifiers snapshot read afterwards still holds true at
  \<open>kodi.alwaysOn\<close>, and false at \<open>kodi.enabled\<close>, which was not written.
\<close>

theorem kodi_alwaysOn_is_not_read_back:
  "patch_main (example_env JNull)
      (example_app(''KODI_ALWAYS_ON'' := JBool True, ''USE_KODI'' := JBool True))
      (JObj [(''notifiers'', JObj [(''kodi'', JObj [(''alwaysOn'', JBool False)])])])
     = ((example_app(''KODI_ALWAYS_ON'' := JBool True, ''USE_KODI'' := JBool False),
         [(''notifiers'', JObj [(''kodi'', JObj [(''alwaysOn'', JBool False)])])], []),
        None)
   \<and> read_path
        (get_data (example_env JNull)
           (example_app(''KODI_ALWAYS_ON'' := JBool True, ''USE_KODI'' := JBool False))
           ''notifiers'')
        [''kodi'', ''alwaysOn'']
     = Some (JBool True)
   \<and> read_path
        (get_data (example_env JNull)
           (example_app(''KODI_ALWAYS_ON'' := JBool True, ''USE_KODI'' := JBool False))
           ''notifiers'')
        [''kodi'', ''enabled'']
     = Some (JBool False)"
proof -
  let ?app' = "example_app(''KODI_ALWAYS_ON'' := JBool True, ''USE_KODI'' := JBool False)"
  have run: "patch_main (example_env JNull)
      (example_app(''KODI_ALWAYS_ON'' := JBool True, ''USE_KODI'' := JBool True))
      (JObj [(''notifiers'', JObj [(''kodi'', JObj [(''alwaysOn'', JBool False)])])])
     = ((?app', [(''notifiers'', JObj [(''kodi'', JObj [(''alwaysOn'', JBool False)])])], []), None)"
    by (simp add: patch_main_def extract_metadata_def patches_kodi_alwaysOn field_defs patch_defs
        set_nested_value_def)
  have ok: "\<not> isl (data_notifiers (example_env JNull) ?app')"
    unfolding data_notifiers_def
    by (simp add: isl_ne_dict isl_py_bool_of example_env_def example_app_def)
  have r1: "read_path (data_notifiers (example_env JNull) ?app') [''kodi'', ''alwaysOn'']
      = Some (JBool True)"
    using ok unfolding data_notifiers_def by (simp add: read_rules)
  have r2: "read_path (data_notifiers (example_env JNull) ?app') [''kodi'', ''enabled'']
      = Some (JBool False)"
    using ok unfolding data_notifiers_def by (simp add: read_rules)
  from run r1 r2 show ?thesis by (simp only: get_data_notifiers simp_thms)
qed

section \<open>The metadata providers\<close>

text \<open>
  C3. A body whose \<open>metadata\<close> sub-tree has no \<open>metadataProviders\<close> key is not
  processed: \<^verbatim>\<open>data['metadata'].pop('metadataProviders')\<close> raises \<^verbatim>\<open>KeyError\<close>, the
  request ends with that error, and the sibling leaf \<open>torrents.enabled\<close> is never
  dispatched (the store is unchanged, nothing is saved or pushed).
\<close>

theorem metadata_without_providers_raises:
  "http_patch
     (example_env
        (JObj [(''metadata'', JObj [(''x'', JInt 1)]),
               (''torrents'', JObj [(''enabled'', JBool True)])]))
     example_app (Some ''main'') []
   = (example_app, [], Inl KeyError)"
  by (simp add: http_patch_def given_def example_env_def patch_main_def extract_metadata_def)

section \<open>Field contract\<close>

text \<open>
  C4. A field's validator that returns false for a candidate rejects the write: the
  patch returns the store as it was (no attribute is assigned, no setter or
  post-processor runs). When the field is the table's entry for a flattened leaf, the
  loop adds the leaf to \<open>ignored\<close> under its dotted path, leaves \<open>accepted\<close> and the store
  alone, and goes on with the remaining leaves; a request that consists of this one leaf
  ends with the store it started with, an empty \<open>accepted\<close> tree and the leaf in
  \<open>ignored\<close>.
\<close>

theorem validator_gate:
  assumes "validator f = Some vd" and "vd app v = Some False"
  shows "patch env f app v = (app, False)
    \<and> (map_of (patches env) key = Some f \<longrightarrow>
         (\<forall>ignored'. set_nested_value ignored key v = Inr ignored' \<longrightarrow>
            dispatch env ((key, v) # rest) app accepted ignored
              = dispatch env rest app accepted ignored'
            \<and> lookup_path (JObj ignored') (split_dot key) = Some v)
         \<and> (\<forall>data d'. extract_metadata env app data = Inr (d', app, [], []) \<longrightarrow>
               iter_nested_items d' [] = [(key, v)] \<longrightarrow>
               (\<exists>ignored'. patch_main env app data = ((app, [], ignored'), None)
                  \<and> lookup_path (JObj ignored') (split_dot key) = Some v)))"
proof -
  from assms have p: "patch env f app v = (app, False)"
    by (simp add: patch_def validate_def)
  have step: "dispatch env ((key, v) # rest) app accepted ignored
              = dispatch env rest app accepted ignored'
            \<and> lookup_path (JObj ignored') (split_dot key) = Some v"
    if "map_of (patches env) key = Some f" "set_nested_value ignored key v = Inr ignored'"
    for ignored ignored' accepted rest
    using that p by (simp add: set_nested_value_lookup)
  have single: "\<exists>ignored'. patch_main env app data = ((app, [], ignored'), None)
                  \<and> lookup_path (JObj ignored') (split_dot key) = Some v"
    if "map_of (patches env) key = Some f" "extract_metadata env app data = Inr (d', app, [], [])"
      "iter_nested_items d' [] = [(key, v)]" for data d'
  proof -
    from set_nested_value_empty obtain t where t: "set_nested_value [] key v = Inr t" by blast
    from step [OF that(1) t, of "[]" "[]"] that(2,3) show ?thesis
      by (simp add: patch_main_def)
  qed
  from p step single show ?thesis by blast
qed

theorem validator_gate_witness:
  "validator ((BooleanField ''SUBTITLES_DEFAULT'')
       \<lparr>validator := Some (\<lambda>app v. Some (py_bool (app ''USE_SUBTITLES''))),
        converter := Some bool_converter\<rparr>)
     = Some (\<lambda>app v. Some (py_bool (app ''USE_SUBTITLES'')))
   \<and> (\<lambda>app v. Some (py_bool (app ''USE_SUBTITLES''))) example_app (JBool True) = Some False
   \<and> map_of (patches (example_env JNull)) ''showDefaults.subtitles''
       = Some ((BooleanField ''SUBTITLES_DEFAULT'')
           \<lparr>validator := Some (\<lambda>app v. Some (py_bool (app ''USE_SUBTITLES''))),
            converter := Some bool_converter\<rparr>)
   \<and> patch_main (example_env JNull) example_app
        (JObj [(''showDefaults'', JObj [(''subtitles'', JBool True)])])
       = ((example_app, [], [(''showDefaults'', JObj [(''subtitles'', JBool True)])]), None)"
proof -
  let ?vd = "\<lambda>(app :: store) (v :: json). Some (py_bool (app ''USE_SUBTITLES''))"
  let ?f = "(BooleanField ''SUBTITLES_DEFAULT'')
       \<lparr>validator := Some ?vd, converter := Some bool_converter\<rparr>"
  have v: "validator ?f = Some ?vd" by simp
  have r: "?vd example_app (JBool True) = Some False" by (simp add: example_app_def)
  have t: "map_of (patches (example_env JNull)) ''showDefaults.subtitles'' = Some ?f"
    by (rule patches_showDefaults_subtitles)
  have s: "set_nested_value [] ''showDefaults.subtitles'' (JBool True)
      = Inr [(''showDefaults'', JObj [(''subtitles'', JBool True)])]"
    by (simp add: set_nested_value_def)
  have e: "extract_metadata (example_env JNull) example_app
             (JObj [(''showDefaults'', JObj [(''subtitles'', JBool True)])])
      = Inr ([(''showDefaults'', JObj [(''subtitles'', JBool True)])], example_app, [], [])"
    by (simp add: extract_metadata_def)
  note g = validator_gate [where f = ?f and vd = ?vd and app = example_app and v = "JBool True"
      and env = "example_env JNull" and key = "''showDefaults.subtitles''"
      and ignored = "[]" and accepted = "[]" and rest = "[]"]
  from g v r t s e
  have "patch_main (example_env JNull) example_app
        (JObj [(''showDefaults'', JObj [(''subtitles'', JBool True)])])
       = ((example_app, [], [(''showDefaults'', JObj [(''subtitles'', JBool True)])]), None)"
    by (simp add: patch_main_def)
  with v r t show ?thesis by (simp only: simp_thms)
qed

section \<open>The partition law on examples\<close>

text \<open>
  The spec's partial patch: \<^verbatim>\<open>{"torrents": {"enabled": true, "bogusField": 5}}\<close> is split
  into the accepted \<open>torrents.enabled\<close> and the ignored \<open>torrents.bogusField\<close>.
\<close>

theorem partition_law_witness:
  "wf_tree [(''torrents'', JObj [(''enabled'', JBool True), (''bogusField'', JInt 5)])]
   \<and> dot_free_tree [(''torrents'', JObj [(''enabled'', JBool True), (''bogusField'', JInt 5)])]
   \<and> metadata_ok [(''torrents'', JObj [(''enabled'', JBool True), (''bogusField'', JInt 5)])]
   \<and> patch_main (example_env JNull) example_app
        (JObj [(''torrents'', JObj [(''enabled'', JBool True), (''bogusField'', JInt 5)])])
       = ((example_app(''USE_TORRENTS'' := JBool True),
           [(''torrents'', JObj [(''enabled'', JBool True)])],
           [(''torrents'', JObj [(''bogusField'', JInt 5)])]), None)
   \<and> set (iter_nested_items [(''torrents'', JObj [(''enabled'', JBool True)])] [])
       \<union> set (iter_nested_items [(''torrents'', JObj [(''bogusField'', JInt 5)])] [])
       = set (iter_nested_items
               [(''torrents'', JObj [(''enabled'', JBool True), (''bogusField'', JInt 5)])] [])
         - {(''metadata.metadataProviders'', v) | v. \<not> py_bool v}
   \<and> fst ` set (iter_nested_items [(''torrents'', JObj [(''enabled'', JBool True)])] [])
       \<inter> fst ` set (iter_nested_items [(''torrents'', JObj [(''bogusField'', JInt 5)])] [])
       = {}"
proof -
  let ?B = "[(''torrents'', JObj [(''enabled'', JBool True), (''bogusField'', JInt 5)])]"
  have wf: "wf_tree ?B" by (simp add: wf_val_def)
  have df: "dot_free_tree ?B" by (simp add: dot_free_def)
  have ok: "metadata_ok ?B" by (simp add: metadata_ok_def)
  have run: "patch_main (example_env JNull) example_app (JObj ?B)
       = ((example_app(''USE_TORRENTS'' := JBool True),
           [(''torrents'', JObj [(''enabled'', JBool True)])],
           [(''torrents'', JObj [(''bogusField'', JInt 5)])]), None)"
    by (simp add: patch_main_def extract_metadata_def patches_torrents_enabled patches_bogus
        field_defs patch_defs set_nested_value_def)
  from partition_law [OF wf df ok, of "example_env JNull" example_app] run
  have "set (iter_nested_items [(''torrents'', JObj [(''enabled'', JBool True)])] [])
       \<union> set (iter_nested_items [(''torrents'', JObj [(''bogusField'', JInt 5)])] [])
       = set (iter_nested_items ?B []) - {(''metadata.metadataProviders'', v) | v. \<not> py_bool v}
   \<and> fst ` set (iter_nested_items [(''torrents'', JObj [(''enabled'', JBool True)])] [])
       \<inter> fst ` set (iter_nested_items [(''torrents'', JObj [(''bogusField'', JInt 5)])] [])
       = {}"
    by (elim exE conjE) (simp only: prod.inject simp_thms)
  with wf df ok run show ?thesis by (simp only: simp_thms)
qed

text \<open>
  The claim as first stated fails on \<^verbatim>\<open>{"metadata": {"metadataProviders": false}}\<close>: the
  flattened body has the leaf \<open>metadata.metadataProviders\<close>, the value is popped and
  skipped by \<^verbatim>\<open>if metadata_providers:\<close>, and both result trees stay empty.
\<close>

theorem partition_law_counterexample:
  "patch_main (example_env JNull) example_app
      (JObj [(''metadata'', JObj [(''metadataProviders'', JBool False)])])
     = ((example_app, [], []), None)
   \<and> set (iter_nested_items [(''metadata'', JObj [(''metadataProviders'', JBool False)])] [])
       = {(''metadata.metadataProviders'', JBool False)}
   \<and> set (iter_nested_items [] []) \<union> set (iter_nested_items [] [])
       \<noteq> set (iter_nested_items [(''metadata'', JObj [(''metadataProviders'', JBool False)])] [])"
  by (simp add: patch_main_def extract_metadata_def)

section \<open>Exceptions, response and persistence\<close>

text \<open>
  C5. When the validator, the converter or the setter of the field of one leaf raises,
  the patch of that leaf returns the store as it was and reports a rejection; the loop
  puts the leaf into \<open>ignored\<close> under its dotted path and goes on with the remaining
  leaves of the request, in the same store and with the same \<open>accepted\<close> tree.
\<close>

theorem field_exception_is_rejection:
  assumes "raises env f app v"
  shows "patch env f app v = (app, False)
    \<and> (map_of (patches env) key = Some f \<longrightarrow>
         (\<forall>ignored'. set_nested_value ignored key v = Inr ignored' \<longrightarrow>
            dispatch env ((key, v) # rest) app accepted ignored
              = dispatch env rest app accepted ignored'
            \<and> lookup_path (JObj ignored') (split_dot key) = Some v))"
proof -
  from assms have p: "patch env f app v = (app, False)"
    by (auto simp: raises_def patch_def split: option.splits)
  then show ?thesis by (simp add: set_nested_value_lookup)
qed

theorem field_exception_is_rejection_witness:
  "raises ((example_env JNull)\<lparr>change_theme := \<lambda>app v. None\<rparr>)
     ((StringField ''THEME_NAME'')
        \<lparr>setter := Some (theme_name_setter ((example_env JNull)\<lparr>change_theme := \<lambda>app v. None\<rparr>))\<rparr>)
     example_app (JStr ''dark'')
   \<and> patch_main ((example_env JNull)\<lparr>change_theme := \<lambda>app v. None\<rparr>) example_app
        (JObj [(''theme'', JObj [(''name'', JStr ''dark'')]),
               (''torrents'', JObj [(''enabled'', JBool True)])])
       = ((example_app(''USE_TORRENTS'' := JBool True),
           [(''torrents'', JObj [(''enabled'', JBool True)])],
           [(''theme'', JObj [(''name'', JStr ''dark'')])]), None)"
proof -
  let ?env = "(example_env JNull)\<lparr>change_theme := \<lambda>app v. None\<rparr>"
  let ?f = "(StringField ''THEME_NAME'')\<lparr>setter := Some (theme_name_setter ?env)\<rparr>"
  have r: "raises ?env ?f example_app (JStr ''dark'')"
    by (simp add: raises_def validate_def stored_value_def apply_setter_def default_conversion_def
        field_defs theme_name_setter_def)
  have t: "map_of (patches ?env) ''theme.name'' = Some ?f"
    by (rule patches_theme_name)
  have s: "set_nested_value [] ''theme.name'' (JStr ''dark'')
      = Inr [(''theme'', JObj [(''name'', JStr ''dark'')])]"
    by (simp add: set_nested_value_def)
  note g = field_exception_is_rejection [where env = ?env and f = ?f and app = example_app
      and v = "JStr ''dark''" and key = "''theme.name''" and ignored = "[]" and accepted = "[]"
      and rest = "[(''torrents.enabled'', JBool True)]"]
  from g r t s
  have "dispatch ?env [(''theme.name'', JStr ''dark''), (''torrents.enabled'', JBool True)]
          example_app [] []
       = dispatch ?env [(''torrents.enabled'', JBool True)] example_app []
           [(''theme'', JObj [(''name'', JStr ''dark'')])]"
    by simp
  then have "patch_main ?env example_app
        (JObj [(''theme'', JObj [(''name'', JStr ''dark'')]),
               (''torrents'', JObj [(''enabled'', JBool True)])])
       = ((example_app(''USE_TORRENTS'' := JBool True),
           [(''torrents'', JObj [(''enabled'', JBool True)])],
           [(''theme'', JObj [(''name'', JStr ''dark'')])]), None)"
    by (simp add: patch_main_def extract_metadata_def patches_torrents_enabled
        field_defs patch_defs set_nested_value_def del: dispatch.simps(2))
      (simp add: patches_torrents_enabled field_defs patch_defs set_nested_value_def)
  with r show ?thesis by (simp only: simp_thms)
qed

text \<open>
  C6. A PATCH of \<open>main\<close> that returns a response returns 200 with exactly the tree of
  accepted writes as its body; the ignored writes are in the log, once and as a warning,
  when there are any, and nowhere when there are none. Whether the request succeeds
  does not depend on the ignored tree: with the body decoded, the loop completed, the
  save done and the section read, the request answers 200 whatever was ignored.
\<close>

theorem accepted_only_response:
  "(http_patch env app (Some ''main'') request_body = (app', evs, Inr resp) \<longrightarrow>
      (\<exists>data accepted ignored.
         json_decode env request_body = Some data
         \<and> patch_main env app data = ((app', accepted, ignored), None)
         \<and> resp = ok_response (JObj accepted) \<and> status resp = 200 \<and> body resp = JObj accepted
         \<and> filter is_warning evs = (if ignored = [] then [] else [LogWarning (JObj ignored)])))
   \<and> (json_decode env request_body = Some data
       \<and> patch_main env app data = ((app1, accepted, ignored), None)
       \<and> save_config env app1 \<and> get_data env app1 ''main'' = Inr config \<longrightarrow>
      http_patch env app (Some ''main'') request_body
        = (app1,
           (if ignored = [] then [] else [LogWarning (JObj ignored)])
             @ [SaveConfig,
                Push ''configUpdated'' (JObj [(''section'', JStr ''main''), (''config'', config)])],
           Inr (ok_response (JObj accepted))))"
  by (auto simp: http_patch_def given_def ok_response_def Let_def
      split: option.splits prod.splits sum.splits if_splits) blast+


lemma example_main_ok:
  "\<not> isl (data_main (example_env d) (example_app(''USE_TORRENTS'' := JBool True)))"
  unfolding data_main_def
  by (simp add: isl_ne_dict isl_plain_dict isl_py_bool_of example_env_def example_app_def
      py_or_def locale_text_def lowered_keys_def)

theorem accepted_only_response_witness:
  "snd (snd (http_patch
       (example_env (JObj [(''torrents'', JObj [(''enabled'', JBool True)]),
                           (''selectedRootIndex'', JStr ''abc'')]))
       example_app (Some ''main'') []))
     = Inr (Response 200 (JObj [(''torrents'', JObj [(''enabled'', JBool True)])]))
   \<and> filter is_warning (fst (snd (http_patch
       (example_env (JObj [(''torrents'', JObj [(''enabled'', JBool True)]),
                           (''selectedRootIndex'', JStr ''abc'')]))
       example_app (Some ''main'') [])))
     = [LogWarning (JObj [(''selectedRootIndex'', JStr ''abc'')])]"
proof -
  let ?data = "JObj [(''torrents'', JObj [(''enabled'', JBool True)]),
                     (''selectedRootIndex'', JStr ''abc'')]"
  let ?env = "example_env ?data"
  let ?app1 = "example_app(''USE_TORRENTS'' := JBool True)"
  have dec: "json_decode ?env [] = Some ?data" by (simp add: example_env_def)
  have int: "int_of_text ?env = (\<lambda>s. None)" by (simp add: example_env_def)
  have run: "patch_main ?env example_app ?data
      = ((?app1, [(''torrents'', JObj [(''enabled'', JBool True)])],
          [(''selectedRootIndex'', JStr ''abc'')]), None)"
    by (simp add: patch_main_def extract_metadata_def patches_torrents_enabled
        patches_selectedRootIndex field_defs patch_defs set_nested_value_def int)
  have save: "save_config ?env ?app1" by (simp add: example_env_def)
  from example_main_ok [of ?data] obtain config where cfg: "get_data ?env ?app1 ''main'' = Inr config"
    by (cases "data_main ?env ?app1") (auto simp: get_data_main)
  note g = accepted_only_response [where env = ?env and app = example_app
      and request_body = "[]" and data = ?data and ?app1.0 = ?app1
      and accepted = "[(''torrents'', JObj [(''enabled'', JBool True)])]"
      and ignored = "[(''selectedRootIndex'', JStr ''abc'')]" and config = config, THEN conjunct2]
  from g dec run save cfg show ?thesis by (simp add: ok_response_def)
qed

text \<open>
  C7, as amended. A request for \<open>main\<close> whose body cannot be decoded ends with the
  decoder's error before anything is processed: the store is as it was and the save is
  not invoked. When the body decodes and the extraction and the loop over the leaves run
  to their end, as they do for every well-formed body, the request invokes the save
  exactly once. The save is applied to the store the loop returned, with every accepted
  mutation in it, and that same store is the one the request leaves behind, whether the
  save succeeds or not: a failed save ends the request with the error
  \<open>PersistenceFailure\<close>, nothing is pushed, and nothing is undone. No request invokes the
  save more than once.
\<close>

theorem save_once_after_all_leaves:
  "(json_decode env request_body = None \<longrightarrow>
      http_patch env app (Some ''main'') request_body = (app, [], Inl ValueError))
   \<and> (\<forall>data app' accepted ignored.
        json_decode env request_body = Some data \<longrightarrow>
        patch_main env app data = ((app', accepted, ignored), None) \<longrightarrow>
        (\<exists>evs res.
           http_patch env app (Some ''main'') request_body = (app', evs, res)
           \<and> count_list evs SaveConfig = 1
           \<and> (save_config env app' \<longrightarrow>
                res = (case get_data env app' ''main'' of
                         Inl e \<Rightarrow> Inl e
                       | Inr config \<Rightarrow> Inr (ok_response (JObj accepted))))
           \<and> (\<not> save_config env app' \<longrightarrow>
                res = Inl PersistenceFailure \<and> (\<forall>name msg. Push name msg \<notin> set evs))))
   \<and> (\<forall>d. wf_tree d \<longrightarrow> dot_free_tree d \<longrightarrow> metadata_ok d \<longrightarrow>
        (\<exists>app' accepted ignored.
           patch_main env app (JObj d) = ((app', accepted, ignored), None)))
   \<and> count_list (fst (snd (http_patch env app (Some ''main'') request_body))) SaveConfig \<le> 1"
proof -
  have a: "http_patch env app (Some ''main'') request_body = (app, [], Inl ValueError)"
    if "json_decode env request_body = None"
    using that by (simp add: http_patch_def given_def)
  have b: "\<exists>evs res.
           http_patch env app (Some ''main'') request_body = (app', evs, res)
           \<and> count_list evs SaveConfig = 1
           \<and> (save_config env app' \<longrightarrow>
                res = (case get_data env app' ''main'' of
                         Inl e \<Rightarrow> Inl e
                       | Inr config \<Rightarrow> Inr (ok_response (JObj accepted))))
           \<and> (\<not> save_config env app' \<longrightarrow>
                res = Inl PersistenceFailure \<and> (\<forall>name msg. Push name msg \<notin> set evs))"
    if "json_decode env request_body = Some data"
      "patch_main env app data = ((app', accepted, ignored), None)"
    for data app' accepted ignored
    using that by (auto simp: http_patch_def given_def Let_def split: sum.splits)
  have c: "\<exists>app' accepted ignored.
           patch_main env app (JObj d) = ((app', accepted, ignored), None)"
    if "wf_tree d" "dot_free_tree d" "metadata_ok d" for d
    using patch_main_leaves [OF that, of env app] by blast
  have d: "count_list (fst (snd (http_patch env app (Some ''main'') request_body))) SaveConfig \<le> 1"
    by (auto simp: http_patch_def given_def Let_def split: sum.splits option.splits prod.splits)
  from a b c d show ?thesis by blast
qed

theorem save_once_after_all_leaves_witness:
  "http_patch
     ((example_env (JObj [(''torrents'', JObj [(''enabled'', JBool True)])]))
        \<lparr>save_config := \<lambda>app. False\<rparr>)
     example_app (Some ''main'') []
   = (example_app(''USE_TORRENTS'' := JBool True), [SaveConfig], Inl PersistenceFailure)
   \<and> count_list [SaveConfig] SaveConfig = (1::nat)"
proof -
  let ?data = "JObj [(''torrents'', JObj [(''enabled'', JBool True)])]"
  let ?env = "(example_env ?data)\<lparr>save_config := \<lambda>app. False\<rparr>"
  let ?app1 = "example_app(''USE_TORRENTS'' := JBool True)"
  have dec: "json_decode ?env [] = Some ?data" by (simp add: example_env_def)
  have run: "patch_main ?env example_app ?data
      = ((?app1, [(''torrents'', JObj [(''enabled'', JBool True)])], []), None)"
    by (simp add: patch_main_def extract_metadata_def patches_torrents_enabled
        field_defs patch_defs set_nested_value_def)
  from save_once_after_all_leaves [of ?env "[]" example_app] dec run obtain evs res where
    h: "http_patch ?env example_app (Some ''main'') [] = (?app1, evs, res)"
    and r: "\<not> save_config ?env ?app1 \<longrightarrow> res = Inl PersistenceFailure" by blast
  have e: "fst (snd (http_patch ?env example_app (Some ''main'') [])) = [SaveConfig]"
    using dec run by (simp add: http_patch_def given_def)
  from h r e show ?thesis by simp
qed

text \<open>
  The claim as first stated fails for a body that is not JSON: the decoder raises, the
  request ends with that error, and the save is not invoked at all.
\<close>

theorem save_once_counterexample:
  "http_patch
     ((example_env JNull)
        \<lparr>json_decode := \<lambda>s. if s = ''{}'' then Some (JObj []) else None\<rparr>)
     example_app (Some ''main'') ''{''
   = (example_app, [], Inl ValueError)
   \<and> count_list
       (fst (snd (http_patch
          ((example_env JNull)
             \<lparr>json_decode := \<lambda>s. if s = ''{}'' then Some (JObj []) else None\<rparr>)
          example_app (Some ''main'') ''{'')))
       SaveConfig = 0"
  by (simp add: http_patch_def given_def example_env_def)

section \<open>GET\<close>


lemma ne_dict_is_obj: "ne_dict es = Inr t \<Longrightarrow> is_obj t"
  by (auto simp: ne_dict_def dest: build_dict_is_obj)

lemma sections_eval:
  "sections = [''main'', ''metadata'', ''notifiers'', ''qualities'', ''search'', ''statuses'']"
  by (simp add: sections_def members_def)

lemma get_data_is_obj:
  assumes "get_data env app sec = Inr t"
  shows "is_obj t"
proof -
  from assms consider "data_main env app = Inr t" | "data_metadata env app = Inr t"
    | "data_notifiers env app = Inr t" | "data_qualities env app = Inr t"
    | "data_search env app = Inr t" | "data_statuses env app = Inr t"
    by (auto simp: get_data_def members_def split: if_splits)
  then show ?thesis
  proof cases
    case 1 then show ?thesis unfolding data_main_def by (rule ne_dict_is_obj)
  next
    case 2 then show ?thesis unfolding data_metadata_def by (rule ne_dict_is_obj)
  next
    case 3 then show ?thesis unfolding data_notifiers_def by (rule ne_dict_is_obj)
  next
    case 4 then show ?thesis unfolding data_qualities_def by (rule ne_dict_is_obj)
  next
    case 5 then show ?thesis unfolding data_search_def by (rule ne_dict_is_obj)
  next
    case 6 then show ?thesis unfolding data_statuses_def by (rule ne_dict_is_obj)
  qed
qed

lemma ne_setitem_obj: "is_obj v \<Longrightarrow> k \<notin> fst ` set d \<Longrightarrow> ne_setitem d k v = d @ [(k, v)]"
  by (cases v) (auto simp: ne_setitem_def update_fresh)

lemma full_snapshot_all:
  "distinct secs \<Longrightarrow> list_all (\<lambda>sec. \<not> isl (get_data env app sec)) secs \<Longrightarrow>
   set secs \<inter> fst ` set d = {} \<Longrightarrow>
   full_snapshot env app secs d
     = Inr (JObj (d @ map (\<lambda>sec. (sec, projr (get_data env app sec))) secs))"
proof (induction secs arbitrary: d)
  case Nil
  then show ?case by simp
next
  case (Cons sec secs)
  from Cons.prems(2) obtain v where v: "get_data env app sec = Inr v"
    by (cases "get_data env app sec") auto
  then have obj: "is_obj v" by (rule get_data_is_obj)
  from Cons.prems(3) have fresh: "sec \<notin> fst ` set d" by auto
  have "set secs \<inter> fst ` set (d @ [(sec, v)]) = {}"
    using Cons.prems(1,3) by auto
  from Cons.IH [OF _ _ this] Cons.prems(1,2) v show ?case
    by (simp add: ne_setitem_obj [OF obj fresh])
qed

text \<open>
  C9. A GET without a section answers 200 with the full snapshot: one key per registered
  section, in the order of \<open>sections\<close>, each holding that section's tree (when every
  producer returns). A GET that names a section that is not registered answers 404. A
  GET that names a registered section and a path segment answers 400 when the segment
  is not a top-level key of the section's tree, and 200 with just that key's value when
  it is. The registered sections are \<open>main\<close>, \<open>metadata\<close>, \<open>notifiers\<close>, \<open>qualities\<close>,
  \<open>search\<close> and \<open>statuses\<close>.
\<close>

theorem get_dispatch:
  "(\<not> given identifier \<and> list_all (\<lambda>sec. \<not> isl (get_data env app sec)) sections \<longrightarrow>
      http_get env app identifier path_param
        = Inr (ok_response (JObj (map (\<lambda>sec. (sec, projr (get_data env app sec))) sections)))
      \<and> status (ok_response (JObj (map (\<lambda>sec. (sec, projr (get_data env app sec))) sections))) = 200)
   \<and> (given identifier \<and> text_of identifier \<notin> set sections \<longrightarrow>
      http_get env app identifier path_param = Inr (not_found ''Config not found'')
      \<and> status (not_found ''Config not found'') = 404)
   \<and> (given identifier \<and> text_of identifier \<in> set sections \<and> given path_param
       \<and> get_data env app (text_of identifier) = Inr (JObj d) \<longrightarrow>
      (map_of d (text_of path_param) = None \<longrightarrow>
         http_get env app identifier path_param
           = Inr (bad_request (text_of path_param @ '' is a invalid path''))
         \<and> status (bad_request (text_of path_param @ '' is a invalid path'')) = 400)
      \<and> (\<forall>v. map_of d (text_of path_param) = Some v \<longrightarrow>
         http_get env app identifier path_param = Inr (ok_response v)
         \<and> status (ok_response v) = 200))
   \<and> sections = [''main'', ''metadata'', ''notifiers'', ''qualities'', ''search'', ''statuses'']"
proof -
  have d: "distinct sections" by (simp add: sections_eval)
  have a: "http_get env app identifier path_param
        = Inr (ok_response (JObj (map (\<lambda>sec. (sec, projr (get_data env app sec))) sections)))"
    if "\<not> given identifier" "list_all (\<lambda>sec. \<not> isl (get_data env app sec)) sections"
    using that full_snapshot_all [OF d that(2), of "[]"] by (simp add: http_get_def)
  have b: "http_get env app identifier path_param = Inr (not_found ''Config not found'')"
    if "given identifier" "text_of identifier \<notin> set sections"
    using that by (simp add: http_get_def)
  have c: "http_get env app identifier path_param
           = Inr (bad_request (text_of path_param @ '' is a invalid path''))"
    if "given identifier" "text_of identifier \<in> set sections" "given path_param"
      "get_data env app (text_of identifier) = Inr (JObj d)" "map_of d (text_of path_param) = None"
    for d using that by (simp add: http_get_def)
  have e: "http_get env app identifier path_param = Inr (ok_response v)"
    if "given identifier" "text_of identifier \<in> set sections" "given path_param"
      "get_data env app (text_of identifier) = Inr (JObj d)" "map_of d (text_of path_param) = Some v"
    for d v using that by (simp add: http_get_def)
  from a b c e sections_eval show ?thesis
    by (simp add: ok_response_def not_found_def bad_request_def)
qed


lemma ne_dict_absent_key:
  assumes "ne_dict es = Inr (JObj d)" and "map_of es k = None"
  shows "map_of d k = None"
proof -
  from assms(2) have "k \<notin> fst ` set es" by (simp add: map_of_eq_None_iff)
  from build_dict_absent [OF assms(1) [unfolded ne_dict_def] this] show ?thesis by simp
qed

lemma example_sections_ok:
  "list_all (\<lambda>sec. \<not> isl (get_data (example_env JNull) example_app sec)) sections"
proof -
  have "\<not> isl (data_main (example_env JNull) example_app)"
    unfolding data_main_def
    by (simp add: isl_ne_dict isl_plain_dict isl_py_bool_of example_env_def example_app_def
        py_or_def locale_text_def lowered_keys_def)
  moreover have "\<not> isl (data_metadata (example_env JNull) example_app)"
    unfolding data_metadata_def
    by (simp add: isl_ne_dict example_env_def)
  moreover have "\<not> isl (data_notifiers (example_env JNull) example_app)"
    unfolding data_notifiers_def
    by (simp add: isl_ne_dict isl_py_bool_of example_env_def example_app_def)
  moreover have "\<not> isl (data_qualities (example_env JNull) example_app)"
    unfolding data_qualities_def
    by (simp add: isl_ne_dict)
  moreover have "\<not> isl (data_search (example_env JNull) example_app)"
    unfolding data_search_def
    by (simp add: isl_ne_dict isl_py_bool_of example_env_def example_app_def)
  moreover have "\<not> isl (data_statuses (example_env JNull) example_app)"
    unfolding data_statuses_def
    by (simp add: isl_ne_dict)
  ultimately show ?thesis
    by (simp add: sections_eval get_data_def members_def)
qed

lemma example_main_without_key:
  "\<exists>d. get_data (example_env JNull) example_app ''main'' = Inr (JObj d)
       \<and> map_of d ''doesnotexist'' = None"
proof -
  from example_sections_ok have "\<not> isl (get_data (example_env JNull) example_app ''main'')"
    by (simp add: sections_eval)
  then obtain t where t: "data_main (example_env JNull) example_app = Inr t"
    by (cases "data_main (example_env JNull) example_app") (auto simp: get_data_main)
  then have "is_obj t" unfolding data_main_def by (rule ne_dict_is_obj)
  then obtain d where d: "t = JObj d" by (cases t) auto
  have "map_of d ''doesnotexist'' = None"
    using t [unfolded d data_main_def]
    by (rule ne_dict_absent_key) (rule map_of_end | (rule map_of_miss, simp))+
  with t d show ?thesis by (simp add: get_data_main)
qed

lemma example_statuses:
  "get_data (example_env JNull) example_app ''statuses''
     = Inr (JObj [(''values'',
                   JObj [(''unset'', JInt 0), (''unaired'', JInt 0), (''snatched'', JInt 0),
                         (''wanted'', JInt 0), (''downloaded'', JInt 0), (''skipped'', JInt 0),
                         (''archived'', JInt 0), (''ignored'', JInt 0),
                         (''snatchedProper'', JInt 0), (''subtitled'', JInt 0),
                         (''failed'', JInt 0), (''snatchedBest'', JInt 0)]),
                  (''strings'', JInt 0)])"
  by (simp add: get_data_def members_def data_statuses_def ne_dict_def ne_setitem_def
      example_env_def)

theorem get_dispatch_witness:
  "http_get (example_env JNull) example_app None None
     = Inr (Response 200
         (JObj (map (\<lambda>sec. (sec, projr (get_data (example_env JNull) example_app sec)))
                  [''main'', ''metadata'', ''notifiers'', ''qualities'', ''search'', ''statuses''])))
   \<and> http_get (example_env JNull) example_app (Some ''doesnotexist'') None
     = Inr (Response 404 (JStr ''Config not found''))
   \<and> http_get (example_env JNull) example_app (Some ''main'') (Some ''doesnotexist'')
     = Inr (Response 400 (JStr ''doesnotexist is a invalid path''))
   \<and> http_get (example_env JNull) example_app (Some ''statuses'') (Some ''strings'')
     = Inr (Response 200 (JInt 0))"
proof -
  from example_main_without_key obtain dm where
    dm: "get_data (example_env JNull) example_app ''main'' = Inr (JObj dm)"
      "map_of dm ''doesnotexist'' = None" by blast
  note a = get_dispatch [where env = "example_env JNull" and app = example_app
      and ?identifier = None and path_param = None]
  note b = get_dispatch [where env = "example_env JNull" and app = example_app
      and ?identifier = "Some ''doesnotexist''" and path_param = None]
  note c = get_dispatch [where env = "example_env JNull" and app = example_app
      and ?identifier = "Some ''main''" and path_param = "Some ''doesnotexist''" and d = dm]
  note e = get_dispatch [where env = "example_env JNull" and app = example_app
      and ?identifier = "Some ''statuses''" and path_param = "Some ''strings''"
      and d = "[(''values'',
                   JObj [(''unset'', JInt 0), (''unaired'', JInt 0), (''snatched'', JInt 0),
                         (''wanted'', JInt 0), (''downloaded'', JInt 0), (''skipped'', JInt 0),
                         (''archived'', JInt 0), (''ignored'', JInt 0),
                         (''snatchedProper'', JInt 0), (''subtitled'', JInt 0),
                         (''failed'', JInt 0), (''snatchedBest'', JInt 0)]),
                  (''strings'', JInt 0)]"]
  have 1: "http_get (example_env JNull) example_app None None
     = Inr (Response 200
         (JObj (map (\<lambda>sec. (sec, projr (get_data (example_env JNull) example_app sec)))
                  [''main'', ''metadata'', ''notifiers'', ''qualities'', ''search'', ''statuses''])))"
    using a example_sections_ok by (simp add: given_def ok_response_def sections_eval)
  have 2: "http_get (example_env JNull) example_app (Some ''doesnotexist'') None
     = Inr (Response 404 (JStr ''Config not found''))"
    using b by (simp add: given_def text_of_def not_found_def sections_eval)
  have 3: "http_get (example_env JNull) example_app (Some ''main'') (Some ''doesnotexist'')
     = Inr (Response 400 (JStr ''doesnotexist is a invalid path''))"
    using c dm by (simp add: given_def text_of_def bad_request_def sections_eval)
  have 4: "http_get (example_env JNull) example_app (Some ''statuses'') (Some ''strings'')
     = Inr (Response 200 (JInt 0))"
    using e example_statuses by (simp add: given_def text_of_def ok_response_def sections_eval)
  from 1 2 3 4 show ?thesis by (simp only: simp_thms)
qed

section \<open>Paths that share an attribute\<close>

lemma patch_BooleanField: "patch env (BooleanField attr) app v = (app(attr := JBool (py_bool v)), True)"
  by (simp add: field_defs patch_defs)

text \<open>
  C10, as amended. The table binds the two distinct paths \<open>emby.enabled\<close> and
  \<open>notifiers.emby.enabled\<close> to the one attribute \<^verbatim>\<open>USE_EMBY\<close>. A leaf at either path is
  accepted and assigns the boolean coercion of its value to \<^verbatim>\<open>USE_EMBY\<close>, and the
  notifiers snapshot read afterwards holds that boolean at \<open>emby.enabled\<close>: a write
  through one of the two paths changes what is read back for the other.
\<close>

theorem aliased_paths_share_attributes:
  "''emby.enabled'' \<noteq> ''notifiers.emby.enabled''
   \<and> (key \<in> {''emby.enabled'', ''notifiers.emby.enabled''} \<longrightarrow>
      (\<exists>f. map_of (patches env) key = Some f \<and> attribute f = ''USE_EMBY'')
      \<and> (\<exists>accepted.
            dispatch env [(key, v)] app [] []
              = ((app(''USE_EMBY'' := JBool (py_bool v)), accepted, []), None)
            \<and> lookup_path (JObj accepted) (split_dot key) = Some v)
      \<and> (\<not> isl (get_data env (app(''USE_EMBY'' := JBool (py_bool v))) ''notifiers'') \<longrightarrow>
            read_path (get_data env (app(''USE_EMBY'' := JBool (py_bool v))) ''notifiers'')
              [''emby'', ''enabled'']
            = Some (JBool (py_bool v))))"
proof -
  let ?app' = "app(''USE_EMBY'' := JBool (py_bool v))"
  have table: "map_of (patches env) key = Some (BooleanField ''USE_EMBY'')"
    if "key \<in> {''emby.enabled'', ''notifiers.emby.enabled''}"
    using that patches_emby_enabled patches_notifiers_emby_enabled by auto
  have attr: "\<exists>f. map_of (patches env) key = Some f \<and> attribute f = ''USE_EMBY''"
    if "key \<in> {''emby.enabled'', ''notifiers.emby.enabled''}"
    using table [OF that] by (simp add: field_defs)
  have run: "\<exists>accepted.
            dispatch env [(key, v)] app [] [] = ((?app', accepted, []), None)
            \<and> lookup_path (JObj accepted) (split_dot key) = Some v"
    if "key \<in> {''emby.enabled'', ''notifiers.emby.enabled''}"
  proof -
    from set_nested_value_empty obtain t where t: "set_nested_value [] key v = Inr t" by blast
    from table [OF that] t set_nested_value_lookup [OF t] show ?thesis
      by (simp add: patch_BooleanField)
  qed
  have rd: "read_path (data_notifiers env ?app') [''emby'', ''enabled'']
            = Some (JBool (py_bool v))"
    if ok: "\<not> isl (data_notifiers env ?app')"
    using ok unfolding data_notifiers_def
    by (simp add: read_path_ne_dict kept_in_ne_dict kept_in_py_bool_of isl_ne_dict isl_py_bool_of)
  from attr run rd show ?thesis
    by (simp only: get_data_notifiers) blast
qed

theorem aliased_paths_share_attributes_witness:
  "dispatch (example_env JNull) [(''emby.enabled'', JBool True)] example_app [] []
     = ((example_app(''USE_EMBY'' := JBool True),
         [(''emby'', JObj [(''enabled'', JBool True)])], []), None)
   \<and> read_path
        (get_data (example_env JNull) (example_app(''USE_EMBY'' := JBool True)) ''notifiers'')
        [''emby'', ''enabled'']
     = Some (JBool True)
   \<and> read_path (get_data (example_env JNull) example_app ''notifiers'') [''emby'', ''enabled'']
     = Some (JBool False)"
proof -
  let ?app' = "example_app(''USE_EMBY'' := JBool True)"
  have ok: "\<not> isl (get_data (example_env JNull) ?app' ''notifiers'')"
    unfolding get_data_notifiers data_notifiers_def
    by (simp add: isl_ne_dict isl_py_bool_of example_env_def example_app_def)
  have ok0: "\<not> isl (data_notifiers (example_env JNull) example_app)"
    unfolding data_notifiers_def
    by (simp add: isl_ne_dict isl_py_bool_of example_env_def example_app_def)
  note w = aliased_paths_share_attributes [where env = "example_env JNull" and app = example_app
      and key = "''emby.enabled''" and v = "JBool True"]
  from w obtain accepted where
    d: "dispatch (example_env JNull) [(''emby.enabled'', JBool True)] example_app [] []
          = ((?app', accepted, []), None)" by auto
  have a: "snd (fst (dispatch (example_env JNull) [(''emby.enabled'', JBool True)] example_app [] []))
      = ([(''emby'', JObj [(''enabled'', JBool True)])], [])"
    by (simp add: patches_emby_enabled patch_BooleanField set_nested_value_def)
  from w ok have r: "read_path (get_data (example_env JNull) ?app' ''notifiers'') [''emby'', ''enabled'']
     = Some (JBool True)" by simp
  have r0: "read_path (data_notifiers (example_env JNull) example_app) [''emby'', ''enabled'']
     = Some (JBool False)"
    using ok0 unfolding data_notifiers_def by (simp add: read_rules example_app_def)
  from d a r r0 show ?thesis by (simp add: get_data_notifiers)
qed

text \<open>
  The claim as first stated fails for the kodi pair: an accepted write at
  \<open>notifiers.kodi.enabled\<close> sets \<^verbatim>\<open>USE_KODI\<close>, and the value read back under
  \<open>kodi.alwaysOn\<close>, which the read side takes from \<^verbatim>\<open>KODI_ALWAYS_ON\<close>, is what it was
  before.
\<close>

theorem aliased_paths_counterexample:
  "patch_main (example_env JNull)
      (example_app(''KODI_ALWAYS_ON'' := JBool False, ''USE_KODI'' := JBool False))
      (JObj [(''notifiers'', JObj [(''kodi'', JObj [(''enabled'', JBool True)])])])
     = ((example_app(''KODI_ALWAYS_ON'' := JBool False, ''USE_KODI'' := JBool True),
         [(''notifiers'', JObj [(''kodi'', JObj [(''enabled'', JBool True)])])], []),
        None)
   \<and> read_path
        (get_data (example_env JNull)
           (example_app(''KODI_ALWAYS_ON'' := JBool False, ''USE_KODI'' := JBool False))
           ''notifiers'')
        [''kodi'', ''alwaysOn'']
     = Some (JBool False)
   \<and> read_path
        (get_data (example_env JNull)
           (example_app(''KODI_ALWAYS_ON'' := JBool False, ''USE_KODI'' := JBool True))
           ''notifiers'')
        [''kodi'', ''alwaysOn'']
     = Some (JBool False)"
proof -
  let ?app = "example_app(''KODI_ALWAYS_ON'' := JBool False, ''USE_KODI'' := JBool False)"
  let ?app' = "example_app(''KODI_ALWAYS_ON'' := JBool False, ''USE_KODI'' := JBool True)"
  have run: "patch_main (example_env JNull) ?app
      (JObj [(''notifiers'', JObj [(''kodi'', JObj [(''enabled'', JBool True)])])])
     = ((?app', [(''notifiers'', JObj [(''kodi'', JObj [(''enabled'', JBool True)])])], []),
        None)"
    by (simp add: patch_main_def extract_metadata_def patches_kodi_enabled field_defs patch_defs
        set_nested_value_def)
  have ok: "\<not> isl (data_notifiers (example_env JNull) ?app)"
    unfolding data_notifiers_def
    by (simp add: isl_ne_dict isl_py_bool_of example_env_def example_app_def)
  have ok': "\<not> isl (data_notifiers (example_env JNull) ?app')"
    unfolding data_notifiers_def
    by (simp add: isl_ne_dict isl_py_bool_of example_env_def example_app_def)
  have r1: "read_path (data_notifiers (example_env JNull) ?app) [''kodi'', ''alwaysOn'']
      = Some (JBool False)"
    using ok unfolding data_notifiers_def by (simp add: read_rules)
  have r2: "read_path (data_notifiers (example_env JNull) ?app') [''kodi'', ''alwaysOn'']
      = Some (JBool False)"
    using ok' unfolding data_notifiers_def by (simp add: read_rules)
  from run r1 r2 show ?thesis by (simp only: get_data_notifiers simp_thms)
qed

end
